theory Spec2Isabelle
  imports Main "HOL-Library.Char_ord" "HOL-Library.Monad_Syntax"
begin

section \<open>Tokens\<close>

text \<open>
  Package \<^verbatim>\<open>token\<close>: \<^verbatim>\<open>type Token int\<close>, the kinds numbered by \<^verbatim>\<open>iota\<close> in the order
  of the constant block. A kind is written \<open>token_X\<close> for the source's \<^verbatim>\<open>token.X\<close>; the
  numbers are those the Go compiler assigns.
\<close>

type_synonym token = nat

abbreviation (input) token_ILLEGAL :: token where "token_ILLEGAL \<equiv> 0"
abbreviation (input) token_EOF :: token where "token_EOF \<equiv> 1"
abbreviation (input) token_COMMENT :: token where "token_COMMENT \<equiv> 2"
abbreviation (input) token_literalBeg :: token where "token_literalBeg \<equiv> 3"
abbreviation (input) token_IDENT :: token where "token_IDENT \<equiv> 4"
abbreviation (input) token_INT :: token where "token_INT \<equiv> 5"
abbreviation (input) token_FLOAT :: token where "token_FLOAT \<equiv> 6"
abbreviation (input) token_STRING :: token where "token_STRING \<equiv> 7"
abbreviation (input) token_BLOB :: token where "token_BLOB \<equiv> 8"
abbreviation (input) token_PARAM :: token where "token_PARAM \<equiv> 9"
abbreviation (input) token_literalEnd :: token where "token_literalEnd \<equiv> 10"
abbreviation (input) token_operatorBeg :: token where "token_operatorBeg \<equiv> 11"
abbreviation (input) token_PLUS :: token where "token_PLUS \<equiv> 12"
abbreviation (input) token_MINUS :: token where "token_MINUS \<equiv> 13"
abbreviation (input) token_ASTERISK :: token where "token_ASTERISK \<equiv> 14"
abbreviation (input) token_SLASH :: token where "token_SLASH \<equiv> 15"
abbreviation (input) token_PERCENT :: token where "token_PERCENT \<equiv> 16"
abbreviation (input) token_EQ :: token where "token_EQ \<equiv> 17"
abbreviation (input) token_NEQ :: token where "token_NEQ \<equiv> 18"
abbreviation (input) token_LT :: token where "token_LT \<equiv> 19"
abbreviation (input) token_GT :: token where "token_GT \<equiv> 20"
abbreviation (input) token_LTE :: token where "token_LTE \<equiv> 21"
abbreviation (input) token_GTE :: token where "token_GTE \<equiv> 22"
abbreviation (input) token_LPAREN :: token where "token_LPAREN \<equiv> 23"
abbreviation (input) token_RPAREN :: token where "token_RPAREN \<equiv> 24"
abbreviation (input) token_LBRACKET :: token where "token_LBRACKET \<equiv> 25"
abbreviation (input) token_RBRACKET :: token where "token_RBRACKET \<equiv> 26"
abbreviation (input) token_COMMA :: token where "token_COMMA \<equiv> 27"
abbreviation (input) token_SEMICOLON :: token where "token_SEMICOLON \<equiv> 28"
abbreviation (input) token_DOT :: token where "token_DOT \<equiv> 29"
abbreviation (input) token_COLON :: token where "token_COLON \<equiv> 30"
abbreviation (input) token_DCOLON :: token where "token_DCOLON \<equiv> 31"
abbreviation (input) token_CONCAT :: token where "token_CONCAT \<equiv> 32"
abbreviation (input) token_BITAND :: token where "token_BITAND \<equiv> 33"
abbreviation (input) token_BITOR :: token where "token_BITOR \<equiv> 34"
abbreviation (input) token_BITXOR :: token where "token_BITXOR \<equiv> 35"
abbreviation (input) token_BITNOT :: token where "token_BITNOT \<equiv> 36"
abbreviation (input) token_LSHIFT :: token where "token_LSHIFT \<equiv> 37"
abbreviation (input) token_RSHIFT :: token where "token_RSHIFT \<equiv> 38"
abbreviation (input) token_ARROW :: token where "token_ARROW \<equiv> 39"
abbreviation (input) token_DARROW :: token where "token_DARROW \<equiv> 40"
abbreviation (input) token_HASHGT :: token where "token_HASHGT \<equiv> 41"
abbreviation (input) token_HASHDGT :: token where "token_HASHDGT \<equiv> 42"
abbreviation (input) token_QUESTION :: token where "token_QUESTION \<equiv> 43"
abbreviation (input) token_QUESTIONOR :: token where "token_QUESTIONOR \<equiv> 44"
abbreviation (input) token_QUESTIONAND :: token where "token_QUESTIONAND \<equiv> 45"
abbreviation (input) token_AT :: token where "token_AT \<equiv> 46"
abbreviation (input) token_ATAT :: token where "token_ATAT \<equiv> 47"
abbreviation (input) token_operatorEnd :: token where "token_operatorEnd \<equiv> 48"
abbreviation (input) token_keywordBeg :: token where "token_keywordBeg \<equiv> 49"
abbreviation (input) token_SELECT :: token where "token_SELECT \<equiv> 50"
abbreviation (input) token_FROM :: token where "token_FROM \<equiv> 51"
abbreviation (input) token_WHERE :: token where "token_WHERE \<equiv> 52"
abbreviation (input) token_AND :: token where "token_AND \<equiv> 53"
abbreviation (input) token_OR :: token where "token_OR \<equiv> 54"
abbreviation (input) token_XOR :: token where "token_XOR \<equiv> 55"
abbreviation (input) token_NOT :: token where "token_NOT \<equiv> 56"
abbreviation (input) token_IN :: token where "token_IN \<equiv> 57"
abbreviation (input) token_LIKE :: token where "token_LIKE \<equiv> 58"
abbreviation (input) token_ILIKE :: token where "token_ILIKE \<equiv> 59"
abbreviation (input) token_SIMILAR :: token where "token_SIMILAR \<equiv> 60"
abbreviation (input) token_BETWEEN :: token where "token_BETWEEN \<equiv> 61"
abbreviation (input) token_IS :: token where "token_IS \<equiv> 62"
abbreviation (input) token_ISNULL :: token where "token_ISNULL \<equiv> 63"
abbreviation (input) token_NOTNULL :: token where "token_NOTNULL \<equiv> 64"
abbreviation (input) token_NULL :: token where "token_NULL \<equiv> 65"
abbreviation (input) token_TRUE :: token where "token_TRUE \<equiv> 66"
abbreviation (input) token_FALSE :: token where "token_FALSE \<equiv> 67"
abbreviation (input) token_UNKNOWN :: token where "token_UNKNOWN \<equiv> 68"
abbreviation (input) token_AS :: token where "token_AS \<equiv> 69"
abbreviation (input) token_ALL :: token where "token_ALL \<equiv> 70"
abbreviation (input) token_DISTINCT :: token where "token_DISTINCT \<equiv> 71"
abbreviation (input) token_UNIQUE :: token where "token_UNIQUE \<equiv> 72"
abbreviation (input) token_JOIN :: token where "token_JOIN \<equiv> 73"
abbreviation (input) token_INNER :: token where "token_INNER \<equiv> 74"
abbreviation (input) token_LEFT :: token where "token_LEFT \<equiv> 75"
abbreviation (input) token_RIGHT :: token where "token_RIGHT \<equiv> 76"
abbreviation (input) token_FULL :: token where "token_FULL \<equiv> 77"
abbreviation (input) token_OUTER :: token where "token_OUTER \<equiv> 78"
abbreviation (input) token_CROSS :: token where "token_CROSS \<equiv> 79"
abbreviation (input) token_NATURAL :: token where "token_NATURAL \<equiv> 80"
abbreviation (input) token_ON :: token where "token_ON \<equiv> 81"
abbreviation (input) token_USING :: token where "token_USING \<equiv> 82"
abbreviation (input) token_ORDER :: token where "token_ORDER \<equiv> 83"
abbreviation (input) token_BY :: token where "token_BY \<equiv> 84"
abbreviation (input) token_ASC :: token where "token_ASC \<equiv> 85"
abbreviation (input) token_DESC :: token where "token_DESC \<equiv> 86"
abbreviation (input) token_NULLS :: token where "token_NULLS \<equiv> 87"
abbreviation (input) token_FIRST :: token where "token_FIRST \<equiv> 88"
abbreviation (input) token_LAST :: token where "token_LAST \<equiv> 89"
abbreviation (input) token_GROUP :: token where "token_GROUP \<equiv> 90"
abbreviation (input) token_HAVING :: token where "token_HAVING \<equiv> 91"
abbreviation (input) token_LIMIT :: token where "token_LIMIT \<equiv> 92"
abbreviation (input) token_OFFSET :: token where "token_OFFSET \<equiv> 93"
abbreviation (input) token_FETCH :: token where "token_FETCH \<equiv> 94"
abbreviation (input) token_NEXT :: token where "token_NEXT \<equiv> 95"
abbreviation (input) token_ROW :: token where "token_ROW \<equiv> 96"
abbreviation (input) token_ROWS :: token where "token_ROWS \<equiv> 97"
abbreviation (input) token_ONLY :: token where "token_ONLY \<equiv> 98"
abbreviation (input) token_PERCENT_KW :: token where "token_PERCENT_KW \<equiv> 99"
abbreviation (input) token_WITH :: token where "token_WITH \<equiv> 100"
abbreviation (input) token_TIES :: token where "token_TIES \<equiv> 101"
abbreviation (input) token_UNION :: token where "token_UNION \<equiv> 102"
abbreviation (input) token_INTERSECT :: token where "token_INTERSECT \<equiv> 103"
abbreviation (input) token_EXCEPT :: token where "token_EXCEPT \<equiv> 104"
abbreviation (input) token_INSERT :: token where "token_INSERT \<equiv> 105"
abbreviation (input) token_INTO :: token where "token_INTO \<equiv> 106"
abbreviation (input) token_VALUES :: token where "token_VALUES \<equiv> 107"
abbreviation (input) token_DEFAULT :: token where "token_DEFAULT \<equiv> 108"
abbreviation (input) token_RETURNING :: token where "token_RETURNING \<equiv> 109"
abbreviation (input) token_REPLACE :: token where "token_REPLACE \<equiv> 110"
abbreviation (input) token_IGNORE :: token where "token_IGNORE \<equiv> 111"
abbreviation (input) token_DUPLICATE :: token where "token_DUPLICATE \<equiv> 112"
abbreviation (input) token_KEY :: token where "token_KEY \<equiv> 113"
abbreviation (input) token_UPDATE :: token where "token_UPDATE \<equiv> 114"
abbreviation (input) token_SET :: token where "token_SET \<equiv> 115"
abbreviation (input) token_DELETE :: token where "token_DELETE \<equiv> 116"
abbreviation (input) token_CREATE :: token where "token_CREATE \<equiv> 117"
abbreviation (input) token_ALTER :: token where "token_ALTER \<equiv> 118"
abbreviation (input) token_DROP :: token where "token_DROP \<equiv> 119"
abbreviation (input) token_TABLE :: token where "token_TABLE \<equiv> 120"
abbreviation (input) token_INDEX :: token where "token_INDEX \<equiv> 121"
abbreviation (input) token_VIEW :: token where "token_VIEW \<equiv> 122"
abbreviation (input) token_DATABASE :: token where "token_DATABASE \<equiv> 123"
abbreviation (input) token_SCHEMA :: token where "token_SCHEMA \<equiv> 124"
abbreviation (input) token_IF :: token where "token_IF \<equiv> 125"
abbreviation (input) token_EXISTS :: token where "token_EXISTS \<equiv> 126"
abbreviation (input) token_TEMPORARY :: token where "token_TEMPORARY \<equiv> 127"
abbreviation (input) token_TEMP :: token where "token_TEMP \<equiv> 128"
abbreviation (input) token_UNLOGGED :: token where "token_UNLOGGED \<equiv> 129"
abbreviation (input) token_PRIMARY :: token where "token_PRIMARY \<equiv> 130"
abbreviation (input) token_FOREIGN :: token where "token_FOREIGN \<equiv> 131"
abbreviation (input) token_REFERENCES :: token where "token_REFERENCES \<equiv> 132"
abbreviation (input) token_CONSTRAINT :: token where "token_CONSTRAINT \<equiv> 133"
abbreviation (input) token_CHECK :: token where "token_CHECK \<equiv> 134"
abbreviation (input) token_CASCADE :: token where "token_CASCADE \<equiv> 135"
abbreviation (input) token_RESTRICT :: token where "token_RESTRICT \<equiv> 136"
abbreviation (input) token_NO :: token where "token_NO \<equiv> 137"
abbreviation (input) token_ACTION :: token where "token_ACTION \<equiv> 138"
abbreviation (input) token_DEFERRABLE :: token where "token_DEFERRABLE \<equiv> 139"
abbreviation (input) token_INITIALLY :: token where "token_INITIALLY \<equiv> 140"
abbreviation (input) token_DEFERRED :: token where "token_DEFERRED \<equiv> 141"
abbreviation (input) token_IMMEDIATE :: token where "token_IMMEDIATE \<equiv> 142"
abbreviation (input) token_COLUMN :: token where "token_COLUMN \<equiv> 143"
abbreviation (input) token_ADD :: token where "token_ADD \<equiv> 144"
abbreviation (input) token_RENAME :: token where "token_RENAME \<equiv> 145"
abbreviation (input) token_TO :: token where "token_TO \<equiv> 146"
abbreviation (input) token_MODIFY :: token where "token_MODIFY \<equiv> 147"
abbreviation (input) token_CHANGE :: token where "token_CHANGE \<equiv> 148"
abbreviation (input) token_INT_TYPE :: token where "token_INT_TYPE \<equiv> 149"
abbreviation (input) token_INTEGER :: token where "token_INTEGER \<equiv> 150"
abbreviation (input) token_SMALLINT :: token where "token_SMALLINT \<equiv> 151"
abbreviation (input) token_BIGINT :: token where "token_BIGINT \<equiv> 152"
abbreviation (input) token_TINYINT :: token where "token_TINYINT \<equiv> 153"
abbreviation (input) token_MEDIUMINT :: token where "token_MEDIUMINT \<equiv> 154"
abbreviation (input) token_REAL :: token where "token_REAL \<equiv> 155"
abbreviation (input) token_DOUBLE :: token where "token_DOUBLE \<equiv> 156"
abbreviation (input) token_PRECISION :: token where "token_PRECISION \<equiv> 157"
abbreviation (input) token_FLOAT_TYPE :: token where "token_FLOAT_TYPE \<equiv> 158"
abbreviation (input) token_DECIMAL :: token where "token_DECIMAL \<equiv> 159"
abbreviation (input) token_NUMERIC :: token where "token_NUMERIC \<equiv> 160"
abbreviation (input) token_CHAR :: token where "token_CHAR \<equiv> 161"
abbreviation (input) token_VARCHAR :: token where "token_VARCHAR \<equiv> 162"
abbreviation (input) token_TEXT :: token where "token_TEXT \<equiv> 163"
abbreviation (input) token_BLOB_TYPE :: token where "token_BLOB_TYPE \<equiv> 164"
abbreviation (input) token_BINARY :: token where "token_BINARY \<equiv> 165"
abbreviation (input) token_VARBINARY :: token where "token_VARBINARY \<equiv> 166"
abbreviation (input) token_DATE :: token where "token_DATE \<equiv> 167"
abbreviation (input) token_TIME :: token where "token_TIME \<equiv> 168"
abbreviation (input) token_DATETIME :: token where "token_DATETIME \<equiv> 169"
abbreviation (input) token_TIMESTAMP :: token where "token_TIMESTAMP \<equiv> 170"
abbreviation (input) token_YEAR :: token where "token_YEAR \<equiv> 171"
abbreviation (input) token_BOOLEAN :: token where "token_BOOLEAN \<equiv> 172"
abbreviation (input) token_BOOL :: token where "token_BOOL \<equiv> 173"
abbreviation (input) token_JSON :: token where "token_JSON \<equiv> 174"
abbreviation (input) token_JSONB :: token where "token_JSONB \<equiv> 175"
abbreviation (input) token_UUID :: token where "token_UUID \<equiv> 176"
abbreviation (input) token_SERIAL :: token where "token_SERIAL \<equiv> 177"
abbreviation (input) token_BIGSERIAL :: token where "token_BIGSERIAL \<equiv> 178"
abbreviation (input) token_SMALLSERIAL :: token where "token_SMALLSERIAL \<equiv> 179"
abbreviation (input) token_ARRAY :: token where "token_ARRAY \<equiv> 180"
abbreviation (input) token_UNSIGNED :: token where "token_UNSIGNED \<equiv> 181"
abbreviation (input) token_SIGNED :: token where "token_SIGNED \<equiv> 182"
abbreviation (input) token_ZEROFILL :: token where "token_ZEROFILL \<equiv> 183"
abbreviation (input) token_VARYING :: token where "token_VARYING \<equiv> 184"
abbreviation (input) token_ZONE :: token where "token_ZONE \<equiv> 185"
abbreviation (input) token_CASE :: token where "token_CASE \<equiv> 186"
abbreviation (input) token_WHEN :: token where "token_WHEN \<equiv> 187"
abbreviation (input) token_THEN :: token where "token_THEN \<equiv> 188"
abbreviation (input) token_ELSE :: token where "token_ELSE \<equiv> 189"
abbreviation (input) token_END :: token where "token_END \<equiv> 190"
abbreviation (input) token_CAST :: token where "token_CAST \<equiv> 191"
abbreviation (input) token_CONVERT :: token where "token_CONVERT \<equiv> 192"
abbreviation (input) token_COLLATE :: token where "token_COLLATE \<equiv> 193"
abbreviation (input) token_OVER :: token where "token_OVER \<equiv> 194"
abbreviation (input) token_PARTITION :: token where "token_PARTITION \<equiv> 195"
abbreviation (input) token_WINDOW :: token where "token_WINDOW \<equiv> 196"
abbreviation (input) token_FILTER :: token where "token_FILTER \<equiv> 197"
abbreviation (input) token_WITHIN :: token where "token_WITHIN \<equiv> 198"
abbreviation (input) token_RESPECT :: token where "token_RESPECT \<equiv> 199"
abbreviation (input) token_NULLS_KW :: token where "token_NULLS_KW \<equiv> 200"
abbreviation (input) token_CURRENT :: token where "token_CURRENT \<equiv> 201"
abbreviation (input) token_UNBOUNDED :: token where "token_UNBOUNDED \<equiv> 202"
abbreviation (input) token_PRECEDING :: token where "token_PRECEDING \<equiv> 203"
abbreviation (input) token_FOLLOWING :: token where "token_FOLLOWING \<equiv> 204"
abbreviation (input) token_RANGE :: token where "token_RANGE \<equiv> 205"
abbreviation (input) token_GROUPS :: token where "token_GROUPS \<equiv> 206"
abbreviation (input) token_COUNT :: token where "token_COUNT \<equiv> 207"
abbreviation (input) token_SUM :: token where "token_SUM \<equiv> 208"
abbreviation (input) token_AVG :: token where "token_AVG \<equiv> 209"
abbreviation (input) token_MIN :: token where "token_MIN \<equiv> 210"
abbreviation (input) token_MAX :: token where "token_MAX \<equiv> 211"
abbreviation (input) token_COALESCE :: token where "token_COALESCE \<equiv> 212"
abbreviation (input) token_NULLIF :: token where "token_NULLIF \<equiv> 213"
abbreviation (input) token_GREATEST :: token where "token_GREATEST \<equiv> 214"
abbreviation (input) token_LEAST :: token where "token_LEAST \<equiv> 215"
abbreviation (input) token_ANY :: token where "token_ANY \<equiv> 216"
abbreviation (input) token_SOME :: token where "token_SOME \<equiv> 217"
abbreviation (input) token_EVERY :: token where "token_EVERY \<equiv> 218"
abbreviation (input) token_LATERAL :: token where "token_LATERAL \<equiv> 219"
abbreviation (input) token_RECURSIVE :: token where "token_RECURSIVE \<equiv> 220"
abbreviation (input) token_MATERIALIZED :: token where "token_MATERIALIZED \<equiv> 221"
abbreviation (input) token_FOR :: token where "token_FOR \<equiv> 222"
abbreviation (input) token_SHARE :: token where "token_SHARE \<equiv> 223"
abbreviation (input) token_NOWAIT :: token where "token_NOWAIT \<equiv> 224"
abbreviation (input) token_SKIP :: token where "token_SKIP \<equiv> 225"
abbreviation (input) token_LOCKED :: token where "token_LOCKED \<equiv> 226"
abbreviation (input) token_BEGIN :: token where "token_BEGIN \<equiv> 227"
abbreviation (input) token_COMMIT :: token where "token_COMMIT \<equiv> 228"
abbreviation (input) token_ROLLBACK :: token where "token_ROLLBACK \<equiv> 229"
abbreviation (input) token_SAVEPOINT :: token where "token_SAVEPOINT \<equiv> 230"
abbreviation (input) token_RELEASE :: token where "token_RELEASE \<equiv> 231"
abbreviation (input) token_TRANSACTION :: token where "token_TRANSACTION \<equiv> 232"
abbreviation (input) token_WORK :: token where "token_WORK \<equiv> 233"
abbreviation (input) token_ISOLATION :: token where "token_ISOLATION \<equiv> 234"
abbreviation (input) token_LEVEL :: token where "token_LEVEL \<equiv> 235"
abbreviation (input) token_READ :: token where "token_READ \<equiv> 236"
abbreviation (input) token_WRITE :: token where "token_WRITE \<equiv> 237"
abbreviation (input) token_COMMITTED :: token where "token_COMMITTED \<equiv> 238"
abbreviation (input) token_UNCOMMITTED :: token where "token_UNCOMMITTED \<equiv> 239"
abbreviation (input) token_REPEATABLE :: token where "token_REPEATABLE \<equiv> 240"
abbreviation (input) token_SERIALIZABLE :: token where "token_SERIALIZABLE \<equiv> 241"
abbreviation (input) token_SNAPSHOT :: token where "token_SNAPSHOT \<equiv> 242"
abbreviation (input) token_ORDINALITY :: token where "token_ORDINALITY \<equiv> 243"
abbreviation (input) token_ANALYZE :: token where "token_ANALYZE \<equiv> 244"
abbreviation (input) token_EXPLAIN :: token where "token_EXPLAIN \<equiv> 245"
abbreviation (input) token_VERBOSE :: token where "token_VERBOSE \<equiv> 246"
abbreviation (input) token_FORMAT :: token where "token_FORMAT \<equiv> 247"
abbreviation (input) token_COSTS :: token where "token_COSTS \<equiv> 248"
abbreviation (input) token_BUFFERS :: token where "token_BUFFERS \<equiv> 249"
abbreviation (input) token_TIMING :: token where "token_TIMING \<equiv> 250"
abbreviation (input) token_TRUNCATE :: token where "token_TRUNCATE \<equiv> 251"
abbreviation (input) token_VACUUM :: token where "token_VACUUM \<equiv> 252"
abbreviation (input) token_GRANT :: token where "token_GRANT \<equiv> 253"
abbreviation (input) token_REVOKE :: token where "token_REVOKE \<equiv> 254"
abbreviation (input) token_PRIVILEGES :: token where "token_PRIVILEGES \<equiv> 255"
abbreviation (input) token_PUBLIC :: token where "token_PUBLIC \<equiv> 256"
abbreviation (input) token_ROLE :: token where "token_ROLE \<equiv> 257"
abbreviation (input) token_USER :: token where "token_USER \<equiv> 258"
abbreviation (input) token_ADMIN :: token where "token_ADMIN \<equiv> 259"
abbreviation (input) token_OPTION :: token where "token_OPTION \<equiv> 260"
abbreviation (input) token_GRANTED :: token where "token_GRANTED \<equiv> 261"
abbreviation (input) token_INTERVAL :: token where "token_INTERVAL \<equiv> 262"
abbreviation (input) token_EXTRACT :: token where "token_EXTRACT \<equiv> 263"
abbreviation (input) token_EPOCH :: token where "token_EPOCH \<equiv> 264"
abbreviation (input) token_CENTURY :: token where "token_CENTURY \<equiv> 265"
abbreviation (input) token_DECADE :: token where "token_DECADE \<equiv> 266"
abbreviation (input) token_MILLENNIUM :: token where "token_MILLENNIUM \<equiv> 267"
abbreviation (input) token_QUARTER :: token where "token_QUARTER \<equiv> 268"
abbreviation (input) token_MONTH :: token where "token_MONTH \<equiv> 269"
abbreviation (input) token_WEEK :: token where "token_WEEK \<equiv> 270"
abbreviation (input) token_DAY :: token where "token_DAY \<equiv> 271"
abbreviation (input) token_HOUR :: token where "token_HOUR \<equiv> 272"
abbreviation (input) token_MINUTE :: token where "token_MINUTE \<equiv> 273"
abbreviation (input) token_SECOND :: token where "token_SECOND \<equiv> 274"
abbreviation (input) token_MICROSECOND :: token where "token_MICROSECOND \<equiv> 275"
abbreviation (input) token_TIMEZONE :: token where "token_TIMEZONE \<equiv> 276"
abbreviation (input) token_TIMEZONE_HOUR :: token where "token_TIMEZONE_HOUR \<equiv> 277"
abbreviation (input) token_TIMEZONE_MINUTE :: token where "token_TIMEZONE_MINUTE \<equiv> 278"
abbreviation (input) token_SUBSTRING :: token where "token_SUBSTRING \<equiv> 279"
abbreviation (input) token_TRIM :: token where "token_TRIM \<equiv> 280"
abbreviation (input) token_LEADING :: token where "token_LEADING \<equiv> 281"
abbreviation (input) token_TRAILING :: token where "token_TRAILING \<equiv> 282"
abbreviation (input) token_BOTH :: token where "token_BOTH \<equiv> 283"
abbreviation (input) token_POSITION :: token where "token_POSITION \<equiv> 284"
abbreviation (input) token_OVERLAY :: token where "token_OVERLAY \<equiv> 285"
abbreviation (input) token_PLACING :: token where "token_PLACING \<equiv> 286"
abbreviation (input) token_SYMMETRIC :: token where "token_SYMMETRIC \<equiv> 287"
abbreviation (input) token_ASYMMETRIC :: token where "token_ASYMMETRIC \<equiv> 288"
abbreviation (input) token_ESCAPE :: token where "token_ESCAPE \<equiv> 289"
abbreviation (input) token_GLOB :: token where "token_GLOB \<equiv> 290"
abbreviation (input) token_REGEXP :: token where "token_REGEXP \<equiv> 291"
abbreviation (input) token_RLIKE :: token where "token_RLIKE \<equiv> 292"
abbreviation (input) token_MATCH :: token where "token_MATCH \<equiv> 293"
abbreviation (input) token_AGAINST :: token where "token_AGAINST \<equiv> 294"
abbreviation (input) token_SOUNDS :: token where "token_SOUNDS \<equiv> 295"
abbreviation (input) token_AUTOINCREMENT :: token where "token_AUTOINCREMENT \<equiv> 296"
abbreviation (input) token_ROWID :: token where "token_ROWID \<equiv> 297"
abbreviation (input) token_WITHOUT :: token where "token_WITHOUT \<equiv> 298"
abbreviation (input) token_AUTO_INCREMENT :: token where "token_AUTO_INCREMENT \<equiv> 299"
abbreviation (input) token_ENGINE :: token where "token_ENGINE \<equiv> 300"
abbreviation (input) token_CHARSET :: token where "token_CHARSET \<equiv> 301"
abbreviation (input) token_CHARACTER :: token where "token_CHARACTER \<equiv> 302"
abbreviation (input) token_COMMENT_KW :: token where "token_COMMENT_KW \<equiv> 303"
abbreviation (input) token_STORAGE :: token where "token_STORAGE \<equiv> 304"
abbreviation (input) token_MEMORY :: token where "token_MEMORY \<equiv> 305"
abbreviation (input) token_DISK :: token where "token_DISK \<equiv> 306"
abbreviation (input) token_TABLESPACE :: token where "token_TABLESPACE \<equiv> 307"
abbreviation (input) token_DATA :: token where "token_DATA \<equiv> 308"
abbreviation (input) token_DIRECTORY :: token where "token_DIRECTORY \<equiv> 309"
abbreviation (input) token_CONNECTION :: token where "token_CONNECTION \<equiv> 310"
abbreviation (input) token_PARTITION_KW :: token where "token_PARTITION_KW \<equiv> 311"
abbreviation (input) token_PARTITIONS :: token where "token_PARTITIONS \<equiv> 312"
abbreviation (input) token_SUBPARTITION :: token where "token_SUBPARTITION \<equiv> 313"
abbreviation (input) token_SUBPARTITIONS :: token where "token_SUBPARTITIONS \<equiv> 314"
abbreviation (input) token_HASH :: token where "token_HASH \<equiv> 315"
abbreviation (input) token_LINEAR :: token where "token_LINEAR \<equiv> 316"
abbreviation (input) token_LIST :: token where "token_LIST \<equiv> 317"
abbreviation (input) token_LESS :: token where "token_LESS \<equiv> 318"
abbreviation (input) token_THAN :: token where "token_THAN \<equiv> 319"
abbreviation (input) token_MAXVALUE :: token where "token_MAXVALUE \<equiv> 320"
abbreviation (input) token_ALGORITHM :: token where "token_ALGORITHM \<equiv> 321"
abbreviation (input) token_INPLACE :: token where "token_INPLACE \<equiv> 322"
abbreviation (input) token_COPY :: token where "token_COPY \<equiv> 323"
abbreviation (input) token_LOCK_KW :: token where "token_LOCK_KW \<equiv> 324"
abbreviation (input) token_NONE :: token where "token_NONE \<equiv> 325"
abbreviation (input) token_SHARED :: token where "token_SHARED \<equiv> 326"
abbreviation (input) token_EXCLUSIVE :: token where "token_EXCLUSIVE \<equiv> 327"
abbreviation (input) token_FORCE :: token where "token_FORCE \<equiv> 328"
abbreviation (input) token_USE :: token where "token_USE \<equiv> 329"
abbreviation (input) token_STRAIGHT_JOIN :: token where "token_STRAIGHT_JOIN \<equiv> 330"
abbreviation (input) token_SQL_CALC_FOUND_ROWS :: token where "token_SQL_CALC_FOUND_ROWS \<equiv> 331"
abbreviation (input) token_SQL_SMALL_RESULT :: token where "token_SQL_SMALL_RESULT \<equiv> 332"
abbreviation (input) token_SQL_BIG_RESULT :: token where "token_SQL_BIG_RESULT \<equiv> 333"
abbreviation (input) token_SQL_BUFFER_RESULT :: token where "token_SQL_BUFFER_RESULT \<equiv> 334"
abbreviation (input) token_HIGH_PRIORITY :: token where "token_HIGH_PRIORITY \<equiv> 335"
abbreviation (input) token_LOW_PRIORITY :: token where "token_LOW_PRIORITY \<equiv> 336"
abbreviation (input) token_DELAYED :: token where "token_DELAYED \<equiv> 337"
abbreviation (input) token_QUICK :: token where "token_QUICK \<equiv> 338"
abbreviation (input) token_CONCURRENT :: token where "token_CONCURRENT \<equiv> 339"
abbreviation (input) token_LOCAL :: token where "token_LOCAL \<equiv> 340"
abbreviation (input) token_INFILE :: token where "token_INFILE \<equiv> 341"
abbreviation (input) token_LOAD :: token where "token_LOAD \<equiv> 342"
abbreviation (input) token_OUTFILE :: token where "token_OUTFILE \<equiv> 343"
abbreviation (input) token_TERMINATED :: token where "token_TERMINATED \<equiv> 344"
abbreviation (input) token_ENCLOSED :: token where "token_ENCLOSED \<equiv> 345"
abbreviation (input) token_ESCAPED :: token where "token_ESCAPED \<equiv> 346"
abbreviation (input) token_LINES :: token where "token_LINES \<equiv> 347"
abbreviation (input) token_STARTING :: token where "token_STARTING \<equiv> 348"
abbreviation (input) token_OPTIONALLY :: token where "token_OPTIONALLY \<equiv> 349"
abbreviation (input) token_FIELDS :: token where "token_FIELDS \<equiv> 350"
abbreviation (input) token_ILIKE_KW :: token where "token_ILIKE_KW \<equiv> 351"
abbreviation (input) token_SIMILAR_KW :: token where "token_SIMILAR_KW \<equiv> 352"
abbreviation (input) token_RETURNING_KW :: token where "token_RETURNING_KW \<equiv> 353"
abbreviation (input) token_CONFLICT :: token where "token_CONFLICT \<equiv> 354"
abbreviation (input) token_DO :: token where "token_DO \<equiv> 355"
abbreviation (input) token_NOTHING :: token where "token_NOTHING \<equiv> 356"
abbreviation (input) token_OVERRIDING :: token where "token_OVERRIDING \<equiv> 357"
abbreviation (input) token_SYSTEM :: token where "token_SYSTEM \<equiv> 358"
abbreviation (input) token_VALUE :: token where "token_VALUE \<equiv> 359"
abbreviation (input) token_GENERATED :: token where "token_GENERATED \<equiv> 360"
abbreviation (input) token_ALWAYS :: token where "token_ALWAYS \<equiv> 361"
abbreviation (input) token_IDENTITY :: token where "token_IDENTITY \<equiv> 362"
abbreviation (input) token_STORED :: token where "token_STORED \<equiv> 363"
abbreviation (input) token_VIRTUAL :: token where "token_VIRTUAL \<equiv> 364"
abbreviation (input) token_INCLUDE :: token where "token_INCLUDE \<equiv> 365"
abbreviation (input) token_USING_KW :: token where "token_USING_KW \<equiv> 366"
abbreviation (input) token_BTREE :: token where "token_BTREE \<equiv> 367"
abbreviation (input) token_GIN :: token where "token_GIN \<equiv> 368"
abbreviation (input) token_GIST :: token where "token_GIST \<equiv> 369"
abbreviation (input) token_SPGIST :: token where "token_SPGIST \<equiv> 370"
abbreviation (input) token_BRIN :: token where "token_BRIN \<equiv> 371"
abbreviation (input) token_CONCURRENTLY :: token where "token_CONCURRENTLY \<equiv> 372"
abbreviation (input) token_ONLY_KW :: token where "token_ONLY_KW \<equiv> 373"
abbreviation (input) token_INHERIT :: token where "token_INHERIT \<equiv> 374"
abbreviation (input) token_INHERITS :: token where "token_INHERITS \<equiv> 375"
abbreviation (input) token_OF :: token where "token_OF \<equiv> 376"
abbreviation (input) token_OIDS :: token where "token_OIDS \<equiv> 377"
abbreviation (input) token_TABLESPACE_KW :: token where "token_TABLESPACE_KW \<equiv> 378"
abbreviation (input) token_OWNER :: token where "token_OWNER \<equiv> 379"
abbreviation (input) token_OWNED :: token where "token_OWNED \<equiv> 380"
abbreviation (input) token_OWNED_KW :: token where "token_OWNED_KW \<equiv> 381"
abbreviation (input) token_DEPENDS :: token where "token_DEPENDS \<equiv> 382"
abbreviation (input) token_EXTENSION :: token where "token_EXTENSION \<equiv> 383"
abbreviation (input) token_SEQUENCE :: token where "token_SEQUENCE \<equiv> 384"
abbreviation (input) token_CYCLE :: token where "token_CYCLE \<equiv> 385"
abbreviation (input) token_INCREMENT :: token where "token_INCREMENT \<equiv> 386"
abbreviation (input) token_MINVALUE :: token where "token_MINVALUE \<equiv> 387"
abbreviation (input) token_START :: token where "token_START \<equiv> 388"
abbreviation (input) token_CACHE :: token where "token_CACHE \<equiv> 389"
abbreviation (input) token_RESTART :: token where "token_RESTART \<equiv> 390"
abbreviation (input) token_CONTINUE :: token where "token_CONTINUE \<equiv> 391"
abbreviation (input) token_OWNED_BY :: token where "token_OWNED_BY \<equiv> 392"
abbreviation (input) token_TEMP_KW :: token where "token_TEMP_KW \<equiv> 393"
abbreviation (input) token_PRESERVE :: token where "token_PRESERVE \<equiv> 394"
abbreviation (input) token_DISPOSE :: token where "token_DISPOSE \<equiv> 395"
abbreviation (input) token_TOP :: token where "token_TOP \<equiv> 396"
abbreviation (input) token_NOLOCK :: token where "token_NOLOCK \<equiv> 397"
abbreviation (input) token_READUNCOMMITTED :: token where "token_READUNCOMMITTED \<equiv> 398"
abbreviation (input) token_READCOMMITTED :: token where "token_READCOMMITTED \<equiv> 399"
abbreviation (input) token_REPEATABLEREAD :: token where "token_REPEATABLEREAD \<equiv> 400"
abbreviation (input) token_ROWLOCK :: token where "token_ROWLOCK \<equiv> 401"
abbreviation (input) token_PAGLOCK :: token where "token_PAGLOCK \<equiv> 402"
abbreviation (input) token_TABLOCK :: token where "token_TABLOCK \<equiv> 403"
abbreviation (input) token_TABLOCKX :: token where "token_TABLOCKX \<equiv> 404"
abbreviation (input) token_UPDLOCK :: token where "token_UPDLOCK \<equiv> 405"
abbreviation (input) token_XLOCK :: token where "token_XLOCK \<equiv> 406"
abbreviation (input) token_HOLDLOCK :: token where "token_HOLDLOCK \<equiv> 407"
abbreviation (input) token_NOWAIT_KW :: token where "token_NOWAIT_KW \<equiv> 408"
abbreviation (input) token_PIVOT :: token where "token_PIVOT \<equiv> 409"
abbreviation (input) token_UNPIVOT :: token where "token_UNPIVOT \<equiv> 410"
abbreviation (input) token_APPLY :: token where "token_APPLY \<equiv> 411"
abbreviation (input) token_OUTER_APPLY :: token where "token_OUTER_APPLY \<equiv> 412"
abbreviation (input) token_CROSS_APPLY :: token where "token_CROSS_APPLY \<equiv> 413"
abbreviation (input) token_MERGE :: token where "token_MERGE \<equiv> 414"
abbreviation (input) token_OUTPUT_KW :: token where "token_OUTPUT_KW \<equiv> 415"
abbreviation (input) token_INSERTED :: token where "token_INSERTED \<equiv> 416"
abbreviation (input) token_DELETED_KW :: token where "token_DELETED_KW \<equiv> 417"
abbreviation (input) token_ROWNUM :: token where "token_ROWNUM \<equiv> 418"
abbreviation (input) token_ROWID_KW :: token where "token_ROWID_KW \<equiv> 419"
abbreviation (input) token_SYSDATE :: token where "token_SYSDATE \<equiv> 420"
abbreviation (input) token_SYSTIMESTAMP :: token where "token_SYSTIMESTAMP \<equiv> 421"
abbreviation (input) token_DUAL :: token where "token_DUAL \<equiv> 422"
abbreviation (input) token_CONNECT_KW :: token where "token_CONNECT_KW \<equiv> 423"
abbreviation (input) token_START_WITH :: token where "token_START_WITH \<equiv> 424"
abbreviation (input) token_PRIOR :: token where "token_PRIOR \<equiv> 425"
abbreviation (input) token_LEVEL_KW :: token where "token_LEVEL_KW \<equiv> 426"
abbreviation (input) token_NOCYCLE :: token where "token_NOCYCLE \<equiv> 427"
abbreviation (input) token_SIBLINGS :: token where "token_SIBLINGS \<equiv> 428"
abbreviation (input) token_MINUS_KW :: token where "token_MINUS_KW \<equiv> 429"
abbreviation (input) token_SAMPLE :: token where "token_SAMPLE \<equiv> 430"
abbreviation (input) token_SEED :: token where "token_SEED \<equiv> 431"
abbreviation (input) token_FLASHBACK :: token where "token_FLASHBACK \<equiv> 432"
abbreviation (input) token_SCN :: token where "token_SCN \<equiv> 433"
abbreviation (input) token_VERSIONS :: token where "token_VERSIONS \<equiv> 434"
abbreviation (input) token_KEEP :: token where "token_KEEP \<equiv> 435"
abbreviation (input) token_DENSE_RANK :: token where "token_DENSE_RANK \<equiv> 436"
abbreviation (input) token_FIRST_KW :: token where "token_FIRST_KW \<equiv> 437"
abbreviation (input) token_LAST_KW :: token where "token_LAST_KW \<equiv> 438"
abbreviation (input) token_MODEL :: token where "token_MODEL \<equiv> 439"
abbreviation (input) token_DIMENSION :: token where "token_DIMENSION \<equiv> 440"
abbreviation (input) token_MEASURES :: token where "token_MEASURES \<equiv> 441"
abbreviation (input) token_RULES :: token where "token_RULES \<equiv> 442"
abbreviation (input) token_ITERATE :: token where "token_ITERATE \<equiv> 443"
abbreviation (input) token_UNTIL :: token where "token_UNTIL \<equiv> 444"
abbreviation (input) token_RETURN_KW :: token where "token_RETURN_KW \<equiv> 445"
abbreviation (input) token_RETURNING_BULK :: token where "token_RETURNING_BULK \<equiv> 446"
abbreviation (input) token_BULK :: token where "token_BULK \<equiv> 447"
abbreviation (input) token_FORALL :: token where "token_FORALL \<equiv> 448"
abbreviation (input) token_COLLECT :: token where "token_COLLECT \<equiv> 449"
abbreviation (input) token_PIPELINED :: token where "token_PIPELINED \<equiv> 450"
abbreviation (input) token_keywordEnd :: token where "token_keywordEnd \<equiv> 451"

definition IsLiteral :: "token \<Rightarrow> bool" where
  "IsLiteral t = (t > token_literalBeg \<and> t < token_literalEnd)"

definition IsOperator :: "token \<Rightarrow> bool" where
  "IsOperator t = (t > token_operatorBeg \<and> t < token_operatorEnd)"

definition IsKeyword :: "token \<Rightarrow> bool" where
  "IsKeyword t = (t > token_keywordBeg \<and> t < token_keywordEnd)"

text \<open>The map \<^verbatim>\<open>keywords\<close> (here \<open>keywordsMap\<close>) of \<^verbatim>\<open>token/keywords.go\<close>, as an association list (its keys are distinct).\<close>

definition keywordsMap :: "(string \<times> token) list" where
  "keywordsMap = [
     (''select'', token_SELECT),
     (''from'', token_FROM),
     (''where'', token_WHERE),
     (''and'', token_AND),
     (''or'', token_OR),
     (''xor'', token_XOR),
     (''not'', token_NOT),
     (''in'', token_IN),
     (''like'', token_LIKE),
     (''ilike'', token_ILIKE),
     (''similar'', token_SIMILAR),
     (''between'', token_BETWEEN),
     (''is'', token_IS),
     (''isnull'', token_ISNULL),
     (''notnull'', token_NOTNULL),
     (''null'', token_NULL),
     (''true'', token_TRUE),
     (''false'', token_FALSE),
     (''unknown'', token_UNKNOWN),
     (''as'', token_AS),
     (''all'', token_ALL),
     (''distinct'', token_DISTINCT),
     (''unique'', token_UNIQUE),
     (''join'', token_JOIN),
     (''inner'', token_INNER),
     (''left'', token_LEFT),
     (''right'', token_RIGHT),
     (''full'', token_FULL),
     (''outer'', token_OUTER),
     (''cross'', token_CROSS),
     (''natural'', token_NATURAL),
     (''on'', token_ON),
     (''using'', token_USING),
     (''order'', token_ORDER),
     (''by'', token_BY),
     (''asc'', token_ASC),
     (''desc'', token_DESC),
     (''nulls'', token_NULLS),
     (''first'', token_FIRST),
     (''last'', token_LAST),
     (''group'', token_GROUP),
     (''having'', token_HAVING),
     (''limit'', token_LIMIT),
     (''offset'', token_OFFSET),
     (''fetch'', token_FETCH),
     (''next'', token_NEXT),
     (''row'', token_ROW),
     (''rows'', token_ROWS),
     (''only'', token_ONLY),
     (''percent'', token_PERCENT_KW),
     (''with'', token_WITH),
     (''ties'', token_TIES),
     (''union'', token_UNION),
     (''intersect'', token_INTERSECT),
     (''except'', token_EXCEPT),
     (''insert'', token_INSERT),
     (''into'', token_INTO),
     (''values'', token_VALUES),
     (''default'', token_DEFAULT),
     (''returning'', token_RETURNING),
     (''replace'', token_REPLACE),
     (''ignore'', token_IGNORE),
     (''duplicate'', token_DUPLICATE),
     (''key'', token_KEY),
     (''update'', token_UPDATE),
     (''set'', token_SET),
     (''delete'', token_DELETE),
     (''create'', token_CREATE),
     (''alter'', token_ALTER),
     (''drop'', token_DROP),
     (''table'', token_TABLE),
     (''index'', token_INDEX),
     (''view'', token_VIEW),
     (''database'', token_DATABASE),
     (''schema'', token_SCHEMA),
     (''if'', token_IF),
     (''exists'', token_EXISTS),
     (''temporary'', token_TEMPORARY),
     (''temp'', token_TEMP),
     (''unlogged'', token_UNLOGGED),
     (''primary'', token_PRIMARY),
     (''foreign'', token_FOREIGN),
     (''references'', token_REFERENCES),
     (''constraint'', token_CONSTRAINT),
     (''check'', token_CHECK),
     (''cascade'', token_CASCADE),
     (''restrict'', token_RESTRICT),
     (''no'', token_NO),
     (''action'', token_ACTION),
     (''deferrable'', token_DEFERRABLE),
     (''initially'', token_INITIALLY),
     (''deferred'', token_DEFERRED),
     (''immediate'', token_IMMEDIATE),
     (''column'', token_COLUMN),
     (''add'', token_ADD),
     (''rename'', token_RENAME),
     (''to'', token_TO),
     (''modify'', token_MODIFY),
     (''change'', token_CHANGE),
     (''int'', token_INT_TYPE),
     (''integer'', token_INTEGER),
     (''smallint'', token_SMALLINT),
     (''bigint'', token_BIGINT),
     (''tinyint'', token_TINYINT),
     (''mediumint'', token_MEDIUMINT),
     (''real'', token_REAL),
     (''double'', token_DOUBLE),
     (''precision'', token_PRECISION),
     (''float'', token_FLOAT_TYPE),
     (''decimal'', token_DECIMAL),
     (''numeric'', token_NUMERIC),
     (''char'', token_CHAR),
     (''varchar'', token_VARCHAR),
     (''text'', token_TEXT),
     (''blob'', token_BLOB_TYPE),
     (''binary'', token_BINARY),
     (''varbinary'', token_VARBINARY),
     (''date'', token_DATE),
     (''time'', token_TIME),
     (''datetime'', token_DATETIME),
     (''timestamp'', token_TIMESTAMP),
     (''year'', token_YEAR),
     (''boolean'', token_BOOLEAN),
     (''bool'', token_BOOL),
     (''json'', token_JSON),
     (''jsonb'', token_JSONB),
     (''uuid'', token_UUID),
     (''serial'', token_SERIAL),
     (''bigserial'', token_BIGSERIAL),
     (''smallserial'', token_SMALLSERIAL),
     (''array'', token_ARRAY),
     (''unsigned'', token_UNSIGNED),
     (''signed'', token_SIGNED),
     (''zerofill'', token_ZEROFILL),
     (''varying'', token_VARYING),
     (''zone'', token_ZONE),
     (''case'', token_CASE),
     (''when'', token_WHEN),
     (''then'', token_THEN),
     (''else'', token_ELSE),
     (''end'', token_END),
     (''cast'', token_CAST),
     (''convert'', token_CONVERT),
     (''collate'', token_COLLATE),
     (''over'', token_OVER),
     (''partition'', token_PARTITION),
     (''window'', token_WINDOW),
     (''filter'', token_FILTER),
     (''within'', token_WITHIN),
     (''respect'', token_RESPECT),
     (''current'', token_CURRENT),
     (''unbounded'', token_UNBOUNDED),
     (''preceding'', token_PRECEDING),
     (''following'', token_FOLLOWING),
     (''range'', token_RANGE),
     (''groups'', token_GROUPS),
     (''count'', token_COUNT),
     (''sum'', token_SUM),
     (''avg'', token_AVG),
     (''min'', token_MIN),
     (''max'', token_MAX),
     (''coalesce'', token_COALESCE),
     (''nullif'', token_NULLIF),
     (''greatest'', token_GREATEST),
     (''least'', token_LEAST),
     (''any'', token_ANY),
     (''some'', token_SOME),
     (''every'', token_EVERY),
     (''lateral'', token_LATERAL),
     (''recursive'', token_RECURSIVE),
     (''materialized'', token_MATERIALIZED),
     (''for'', token_FOR),
     (''share'', token_SHARE),
     (''nowait'', token_NOWAIT),
     (''skip'', token_SKIP),
     (''locked'', token_LOCKED),
     (''begin'', token_BEGIN),
     (''commit'', token_COMMIT),
     (''rollback'', token_ROLLBACK),
     (''savepoint'', token_SAVEPOINT),
     (''release'', token_RELEASE),
     (''transaction'', token_TRANSACTION),
     (''work'', token_WORK),
     (''isolation'', token_ISOLATION),
     (''level'', token_LEVEL),
     (''read'', token_READ),
     (''write'', token_WRITE),
     (''committed'', token_COMMITTED),
     (''uncommitted'', token_UNCOMMITTED),
     (''repeatable'', token_REPEATABLE),
     (''serializable'', token_SERIALIZABLE),
     (''snapshot'', token_SNAPSHOT),
     (''ordinality'', token_ORDINALITY),
     (''analyze'', token_ANALYZE),
     (''explain'', token_EXPLAIN),
     (''verbose'', token_VERBOSE),
     (''format'', token_FORMAT),
     (''costs'', token_COSTS),
     (''buffers'', token_BUFFERS),
     (''timing'', token_TIMING),
     (''truncate'', token_TRUNCATE),
     (''vacuum'', token_VACUUM),
     (''grant'', token_GRANT),
     (''revoke'', token_REVOKE),
     (''privileges'', token_PRIVILEGES),
     (''public'', token_PUBLIC),
     (''role'', token_ROLE),
     (''user'', token_USER),
     (''admin'', token_ADMIN),
     (''option'', token_OPTION),
     (''granted'', token_GRANTED),
     (''interval'', token_INTERVAL),
     (''extract'', token_EXTRACT),
     (''epoch'', token_EPOCH),
     (''century'', token_CENTURY),
     (''decade'', token_DECADE),
     (''millennium'', token_MILLENNIUM),
     (''quarter'', token_QUARTER),
     (''month'', token_MONTH),
     (''week'', token_WEEK),
     (''day'', token_DAY),
     (''hour'', token_HOUR),
     (''minute'', token_MINUTE),
     (''second'', token_SECOND),
     (''microsecond'', token_MICROSECOND),
     (''timezone'', token_TIMEZONE),
     (''timezone_hour'', token_TIMEZONE_HOUR),
     (''timezone_minute'', token_TIMEZONE_MINUTE),
     (''substring'', token_SUBSTRING),
     (''trim'', token_TRIM),
     (''leading'', token_LEADING),
     (''trailing'', token_TRAILING),
     (''both'', token_BOTH),
     (''position'', token_POSITION),
     (''overlay'', token_OVERLAY),
     (''placing'', token_PLACING),
     (''symmetric'', token_SYMMETRIC),
     (''asymmetric'', token_ASYMMETRIC),
     (''escape'', token_ESCAPE),
     (''glob'', token_GLOB),
     (''regexp'', token_REGEXP),
     (''rlike'', token_RLIKE),
     (''match'', token_MATCH),
     (''against'', token_AGAINST),
     (''sounds'', token_SOUNDS),
     (''autoincrement'', token_AUTOINCREMENT),
     (''rowid'', token_ROWID),
     (''without'', token_WITHOUT),
     (''auto_increment'', token_AUTO_INCREMENT),
     (''engine'', token_ENGINE),
     (''charset'', token_CHARSET),
     (''character'', token_CHARACTER),
     (''comment'', token_COMMENT_KW),
     (''storage'', token_STORAGE),
     (''memory'', token_MEMORY),
     (''disk'', token_DISK),
     (''tablespace'', token_TABLESPACE),
     (''data'', token_DATA),
     (''directory'', token_DIRECTORY),
     (''connection'', token_CONNECTION),
     (''partitions'', token_PARTITIONS),
     (''subpartition'', token_SUBPARTITION),
     (''subpartitions'', token_SUBPARTITIONS),
     (''hash'', token_HASH),
     (''linear'', token_LINEAR),
     (''list'', token_LIST),
     (''less'', token_LESS),
     (''than'', token_THAN),
     (''maxvalue'', token_MAXVALUE),
     (''algorithm'', token_ALGORITHM),
     (''inplace'', token_INPLACE),
     (''copy'', token_COPY),
     (''lock'', token_LOCK_KW),
     (''none'', token_NONE),
     (''shared'', token_SHARED),
     (''exclusive'', token_EXCLUSIVE),
     (''force'', token_FORCE),
     (''use'', token_USE),
     (''straight_join'', token_STRAIGHT_JOIN),
     (''sql_calc_found_rows'', token_SQL_CALC_FOUND_ROWS),
     (''sql_small_result'', token_SQL_SMALL_RESULT),
     (''sql_big_result'', token_SQL_BIG_RESULT),
     (''sql_buffer_result'', token_SQL_BUFFER_RESULT),
     (''high_priority'', token_HIGH_PRIORITY),
     (''low_priority'', token_LOW_PRIORITY),
     (''delayed'', token_DELAYED),
     (''quick'', token_QUICK),
     (''concurrent'', token_CONCURRENT),
     (''local'', token_LOCAL),
     (''infile'', token_INFILE),
     (''load'', token_LOAD),
     (''outfile'', token_OUTFILE),
     (''terminated'', token_TERMINATED),
     (''enclosed'', token_ENCLOSED),
     (''escaped'', token_ESCAPED),
     (''lines'', token_LINES),
     (''starting'', token_STARTING),
     (''optionally'', token_OPTIONALLY),
     (''fields'', token_FIELDS),
     (''conflict'', token_CONFLICT),
     (''do'', token_DO),
     (''nothing'', token_NOTHING),
     (''overriding'', token_OVERRIDING),
     (''system'', token_SYSTEM),
     (''value'', token_VALUE),
     (''generated'', token_GENERATED),
     (''always'', token_ALWAYS),
     (''identity'', token_IDENTITY),
     (''stored'', token_STORED),
     (''virtual'', token_VIRTUAL),
     (''include'', token_INCLUDE),
     (''btree'', token_BTREE),
     (''gin'', token_GIN),
     (''gist'', token_GIST),
     (''spgist'', token_SPGIST),
     (''brin'', token_BRIN),
     (''concurrently'', token_CONCURRENTLY),
     (''inherit'', token_INHERIT),
     (''inherits'', token_INHERITS),
     (''of'', token_OF),
     (''oids'', token_OIDS),
     (''owner'', token_OWNER),
     (''owned'', token_OWNED),
     (''depends'', token_DEPENDS),
     (''extension'', token_EXTENSION),
     (''sequence'', token_SEQUENCE),
     (''cycle'', token_CYCLE),
     (''increment'', token_INCREMENT),
     (''minvalue'', token_MINVALUE),
     (''start'', token_START),
     (''cache'', token_CACHE),
     (''restart'', token_RESTART),
     (''continue'', token_CONTINUE),
     (''preserve'', token_PRESERVE),
     (''dispose'', token_DISPOSE),
     (''top'', token_TOP),
     (''nolock'', token_NOLOCK),
     (''readuncommitted'', token_READUNCOMMITTED),
     (''readcommitted'', token_READCOMMITTED),
     (''repeatableread'', token_REPEATABLEREAD),
     (''rowlock'', token_ROWLOCK),
     (''paglock'', token_PAGLOCK),
     (''tablock'', token_TABLOCK),
     (''tablockx'', token_TABLOCKX),
     (''updlock'', token_UPDLOCK),
     (''xlock'', token_XLOCK),
     (''holdlock'', token_HOLDLOCK),
     (''pivot'', token_PIVOT),
     (''unpivot'', token_UNPIVOT),
     (''apply'', token_APPLY),
     (''merge'', token_MERGE),
     (''inserted'', token_INSERTED),
     (''rownum'', token_ROWNUM),
     (''sysdate'', token_SYSDATE),
     (''systimestamp'', token_SYSTIMESTAMP),
     (''dual'', token_DUAL),
     (''prior'', token_PRIOR),
     (''nocycle'', token_NOCYCLE),
     (''siblings'', token_SIBLINGS),
     (''sample'', token_SAMPLE),
     (''seed'', token_SEED),
     (''flashback'', token_FLASHBACK),
     (''scn'', token_SCN),
     (''versions'', token_VERSIONS),
     (''keep'', token_KEEP),
     (''dense_rank'', token_DENSE_RANK),
     (''model'', token_MODEL),
     (''dimension'', token_DIMENSION),
     (''measures'', token_MEASURES),
     (''rules'', token_RULES),
     (''iterate'', token_ITERATE),
     (''until'', token_UNTIL),
     (''bulk'', token_BULK),
     (''forall'', token_FORALL),
     (''collect'', token_COLLECT),
     (''pipelined'', token_PIPELINED)]"

definition isLowercase :: "string \<Rightarrow> bool" where
  "isLowercase s = list_all (\<lambda>c. \<not> (CHR ''A'' \<le> c \<and> c \<le> CHR ''Z'')) s"

text \<open>The slow path of \<^verbatim>\<open>LookupIdent\<close> adds 32 to every byte in \<^verbatim>\<open>'A'..'Z'\<close>.\<close>

definition lowerByte :: "char \<Rightarrow> char" where
  "lowerByte c = (if CHR ''A'' \<le> c \<and> c \<le> CHR ''Z'' then char_of (of_char c + (32::nat)) else c)"

definition lookupKeyword :: "string \<Rightarrow> token" where
  "lookupKeyword s = (case map_of keywordsMap s of Some tok \<Rightarrow> tok | None \<Rightarrow> token_IDENT)"

definition LookupIdent :: "string \<Rightarrow> token" where
  "LookupIdent ident =
     (if isLowercase ident then lookupKeyword ident
      else if length ident \<le> 32 then lookupKeyword (map lowerByte ident)
      else token_IDENT)"

text \<open>\<^verbatim>\<open>token.IsKeyword(ident string)\<close>, the predicate on identifier text.\<close>

definition IsKeywordIdent :: "string \<Rightarrow> bool" where
  "IsKeywordIdent ident = (LookupIdent ident \<noteq> token_IDENT)"

section \<open>Lexer\<close>

text \<open>
  Package \<^verbatim>\<open>lexer\<close>. The input is a Go string, a sequence of bytes: \<open>string\<close> here.
  Reading a byte or a substring outside the input panics in Go; \<open>byte_at\<close> and \<open>slice\<close>
  return \<open>None\<close> there, and every scanning function returns an option, \<open>None\<close> standing for
  the panic.
\<close>

record pos =
  Offset :: nat
  Line :: nat
  Column :: int

record item =
  Type :: token
  Value :: string
  Pos :: pos

record lexer =
  input :: string
  start :: nat
  pos :: nat
  line :: nat
  linePos :: nat
  item :: item
  peeked :: bool

definition byte_at :: "string \<Rightarrow> nat \<Rightarrow> char option" where
  "byte_at s i = (if i < length s then Some (s ! i) else None)"

definition slice :: "string \<Rightarrow> nat \<Rightarrow> nat \<Rightarrow> string option" where
  "slice s a b = (if a \<le> b \<and> b \<le> length s then Some (take (b - a) (drop a s)) else None)"

definition zeroItem :: item where
  "zeroItem = \<lparr>Type = token_ILLEGAL, Value = [], Pos = \<lparr>Offset = 0, Line = 0, Column = 0\<rparr>\<rparr>"

definition New :: "string \<Rightarrow> lexer" where
  "New inp = \<lparr>input = inp, start = 0, pos = 0, line = 1, linePos = 0, item = zeroItem, peeked = False\<rparr>"

definition makeItem :: "lexer \<Rightarrow> token \<Rightarrow> string \<Rightarrow> item" where
  "makeItem l typ val =
     \<lparr>Type = typ, Value = val,
      Pos = \<lparr>Offset = start l, Line = line l, Column = int (start l) - int (linePos l) + 1\<rparr>\<rparr>"

definition isDigit :: "char \<Rightarrow> bool" where
  "isDigit ch = (CHR ''0'' \<le> ch \<and> ch \<le> CHR ''9'')"

definition isIdentStart :: "char \<Rightarrow> bool" where
  "isIdentStart ch =
     ((CHR ''a'' \<le> ch \<and> ch \<le> CHR ''z'') \<or> (CHR ''A'' \<le> ch \<and> ch \<le> CHR ''Z'') \<or> ch = CHR ''_'')"

definition isIdentChar :: "char \<Rightarrow> bool" where
  "isIdentChar ch = (isIdentStart ch \<or> isDigit ch \<or> ch = CHR ''$'')"

definition isTagChar :: "char \<Rightarrow> bool" where
  "isTagChar ch = (isIdentStart ch \<or> isDigit ch)"

definition isHexDigit :: "char \<Rightarrow> bool" where
  "isHexDigit ch =
     (isDigit ch \<or> (CHR ''a'' \<le> ch \<and> ch \<le> CHR ''f'') \<or> (CHR ''A'' \<le> ch \<and> ch \<le> CHR ''F''))"

text \<open>\<^verbatim>\<open>l.pos++\<close> and \<^verbatim>\<open>l.pos += n\<close>.\<close>

definition bump :: "nat \<Rightarrow> lexer \<Rightarrow> lexer" where
  "bump n l = l\<lparr>pos := pos l + n\<rparr>"

text \<open>The newline accounting inside a token: \<^verbatim>\<open>l.line++; l.linePos = l.pos + 1\<close>.\<close>

definition newline :: "lexer \<Rightarrow> lexer" where
  "newline l = l\<lparr>line := line l + 1, linePos := pos l + 1\<rparr>"

text \<open>A token whose text is \<^verbatim>\<open>l.input[a:b]\<close>.\<close>

definition sliceItem :: "lexer \<Rightarrow> token \<Rightarrow> nat \<Rightarrow> nat \<Rightarrow> (item \<times> lexer) option" where
  "sliceItem l typ a b = do { v \<leftarrow> slice (input l) a b; Some (makeItem l typ v, l) }"

function skipWhitespace :: "lexer \<Rightarrow> lexer option" where
  "skipWhitespace l =
     (if pos l < length (input l) then
        do { ch \<leftarrow> byte_at (input l) (pos l);
             if ch = CHR '' '' \<or> ch = CHR 0x09 \<or> ch = CHR 0x0D then skipWhitespace (bump 1 l)
             else if ch = CHR 0x0A then
               skipWhitespace ((bump 1 l)\<lparr>line := line l + 1, linePos := pos l + 1\<rparr>)
             else Some l }
      else Some l)"
  by pat_completeness auto
termination
  by (relation "measure (\<lambda>l. length (input l) - pos l)") (auto simp: bump_def)

declare skipWhitespace.simps [simp del]

text \<open>
  The loops of the shape
  \<^verbatim>\<open>for l.pos < len(l.input) && P(l.input[l.pos]) { l.pos++ }\<close>.
\<close>

function advanceWhile :: "(char \<Rightarrow> bool) \<Rightarrow> lexer \<Rightarrow> lexer option" where
  "advanceWhile P l =
     (if pos l < length (input l) then
        do { ch \<leftarrow> byte_at (input l) (pos l);
             if P ch then advanceWhile P (bump 1 l) else Some l }
      else Some l)"
  by pat_completeness auto
termination
  by (relation "measure (\<lambda>(P, l). length (input l) - pos l)") (auto simp: bump_def)

declare advanceWhile.simps [simp del]

definition scanIdentifier :: "lexer \<Rightarrow> (item \<times> lexer) option" where
  "scanIdentifier l =
     do { l \<leftarrow> advanceWhile isIdentChar l;
          val \<leftarrow> slice (input l) (start l) (pos l);
          Some (makeItem l (LookupIdent val) val, l) }"

text \<open>\<^verbatim>\<open>l.pos+k < len(l.input) && l.input[l.pos+k] == c\<close>: the read is guarded by the bound.\<close>

definition byteIs :: "lexer \<Rightarrow> nat \<Rightarrow> char \<Rightarrow> bool" where
  "byteIs l k c = (pos l + k < length (input l) \<and> input l ! (pos l + k) = c)"

definition byteHas :: "lexer \<Rightarrow> nat \<Rightarrow> (char \<Rightarrow> bool) \<Rightarrow> bool" where
  "byteHas l k P = (pos l + k < length (input l) \<and> P (input l ! (pos l + k)))"

text \<open>
  \<^verbatim>\<open>scanNumber\<close>, in the source's sections: the hex form, the decimal part and the
  exponent. The last two may turn the kind \<^verbatim>\<open>tok\<close> into \<^verbatim>\<open>FLOAT\<close>.
\<close>

definition scanHex :: "lexer \<Rightarrow> (item \<times> lexer) option" where
  "scanHex l0 =
     do { l \<leftarrow> advanceWhile isHexDigit (bump 2 l0);
          sliceItem l token_INT (start l) (pos l) }"

definition scanDecimalPart :: "token \<Rightarrow> lexer \<Rightarrow> (token \<times> lexer) option" where
  "scanDecimalPart tok l =
     (if byteIs l 0 (CHR ''.'')
      then do { l \<leftarrow> advanceWhile isDigit (bump 1 l); Some (token_FLOAT, l) }
      else Some (tok, l))"

definition scanExponent :: "token \<Rightarrow> lexer \<Rightarrow> (token \<times> lexer) option" where
  "scanExponent tok l =
     (if byteIs l 0 (CHR ''e'') \<or> byteIs l 0 (CHR ''E'')
      then do { let l = bump 1 l;
                let l = (if byteIs l 0 (CHR ''+'') \<or> byteIs l 0 (CHR ''-'') then bump 1 l else l);
                l \<leftarrow> advanceWhile isDigit l;
                Some (token_FLOAT, l) }
      else Some (tok, l))"

definition scanNumber :: "lexer \<Rightarrow> (item \<times> lexer) option" where
  "scanNumber l0 =
     (if pos l0 + 1 < length (input l0) \<and> input l0 ! pos l0 = CHR ''0'' \<and>
         (input l0 ! (pos l0 + 1) = CHR ''x'' \<or> input l0 ! (pos l0 + 1) = CHR ''X'')
      then scanHex l0
      else do {
        l \<leftarrow> advanceWhile isDigit l0;
        if byteIs l 0 (CHR ''.'') \<and> byteIs l 1 (CHR ''.'')
        then sliceItem l token_INT (start l) (pos l)
        else do {
          (tok, l) \<leftarrow> scanDecimalPart token_INT l;
          (tok, l) \<leftarrow> scanExponent tok l;
          sliceItem l tok (start l) (pos l) } })"

text \<open>The bytes appended to \<^verbatim>\<open>buf\<close> for the escape sequence \<^verbatim>\<open>\next\<close> in \<^verbatim>\<open>scanString\<close>.\<close>

definition unescape :: "char \<Rightarrow> string" where
  "unescape next =
     (if next = CHR ''n'' then [CHR 0x0A]
      else if next = CHR ''t'' then [CHR 0x09]
      else if next = CHR ''r'' then [CHR 0x0D]
      else if next = CHR 0x5C then [CHR 0x5C]
      else if next = CHR 0x27 then [CHR 0x27]
      else if next = CHR 0x22 then [CHR 0x22]
      else [CHR 0x5C, next])"

text \<open>The loop of \<^verbatim>\<open>scanString\<close>, entered after the opening quote is skipped.\<close>

function scanStringLoop :: "char \<Rightarrow> string \<Rightarrow> lexer \<Rightarrow> (item \<times> lexer) option" where
  "scanStringLoop quote buf l =
     (if pos l < length (input l) then
        do { ch \<leftarrow> byte_at (input l) (pos l);
             if ch = quote then
               (if byteIs l 1 quote then scanStringLoop quote (buf @ [quote]) (bump 2 l)
                else Some (makeItem (bump 1 l) token_STRING buf, bump 1 l))
             else if ch = CHR 0x5C \<and> pos l + 1 < length (input l) then
               do { next \<leftarrow> byte_at (input l) (pos l + 1);
                    scanStringLoop quote (buf @ unescape next) (bump 2 l) }
             else
               scanStringLoop quote (buf @ [ch]) (bump 1 (if ch = CHR 0x0A then newline l else l)) }
      else sliceItem l token_ILLEGAL (start l) (pos l))"
  by pat_completeness auto
termination
  by (relation "measure (\<lambda>(q, b, l). length (input l) - pos l)")
     (auto simp: bump_def newline_def)

declare scanStringLoop.simps [simp del]

definition scanString :: "char \<Rightarrow> lexer \<Rightarrow> (item \<times> lexer) option" where
  "scanString quote l = scanStringLoop quote [] (bump 1 l)"

text \<open>
  The loop of \<^verbatim>\<open>scanQuotedIdentifier\<close>. \<^verbatim>\<open>buf\<close> is \<^verbatim>\<open>nil\<close> until the first append and
  never empty after it, so \<^verbatim>\<open>buf == nil\<close> is \<open>buf = []\<close>.
\<close>

function scanQuotedLoop :: "string \<Rightarrow> lexer \<Rightarrow> (item \<times> lexer) option" where
  "scanQuotedLoop buf l =
     (if pos l < length (input l) then
        do { ch \<leftarrow> byte_at (input l) (pos l);
             if ch = CHR 0x22 then
               (if byteIs l 1 (CHR 0x22) then scanQuotedLoop (buf @ [CHR 0x22]) (bump 2 l)
                else let l' = bump 1 l in
                  if buf = [] then sliceItem l' token_IDENT (start l' + 1) (pos l' - 1)
                  else Some (makeItem l' token_IDENT buf, l'))
             else
               scanQuotedLoop (buf @ [ch]) (bump 1 (if ch = CHR 0x0A then newline l else l)) }
      else sliceItem l token_ILLEGAL (start l) (pos l))"
  by pat_completeness auto
termination
  by (relation "measure (\<lambda>(b, l). length (input l) - pos l)")
     (auto simp: bump_def newline_def)

declare scanQuotedLoop.simps [simp del]

definition scanQuotedIdentifier :: "lexer \<Rightarrow> (item \<times> lexer) option" where
  "scanQuotedIdentifier l = scanQuotedLoop [] (bump 1 l)"

text \<open>
  The loops of \<^verbatim>\<open>scanBacktickIdentifier\<close> and \<^verbatim>\<open>scanBracketIdentifier\<close> are the same
  but for the closing byte \<open>close\<close> (a backtick, a \<^verbatim>\<open>]\<close>): a doubled closing byte is
  stepped over, a single one ends the identifier, whose text is \<^verbatim>\<open>l.input[l.start+1 : l.pos-1]\<close>.
\<close>

function scanClosedLoop :: "char \<Rightarrow> lexer \<Rightarrow> (item \<times> lexer) option" where
  "scanClosedLoop close l =
     (if pos l < length (input l) then
        do { ch \<leftarrow> byte_at (input l) (pos l);
             if ch = close then
               (if byteIs l 1 close then scanClosedLoop close (bump 2 l)
                else let l' = bump 1 l in sliceItem l' token_IDENT (start l' + 1) (pos l' - 1))
             else scanClosedLoop close (bump 1 (if ch = CHR 0x0A then newline l else l)) }
      else sliceItem l token_ILLEGAL (start l) (pos l))"
  by pat_completeness auto
termination
  by (relation "measure (\<lambda>(c, l). length (input l) - pos l)")
     (auto simp: bump_def newline_def)

declare scanClosedLoop.simps [simp del]

definition scanBacktickIdentifier :: "lexer \<Rightarrow> (item \<times> lexer) option" where
  "scanBacktickIdentifier l = scanClosedLoop (CHR 0x60) (bump 1 l)"

definition scanBracketIdentifier :: "lexer \<Rightarrow> (item \<times> lexer) option" where
  "scanBracketIdentifier l = scanClosedLoop (CHR '']'') (bump 1 l)"

definition scanBracketOrLBracket :: "lexer \<Rightarrow> (item \<times> lexer) option" where
  "scanBracketOrLBracket l =
     (if pos l + 1 < length (input l) \<and>
         (let next = input l ! (pos l + 1)
          in isIdentStart next \<or> next = CHR ''#'' \<or> next = CHR ''@'')
      then scanBracketIdentifier l
      else Some (makeItem (bump 1 l) token_LBRACKET ''['', bump 1 l))"

definition scanLineComment :: "lexer \<Rightarrow> (item \<times> lexer) option" where
  "scanLineComment l =
     do { l \<leftarrow> advanceWhile (\<lambda>c. c \<noteq> CHR 0x0A) (bump 1 l);
          sliceItem l token_COMMENT (start l) (pos l) }"

definition scanMinus :: "lexer \<Rightarrow> (item \<times> lexer) option" where
  "scanMinus l0 =
     (let l = bump 1 l0 in
      if byteIs l 0 (CHR ''-'') then scanLineComment l
      else if byteIs l 0 (CHR ''>'') then
        (let l = bump 1 l in
         if byteIs l 0 (CHR ''>'') then Some (makeItem l token_DARROW ''->>'', bump 1 l)
         else Some (makeItem l token_ARROW ''->'', l))
      else Some (makeItem l token_MINUS ''-'', l))"

text \<open>The loop of \<^verbatim>\<open>scanBlockComment\<close>, entered after the \<^verbatim>\<open>*\<close> is skipped.\<close>

function scanBlockLoop :: "lexer \<Rightarrow> (item \<times> lexer) option" where
  "scanBlockLoop l =
     (if pos l < length (input l) then
        do { ch \<leftarrow> byte_at (input l) (pos l);
             if ch = CHR ''*'' \<and> byteIs l 1 (CHR ''/'')
             then sliceItem (bump 2 l) token_COMMENT (start l) (pos l + 2)
             else scanBlockLoop (bump 1 (if ch = CHR 0x0A then newline l else l)) }
      else sliceItem l token_ILLEGAL (start l) (pos l))"
  by pat_completeness auto
termination
  by (relation "measure (\<lambda>l. length (input l) - pos l)") (auto simp: bump_def newline_def)

declare scanBlockLoop.simps [simp del]

definition scanBlockComment :: "lexer \<Rightarrow> (item \<times> lexer) option" where
  "scanBlockComment l = scanBlockLoop (bump 1 l)"

definition scanSlash :: "lexer \<Rightarrow> (item \<times> lexer) option" where
  "scanSlash l0 =
     (let l = bump 1 l0 in
      if byteIs l 0 (CHR ''*'') then scanBlockComment l
      else Some (makeItem l token_SLASH ''/'', l))"

definition scanLessThan :: "lexer \<Rightarrow> (item \<times> lexer) option" where
  "scanLessThan l0 =
     (let l = bump 1 l0 in
      if byteIs l 0 (CHR ''='') then Some (makeItem l token_LTE ''<='', bump 1 l)
      else if byteIs l 0 (CHR ''>'') then Some (makeItem l token_NEQ ''<>'', bump 1 l)
      else if byteIs l 0 (CHR ''<'') then Some (makeItem l token_LSHIFT ''<<'', bump 1 l)
      else Some (makeItem l token_LT ''<'', l))"

definition scanGreaterThan :: "lexer \<Rightarrow> (item \<times> lexer) option" where
  "scanGreaterThan l0 =
     (let l = bump 1 l0 in
      if byteIs l 0 (CHR ''='') then Some (makeItem l token_GTE ''>='', bump 1 l)
      else if byteIs l 0 (CHR ''>'') then Some (makeItem l token_RSHIFT ''>>'', bump 1 l)
      else Some (makeItem l token_GT ''>'', l))"

definition scanBang :: "lexer \<Rightarrow> (item \<times> lexer) option" where
  "scanBang l0 =
     (let l = bump 1 l0 in
      if byteIs l 0 (CHR ''='') then Some (makeItem l token_NEQ ''!='', bump 1 l)
      else Some (makeItem l token_ILLEGAL ''!'', l))"

definition scanPipe :: "lexer \<Rightarrow> (item \<times> lexer) option" where
  "scanPipe l0 =
     (let l = bump 1 l0 in
      if byteIs l 0 (CHR ''|'') then Some (makeItem l token_CONCAT ''||'', bump 1 l)
      else Some (makeItem l token_BITOR ''|'', l))"

definition scanQuestion :: "lexer \<Rightarrow> (item \<times> lexer) option" where
  "scanQuestion l0 =
     (let l = bump 1 l0 in
      if byteIs l 0 (CHR ''|'') then Some (makeItem l token_QUESTIONOR ''?|'', bump 1 l)
      else if byteIs l 0 (CHR ''&'') then Some (makeItem l token_QUESTIONAND ''?&'', bump 1 l)
      else Some (makeItem l token_PARAM ''?'', l))"

text \<open>
  The loop of \<^verbatim>\<open>scanDollarQuotedStringContent\<close>; \<open>cs\<close> is \<^verbatim>\<open>contentStart\<close> and \<open>ed\<close> is
  \<^verbatim>\<open>endDelim\<close>.
\<close>

function scanDollarLoop :: "nat \<Rightarrow> string \<Rightarrow> lexer \<Rightarrow> (item \<times> lexer) option" where
  "scanDollarLoop cs ed l =
     (if pos l < length (input l) then
        do { ch \<leftarrow> byte_at (input l) (pos l);
             if ch = CHR ''$'' \<and> pos l + length ed \<le> length (input l) \<and>
                slice (input l) (pos l) (pos l + length ed) = Some ed
             then do { content \<leftarrow> slice (input l) cs (pos l);
                       Some (makeItem l token_STRING content, bump (length ed) l) }
             else scanDollarLoop cs ed (bump 1 (if ch = CHR 0x0A then newline l else l)) }
      else sliceItem l token_ILLEGAL (start l) (pos l))"
  by pat_completeness auto
termination
  by (relation "measure (\<lambda>(c, e, l). length (input l) - pos l)")
     (auto simp: bump_def newline_def)

declare scanDollarLoop.simps [simp del]

definition scanDollarQuotedStringContent :: "string \<Rightarrow> lexer \<Rightarrow> (item \<times> lexer) option" where
  "scanDollarQuotedStringContent tag l = scanDollarLoop (pos l) (''$'' @ tag @ ''$'') l"

definition scanDollar :: "lexer \<Rightarrow> (item \<times> lexer) option" where
  "scanDollar l0 =
     (let l = bump 1 l0 in
      if byteHas l 0 isDigit then
        do { l \<leftarrow> advanceWhile isDigit l; sliceItem l token_PARAM (start l) (pos l) }
      else if pos l < length (input l) then
        do { ch \<leftarrow> byte_at (input l) (pos l);
             if ch = CHR ''$'' then scanDollarQuotedStringContent [] (bump 1 l)
             else if isIdentStart ch then
               do { let tagStart = pos l;
                    l \<leftarrow> advanceWhile isTagChar l;
                    if byteIs l 0 (CHR ''$'') then
                      do { tag \<leftarrow> slice (input l) tagStart (pos l);
                           scanDollarQuotedStringContent tag (bump 1 l) }
                    else let l = l\<lparr>pos := start l + 1\<rparr> in Some (makeItem l token_ILLEGAL ''$'', l) }
             else Some (makeItem l token_ILLEGAL ''$'', l) }
      else Some (makeItem l token_ILLEGAL ''$'', l))"

definition scanColon :: "lexer \<Rightarrow> (item \<times> lexer) option" where
  "scanColon l0 =
     (let l = bump 1 l0 in
      if byteIs l 0 (CHR '':'') then Some (makeItem l token_DCOLON ''::'', bump 1 l)
      else if byteHas l 0 isIdentStart then
        do { l \<leftarrow> advanceWhile isIdentChar l; sliceItem l token_PARAM (start l) (pos l) }
      else Some (makeItem l token_COLON '':'', l))"

text \<open>
  In \<^verbatim>\<open>scanHash\<close> three paths fall out of the \<^verbatim>\<open>switch\<close> into the comment loop at the end:
  end of input after \<^verbatim>\<open>#\<close>, \<^verbatim>\<open>##\<close> without an identifier (after \<^verbatim>\<open>l.pos -= 2\<close>), and any
  other byte after \<^verbatim>\<open>#\<close>.
\<close>

definition scanHashComment :: "lexer \<Rightarrow> (item \<times> lexer) option" where
  "scanHashComment l =
     do { l \<leftarrow> advanceWhile (\<lambda>c. c \<noteq> CHR 0x0A) l;
          sliceItem l token_COMMENT (start l) (pos l) }"

definition scanHash :: "lexer \<Rightarrow> (item \<times> lexer) option" where
  "scanHash l0 =
     (let l = bump 1 l0 in
      if pos l < length (input l) then
        do { ch \<leftarrow> byte_at (input l) (pos l);
             if ch = CHR ''>'' then
               (let l = bump 1 l in
                if byteIs l 0 (CHR ''>'') then Some (makeItem l token_HASHDGT ''#>>'', bump 1 l)
                else Some (makeItem l token_HASHGT ''#>'', l))
             else if ch = CHR ''#'' then
               (let l = bump 1 l in
                if byteHas l 0 isIdentStart then
                  do { l \<leftarrow> advanceWhile isIdentChar l; sliceItem l token_IDENT (start l) (pos l) }
                else scanHashComment (l\<lparr>pos := pos l - 2\<rparr>))
             else if isIdentStart ch then
               do { l \<leftarrow> advanceWhile isIdentChar l; sliceItem l token_IDENT (start l) (pos l) }
             else scanHashComment l }
      else scanHashComment l)"

definition scanAt :: "lexer \<Rightarrow> (item \<times> lexer) option" where
  "scanAt l0 =
     (let l = bump 1 l0 in
      if byteIs l 0 (CHR ''@'') then Some (makeItem l token_ATAT ''@@'', bump 1 l)
      else if byteHas l 0 isIdentStart then
        do { l \<leftarrow> advanceWhile isIdentChar l; sliceItem l token_PARAM (start l) (pos l) }
      else Some (makeItem l token_AT ''@'', l))"

text \<open>A one-byte token: \<^verbatim>\<open>l.pos++; return l.makeItem(typ, val)\<close>.\<close>

definition single :: "lexer \<Rightarrow> token \<Rightarrow> string \<Rightarrow> (item \<times> lexer) option" where
  "single l typ val = Some (makeItem l typ val, bump 1 l)"

text \<open>
  \<^verbatim>\<open>scan\<close>: \<open>scanToken\<close> is its \<^verbatim>\<open>switch ch\<close> followed by the identifier, number and
  unknown-byte cases, in the source's order.
\<close>

text \<open>
  The conversion \<^verbatim>\<open>string(ch)\<close> of a byte: the UTF-8 encoding of the code point with the
  number of the byte, one byte below 128 and two bytes from 128 on.
\<close>

definition runeString :: "char \<Rightarrow> string" where
  "runeString ch =
     (if of_char ch < (128::nat) then [ch]
      else [char_of (192 + of_char ch div (64::nat)), char_of (128 + of_char ch mod (64::nat))])"

definition scanToken :: "char \<Rightarrow> lexer \<Rightarrow> (item \<times> lexer) option" where
  "scanToken ch l =
     (if ch = CHR ''('' then single l token_LPAREN ''(''
      else if ch = CHR '')'' then single l token_RPAREN '')''
      else if ch = CHR ''['' then scanBracketOrLBracket l
      else if ch = CHR '']'' then single l token_RBRACKET '']''
      else if ch = CHR '','' then single l token_COMMA '',''
      else if ch = CHR '';'' then single l token_SEMICOLON '';''
      else if ch = CHR ''+'' then single l token_PLUS ''+''
      else if ch = CHR ''*'' then single l token_ASTERISK ''*''
      else if ch = CHR ''%'' then single l token_PERCENT ''%''
      else if ch = CHR ''~'' then single l token_BITNOT ''~''
      else if ch = CHR ''^'' then single l token_BITXOR ''^''
      else if ch = CHR ''@'' then scanAt l
      else if ch = CHR ''.'' then
        (if byteHas l 1 isDigit then scanNumber l else single l token_DOT ''.'')
      else if ch = CHR ''-'' then scanMinus l
      else if ch = CHR ''/'' then scanSlash l
      else if ch = CHR 0x27 then scanString (CHR 0x27) l
      else if ch = CHR 0x22 then scanQuotedIdentifier l
      else if ch = CHR 0x60 then scanBacktickIdentifier l
      else if ch = CHR ''='' then single l token_EQ ''=''
      else if ch = CHR ''<'' then scanLessThan l
      else if ch = CHR ''>'' then scanGreaterThan l
      else if ch = CHR ''!'' then scanBang l
      else if ch = CHR ''|'' then scanPipe l
      else if ch = CHR ''&'' then single l token_BITAND ''&''
      else if ch = CHR ''?'' then scanQuestion l
      else if ch = CHR ''$'' then scanDollar l
      else if ch = CHR '':'' then scanColon l
      else if ch = CHR ''#'' then scanHash l
      else if isIdentStart ch then scanIdentifier l
      else if isDigit ch then scanNumber l
      else single l token_ILLEGAL (runeString ch))"

definition scan :: "lexer \<Rightarrow> (item \<times> lexer) option" where
  "scan l0 =
     do { l \<leftarrow> skipWhitespace l0;
          let l = l\<lparr>start := pos l\<rparr>;
          if pos l \<ge> length (input l) then Some (makeItem l token_EOF [], l)
          else do { ch \<leftarrow> byte_at (input l) (pos l); scanToken ch l } }"

definition Next :: "lexer \<Rightarrow> (item \<times> lexer) option" where
  "Next l =
     (if peeked l then Some (item l, l\<lparr>peeked := False\<rparr>)
      else do { (it, l') \<leftarrow> scan l; Some (it, l'\<lparr>item := it\<rparr>) })"

definition Peek :: "lexer \<Rightarrow> (item \<times> lexer) option" where
  "Peek l =
     (if \<not> peeked l then do { (it, l') \<leftarrow> scan l; Some (it, l'\<lparr>item := it, peeked := True\<rparr>) }
      else Some (item l, l))"

section \<open>Formatter: identifiers\<close>

text \<open>
  Package \<^verbatim>\<open>format\<close>. The formatter appends to a byte buffer; \<^verbatim>\<open>f.write(s)\<close> is \<open>writeStr\<close>.
\<close>

record Options =
  Uppercase :: bool
  Indent :: string

definition DefaultOptions :: Options where
  "DefaultOptions = \<lparr>Uppercase = True, Indent = ''  ''\<rparr>"

record Formatter =
  buf :: string
  opts :: Options

definition NewFormatter :: "Options \<Rightarrow> Formatter" where
  "NewFormatter os = \<lparr>buf = [], opts = os\<rparr>"

definition writeStr :: "string \<Rightarrow> Formatter \<Rightarrow> Formatter" where
  "writeStr s f = f\<lparr>buf := buf f @ s\<rparr>"

definition needsQuotingNonKeyword :: "string \<Rightarrow> bool" where
  "needsQuotingNonKeyword idn =
     (if length idn = 0 then True
      else if \<not> ((CHR ''a'' \<le> idn ! 0 \<and> idn ! 0 \<le> CHR ''z'') \<or>
                  (CHR ''A'' \<le> idn ! 0 \<and> idn ! 0 \<le> CHR ''Z'') \<or> idn ! 0 = CHR ''_'') then True
      else list_ex (\<lambda>ch. \<not> ((CHR ''a'' \<le> ch \<and> ch \<le> CHR ''z'') \<or>
                              (CHR ''A'' \<le> ch \<and> ch \<le> CHR ''Z'') \<or>
                              (CHR ''0'' \<le> ch \<and> ch \<le> CHR ''9'') \<or> ch = CHR ''_'' \<or> ch = CHR ''$''))
                   (drop 1 idn))"

definition needsQuoting :: "string \<Rightarrow> bool" where
  "needsQuoting idn = (if needsQuotingNonKeyword idn then True else IsKeywordIdent idn)"

text \<open>\<^verbatim>\<open>strings.ReplaceAll(id, `"`, `""`)\<close>.\<close>

definition doubleQuotes :: "string \<Rightarrow> string" where
  "doubleQuotes s = concat (map (\<lambda>c. if c = CHR 0x22 then [CHR 0x22, CHR 0x22] else [c]) s)"

definition writeIdent :: "string \<Rightarrow> Formatter \<Rightarrow> Formatter" where
  "writeIdent idn f =
     (if needsQuoting idn
      then writeStr [CHR 0x22] (writeStr (doubleQuotes idn) (writeStr [CHR 0x22] f))
      else writeStr idn f)"

definition writeFuncName :: "string \<Rightarrow> Formatter \<Rightarrow> Formatter" where
  "writeFuncName name f =
     (if needsQuotingNonKeyword name
      then writeStr [CHR 0x22] (writeStr (doubleQuotes name) (writeStr [CHR 0x22] f))
      else writeStr name f)"

section \<open>Syntax trees\<close>

text \<open>
  Package \<^verbatim>\<open>ast\<close>. The position fields \<^verbatim>\<open>StartPos\<close> and \<^verbatim>\<open>EndPos\<close> of the nodes are left
  out: the parser only stores them and the formatter never reads them. \<^verbatim>\<open>FuncExpr.OrderBy\<close>
  is left out as well, for the same reason. A field of interface type (\<^verbatim>\<open>Expr\<close>,
  \<^verbatim>\<open>TableExpr\<close>, \<^verbatim>\<open>Statement\<close>, \<^verbatim>\<open>SelectExpr\<close>) or of pointer type is an option, \<open>None\<close> for
  \<^verbatim>\<open>nil\<close>; a slice is a list, \<^verbatim>\<open>nil\<close> and the empty slice both \<open>[]\<close> (the code only takes
  their length).

  Go distinguishes the \<^verbatim>\<open>nil\<close> interface from an interface that holds a \<^verbatim>\<open>nil\<close> pointer of
  some node type; \<^verbatim>\<open>e == nil\<close> is false for the latter. The parser produces such values when
  a function with a pointer result returns \<^verbatim>\<open>nil\<close> and the caller stores the result in an
  interface. They are the values \<open>NilPtr k\<close> of \<open>expr\<close> and \<open>NilStmt k\<close> of \<open>statement\<close>.

  The statements of the fragment are \<^verbatim>\<open>SELECT\<close>, \<^verbatim>\<open>INSERT\<close> and the set operations.
\<close>

datatype literalType = LiteralNull | LiteralInt | LiteralFloat | LiteralString | LiteralBool
  | LiteralBlob

datatype paramType = ParamQuestion | ParamDollar | ParamColon | ParamAt

datatype isType = IsNull | IsTrue | IsFalse | IsUnknown

datatype trimType = TrimBoth | TrimLeading | TrimTrailing

datatype frameType = FrameRows | FrameRange | FrameGroups

datatype boundType = BoundCurrentRow | BoundUnboundedPreceding | BoundUnboundedFollowing
  | BoundPreceding | BoundFollowing

datatype joinType = JoinInner | JoinLeft | JoinRight | JoinFull | JoinCross

datatype indexHintType = HintUse | HintForce | HintIgnore

datatype indexHintFor = HintForAll | HintForJoin | HintForOrderBy | HintForGroupBy

record DataType =
  TypeName :: string
  TypeLength :: "int option"
  TypePrecision :: "int option"
  TypeScale :: "int option"
  TypeArray :: bool
  TypeUnsigned :: bool
  TypeCharset :: string
  TypeCollation :: string

record IndexHint =
  HintType :: indexHintType
  HintFor :: indexHintFor
  HintIndexes :: "string list"

record SelectInto =
  Outfile :: string
  Dumpfile :: string
  Vars :: "string list"

datatype 'e frameBound = FrameBound (BoundType: boundType) (BoundOffset: "'e option")

datatype 'e windowFrame =
  WindowFrame (FrameType: frameType) (FrameStart: "'e frameBound option")
    (FrameEnd: "'e frameBound option")

datatype 'e orderByExpr =
  OrderByExpr (OrderExpr: "'e option") (OrderDesc: bool) (NullsFirst: "bool option")

datatype 'e windowSpec =
  WindowSpec (WindowName: string) (PartitionBy: "'e list") (WindowOrderBy: "'e orderByExpr list")
    (Frame: "'e windowFrame option")

datatype 'e windowDef = WindowDef (DefName: string) (DefSpec: "'e windowSpec option")

datatype 'e limit = Limit (Count: "'e option") (LimitOffset: "'e option")

text \<open>\<^verbatim>\<open>StarExpr{TableName, HasQualifier}\<close> and \<^verbatim>\<open>AliasedExpr{Expr, Alias}\<close>.\<close>

datatype 'e selectExpr = StarExpr string bool | AliasedExpr "'e option" string

text \<open>\<^verbatim>\<open>UpdateExpr{Column, Expr}\<close>, the column by its \<^verbatim>\<open>Parts\<close>.\<close>

datatype 'e updateExpr = UpdateExpr (UpdColumn: "string list") (UpdExpr: "'e option")

datatype 'e onConflict =
  OnConflict (ConflictColumns: "string list") (ConflictWhere: "'e option") (DoNothing: bool)
    (Updates: "'e updateExpr list")

datatype 's cte = CTE (CteName: string) (CteColumns: "string list") (Query: "'s option")

datatype 's withClause = WithClause (Recursive: bool) (CTEs: "'s cte list")

datatype ('e, 'q, 's) insertStmt =
  InsertStmt (InsWith: "'s withClause option") (Replace: bool) (Ignore: bool)
    (Table: "string list option") (InsColumns: "string list list") (Values: "'e list list")
    (Select: "'q option") (OnDuplicateUpdate: "'e updateExpr list")
    (InsOnConflict: "'e onConflict option") (Returning: "'e selectExpr list")

datatype exprKind = KFuncExpr | KExistsExpr | KCaseExpr | KCastExpr | KExtractExpr | KTrimExpr
  | KSubstringExpr | KPositionExpr | KArrayExpr | KInExpr | KBetweenExpr | KSubscriptExpr

datatype stmtKind = KSelectStmt | KInsertStmt

datatype setOpType = Union | Intersect | Except

text \<open>
  The nodes, with their fields in the order of the struct declarations:
  \<^verbatim>\<open>Literal{Type, Value}\<close>, \<^verbatim>\<open>ColName{Parts}\<close>, \<^verbatim>\<open>Param{Type, Name, Index}\<close>,
  \<^verbatim>\<open>BinaryExpr{Op, Left, Right}\<close>, \<^verbatim>\<open>UnaryExpr{Op, Operand}\<close>, \<^verbatim>\<open>ParenExpr{Expr}\<close>,
  \<^verbatim>\<open>FuncExpr{Name, Distinct, Args, Filter, Over}\<close>, \<^verbatim>\<open>CastExpr{Expr, Type}\<close>,
  \<^verbatim>\<open>CaseExpr{Operand, Whens, Else}\<close> with \<^verbatim>\<open>When{Cond, Result}\<close> as a pair,
  \<^verbatim>\<open>InExpr{Expr, Not, Values, Select}\<close>, \<^verbatim>\<open>BetweenExpr{Expr, Not, Low, High}\<close>,
  \<^verbatim>\<open>LikeExpr{Expr, Pattern, Not, Escape, ILike}\<close>, \<^verbatim>\<open>IsExpr{Expr, Not, What}\<close>,
  \<^verbatim>\<open>Subquery{Select}\<close>, \<^verbatim>\<open>ExistsExpr{Not, Subquery}\<close> with the subquery by its \<^verbatim>\<open>Select\<close>,
  \<^verbatim>\<open>ArrayExpr{Elements}\<close>, \<^verbatim>\<open>SubscriptExpr{Expr, Index}\<close>, \<^verbatim>\<open>IntervalExpr{Value, Unit}\<close>,
  \<^verbatim>\<open>ExtractExpr{Field, Source}\<close>, \<^verbatim>\<open>TrimExpr{TrimType, TrimChar, Expr}\<close>,
  \<^verbatim>\<open>SubstringExpr{Expr, From, For}\<close>, \<^verbatim>\<open>PositionExpr{Needle, Haystack}\<close>,
  \<^verbatim>\<open>CollateExpr{Expr, Collation}\<close>, \<^verbatim>\<open>StarExpr{TableName, HasQualifier}\<close> as an expression;
  \<^verbatim>\<open>TableName{Parts}\<close>, \<^verbatim>\<open>AliasedTableExpr{Expr, Alias, Hints}\<close>,
  \<^verbatim>\<open>JoinExpr{Type, Left, Right, On, Using, Natural, Lateral}\<close>, \<^verbatim>\<open>ParenTableExpr{Expr}\<close>,
  \<^verbatim>\<open>Subquery{Select}\<close> as a table, \<^verbatim>\<open>ValuesStmt{Rows}\<close>;
  \<^verbatim>\<open>SetOp{Type, All, Left, Right, OrderBy, Limit}\<close>.
\<close>

datatype expr =
    Literal literalType string
  | ColName "string list"
  | Param paramType string int
  | BinaryExpr token "expr option" "expr option"
  | UnaryExpr token "expr option"
  | ParenExpr "expr option"
  | FuncExpr string bool "expr list" "expr option" "expr windowSpec option"
  | CastExpr "expr option" "DataType option"
  | CaseExpr "expr option" "(expr option \<times> expr option) list" "expr option"
  | InExpr "expr option" bool "expr list" "selectStmt option"
  | BetweenExpr "expr option" bool "expr option" "expr option"
  | LikeExpr "expr option" "expr option" bool "expr option" bool
  | IsExpr "expr option" bool isType
  | Subquery "selectStmt option"
  | ExistsExpr bool "selectStmt option"
  | ArrayExpr "expr list"
  | SubscriptExpr "expr option" "expr option"
  | IntervalExpr "expr option" string
  | ExtractExpr string "expr option"
  | TrimExpr trimType "expr option" "expr option"
  | SubstringExpr "expr option" "expr option" "expr option"
  | PositionExpr "expr option" "expr option"
  | CollateExpr "expr option" string
  | StarE string bool
  | NilPtr exprKind
and tableExpr =
    TableName "string list"
  | AliasedTableExpr "tableExpr option" string "IndexHint list"
  | JoinExpr joinType "tableExpr option" "tableExpr option" "expr option" "string list" bool bool
  | ParenTableExpr "tableExpr option"
  | SubqueryT "selectStmt option"
  | ValuesStmt "expr list list"
and selectStmt =
  SelectStmt (With: "statement withClause option") (Distinct: bool)
    (Columns: "expr selectExpr list") (From: "tableExpr option") (Where: "expr option")
    (GroupBy: "expr list") (Having: "expr option") (OrderBy: "expr orderByExpr list")
    (SelLimit: "expr limit option") (Lock: string) (Into: "SelectInto option")
    (WindowDefs: "expr windowDef list")
and statement =
    SelectS selectStmt
  | InsertS "(expr, selectStmt, statement) insertStmt"
  | SetOp setOpType bool "statement option" "statement option" "expr orderByExpr list"
      "expr limit option"
  | NilStmt stmtKind

text \<open>
  Storing a pointer in an interface variable, \<open>k\<close> being the pointer's node type; the type
  assertion \<^verbatim>\<open>stmt.(*ast.SelectStmt)\<close> with its \<^verbatim>\<open>ok\<close>; the assertion \<^verbatim>\<open>expr.(*ast.StarExpr)\<close>;
  and \<^verbatim>\<open>isNilExpr\<close> on an interface that is not the \<^verbatim>\<open>nil\<close> interface.
\<close>

definition exprOf :: "exprKind \<Rightarrow> expr option \<Rightarrow> expr" where
  "exprOf k ptr = (case ptr of None \<Rightarrow> NilPtr k | Some e \<Rightarrow> e)"

definition stmtOfSelect :: "selectStmt option \<Rightarrow> statement" where
  "stmtOfSelect ptr = (case ptr of None \<Rightarrow> NilStmt KSelectStmt | Some s \<Rightarrow> SelectS s)"

definition stmtOfInsert :: "(expr, selectStmt, statement) insertStmt option \<Rightarrow> statement" where
  "stmtOfInsert ptr = (case ptr of None \<Rightarrow> NilStmt KInsertStmt | Some s \<Rightarrow> InsertS s)"

fun asSelectStmt :: "statement option \<Rightarrow> selectStmt option \<times> bool" where
  "asSelectStmt (Some (SelectS s)) = (Some s, True)"
| "asSelectStmt (Some (NilStmt KSelectStmt)) = (None, True)"
| "asSelectStmt _ = (None, False)"

fun isNilExpr :: "expr \<Rightarrow> bool" where
  "isNilExpr (NilPtr k) = True"
| "isNilExpr _ = False"

section \<open>Parser\<close>

text \<open>
  Package \<^verbatim>\<open>parser\<close>. A parser function is a function of the parser state that returns its
  result and the new state. The result is an option: \<open>None\<close> is a run that did not come to an
  end in the model, because the lexer panicked, because the fuel of a loop or of the recursion
  ran out, or because the input left the fragment (a statement other than \<^verbatim>\<open>SELECT\<close> and
  \<^verbatim>\<open>INSERT\<close>, a function name with a byte outside ASCII).

  A message is kept as the format string and the tokens that \<^verbatim>\<open>fmt.Sprintf\<close> would print in
  it.
\<close>

record ParseError =
  ErrPos :: pos
  Message :: "string \<times> token list"

record Parser =
  lexer :: lexer
  errors :: "ParseError list"
  cur :: item

text \<open>
  A \<^verbatim>\<open>for\<close> loop: the body either goes round again with a new state or leaves the loop (by
  \<^verbatim>\<open>break\<close>, by \<^verbatim>\<open>return\<close> or by its condition) with a value.
\<close>

datatype ('s, 'r) flow = Continue 's | Leave 'r

fun loop :: "nat \<Rightarrow> ('s \<Rightarrow> ('s, 'r) flow option) \<Rightarrow> 's \<Rightarrow> 'r option" where
  "loop 0 body s = None"
| "loop (Suc n) body s =
     (case body s of
        None \<Rightarrow> None
      | Some (Leave r) \<Rightarrow> Some r
      | Some (Continue s') \<Rightarrow> loop n body s')"

text \<open>
  The functions of the parser call each other in a cycle. A function reaches the entry points
  of the cycle through its environment: \<open>rec env c\<close> runs the call \<open>c\<close>, and \<open>fuel env\<close>
  bounds the loops. \<open>run\<close> below ties the knot.
\<close>

datatype call = CStatement | CSelect | CWith | CTableExpr | CExprPrec nat

datatype res =
    RStatement "statement option"
  | RSelect "selectStmt option"
  | RTableExpr "tableExpr option"
  | RExpr "expr option"

record env =
  fuel :: nat
  rec :: "call \<Rightarrow> Parser \<Rightarrow> (res \<times> Parser) option"

definition callStatement :: "env \<Rightarrow> Parser \<Rightarrow> (statement option \<times> Parser) option" where
  "callStatement env p =
     (case rec env CStatement p of Some (RStatement s, p') \<Rightarrow> Some (s, p') | _ \<Rightarrow> None)"

definition callSelect :: "env \<Rightarrow> Parser \<Rightarrow> (selectStmt option \<times> Parser) option" where
  "callSelect env p =
     (case rec env CSelect p of Some (RSelect s, p') \<Rightarrow> Some (s, p') | _ \<Rightarrow> None)"

definition callWith :: "env \<Rightarrow> Parser \<Rightarrow> (statement option \<times> Parser) option" where
  "callWith env p =
     (case rec env CWith p of Some (RStatement s, p') \<Rightarrow> Some (s, p') | _ \<Rightarrow> None)"

definition callTableExpr :: "env \<Rightarrow> Parser \<Rightarrow> (tableExpr option \<times> Parser) option" where
  "callTableExpr env p =
     (case rec env CTableExpr p of Some (RTableExpr t, p') \<Rightarrow> Some (t, p') | _ \<Rightarrow> None)"

definition callExprPrec :: "env \<Rightarrow> nat \<Rightarrow> Parser \<Rightarrow> (expr option \<times> Parser) option" where
  "callExprPrec env minPrec p =
     (case rec env (CExprPrec minPrec) p of Some (RExpr e, p') \<Rightarrow> Some (e, p') | _ \<Rightarrow> None)"

subsection \<open>Token navigation\<close>

definition advance :: "Parser \<Rightarrow> Parser option" where
  "advance p = do { (it, l) \<leftarrow> Next (lexer p); Some (p\<lparr>lexer := l, cur := it\<rparr>) }"

definition curIs :: "Parser \<Rightarrow> token \<Rightarrow> bool" where
  "curIs p t = (Type (cur p) = t)"

definition curIsIdent :: "Parser \<Rightarrow> bool" where
  "curIsIdent p = (Type (cur p) = token_IDENT \<or> IsKeyword (Type (cur p)))"

definition curIdentValue :: "Parser \<Rightarrow> string" where
  "curIdentValue p = Value (cur p)"

definition peek :: "Parser \<Rightarrow> (item \<times> Parser) option" where
  "peek p = do { (it, l) \<leftarrow> Peek (lexer p); Some (it, p\<lparr>lexer := l\<rparr>) }"

definition peekIs :: "token \<Rightarrow> Parser \<Rightarrow> (bool \<times> Parser) option" where
  "peekIs t p = do { (it, p) \<leftarrow> peek p; Some (Type it = t, p) }"

definition errorf :: "string \<Rightarrow> token list \<Rightarrow> Parser \<Rightarrow> Parser" where
  "errorf format args p =
     p\<lparr>errors := errors p @ [\<lparr>ErrPos = Pos (cur p), Message = (format, args)\<rparr>]\<rparr>"

definition expect :: "token \<Rightarrow> Parser \<Rightarrow> (bool \<times> Parser) option" where
  "expect t p =
     (if curIs p t then do { p \<leftarrow> advance p; Some (True, p) }
      else Some (False, errorf ''expected %v, got %v'' [t, Type (cur p)] p))"

definition skipComments :: "env \<Rightarrow> Parser \<Rightarrow> Parser option" where
  "skipComments env p =
     loop (fuel env)
       (\<lambda>p. if curIs p token_COMMENT then do { p \<leftarrow> advance p; Some (Continue p) }
            else Some (Leave p)) p"

text \<open>The statement \<^verbatim>\<open>if cond { p.advance() }\<close>.\<close>

definition advanceIf :: "bool \<Rightarrow> Parser \<Rightarrow> Parser option" where
  "advanceIf cond p = (if cond then advance p else Some p)"

text \<open>
  \<^verbatim>\<open>New\<close> and \<^verbatim>\<open>Get\<close>: both start from a lexer at the beginning of the input, no errors and
  the zero item, and prime the first token.
\<close>

definition NewParser :: "string \<Rightarrow> Parser option" where
  "NewParser inp = advance \<lparr>lexer = New inp, errors = [], cur = zeroItem\<rparr>"

subsection \<open>Numbers and case\<close>

definition maxInt :: int where
  "maxInt = 2 ^ 63 - 1"

definition isDigits :: "string \<Rightarrow> bool" where
  "isDigits s = (s \<noteq> [] \<and> list_all isDigit s)"

definition decimal :: "string \<Rightarrow> int" where
  "decimal s = foldl (\<lambda>n c. n * 10 + (int (of_char c) - 48)) 0 s"

definition signOf :: "string \<Rightarrow> bool \<times> string" where
  "signOf s =
     (if s \<noteq> [] \<and> (hd s = CHR ''+'' \<or> hd s = CHR ''-'') then (hd s = CHR ''-'', tl s)
      else (False, s))"

text \<open>
  \<^verbatim>\<open>parseInt\<close>: \<^verbatim>\<open>strconv.ParseInt(s, 10, 64)\<close>, and the largest \<^verbatim>\<open>int\<close> when it reports an
  error (a string that is not an optional sign and decimal digits, or a value out of range).
\<close>

definition parseInt :: "string \<Rightarrow> int" where
  "parseInt s =
     (let (neg, body) = signOf s in
      if \<not> isDigits body then maxInt
      else if neg then (if decimal body > maxInt + 1 then maxInt else - decimal body)
      else (if decimal body > maxInt then maxInt else decimal body))"

text \<open>
  The value of \<^verbatim>\<open>strconv.Atoi\<close>, whose error the caller drops: 0 on a syntax error, the
  nearest bound when the value is out of range.
\<close>

definition Atoi :: "string \<Rightarrow> int" where
  "Atoi s =
     (let (neg, body) = signOf s in
      if \<not> isDigits body then 0
      else if neg then (if decimal body > maxInt + 1 then - maxInt - 1 else - decimal body)
      else (if decimal body > maxInt then maxInt else decimal body))"

definition hasPrefix :: "string \<Rightarrow> string \<Rightarrow> bool" where
  "hasPrefix s prefix = (take (length prefix) s = prefix)"

text \<open>
  \<^verbatim>\<open>strings.ToUpper\<close> and \<^verbatim>\<open>strings.ToLower\<close> on ASCII strings; a string with a byte outside
  ASCII is outside the fragment.
\<close>

definition upperByte :: "char \<Rightarrow> char" where
  "upperByte c = (if CHR ''a'' \<le> c \<and> c \<le> CHR ''z'' then char_of (of_char c - (32::nat)) else c)"

definition isASCII :: "string \<Rightarrow> bool" where
  "isASCII s = list_all (\<lambda>c. of_char c < (128::nat)) s"

definition ToUpper :: "string \<Rightarrow> string option" where
  "ToUpper s = (if isASCII s then Some (map upperByte s) else None)"

definition ToLower :: "string \<Rightarrow> string option" where
  "ToLower s = (if isASCII s then Some (map lowerByte s) else None)"

subsection \<open>Expressions\<close>

abbreviation (input) precLowest :: nat where "precLowest \<equiv> 0"
abbreviation (input) precOr :: nat where "precOr \<equiv> 1"
abbreviation (input) precXor :: nat where "precXor \<equiv> 2"
abbreviation (input) precAnd :: nat where "precAnd \<equiv> 3"
abbreviation (input) precNot :: nat where "precNot \<equiv> 4"
abbreviation (input) precComparison :: nat where "precComparison \<equiv> 5"
abbreviation (input) precBitOr :: nat where "precBitOr \<equiv> 6"
abbreviation (input) precBitXor :: nat where "precBitXor \<equiv> 7"
abbreviation (input) precBitAnd :: nat where "precBitAnd \<equiv> 8"
abbreviation (input) precShift :: nat where "precShift \<equiv> 9"
abbreviation (input) precAdditive :: nat where "precAdditive \<equiv> 10"
abbreviation (input) precMultiply :: nat where "precMultiply \<equiv> 11"
abbreviation (input) precUnary :: nat where "precUnary \<equiv> 12"

definition precedence :: "token \<Rightarrow> nat" where
  "precedence t =
     (if t = token_OR then precOr
      else if t = token_XOR then precXor
      else if t = token_AND then precAnd
      else if t \<in> {token_EQ, token_NEQ, token_LT, token_GT, token_LTE, token_GTE}
        then precComparison
      else if t = token_BITOR then precBitOr
      else if t = token_BITXOR then precBitXor
      else if t = token_BITAND then precBitAnd
      else if t \<in> {token_LSHIFT, token_RSHIFT} then precShift
      else if t \<in> {token_PLUS, token_MINUS, token_CONCAT} then precAdditive
      else if t \<in> {token_ASTERISK, token_SLASH, token_PERCENT} then precMultiply
      else precLowest)"

definition isBinaryOp :: "token \<Rightarrow> bool" where
  "isBinaryOp t =
     (t \<in> {token_PLUS, token_MINUS, token_ASTERISK, token_SLASH, token_PERCENT,
            token_EQ, token_NEQ, token_LT, token_GT, token_LTE, token_GTE,
            token_AND, token_OR, token_XOR,
            token_BITAND, token_BITOR, token_BITXOR, token_LSHIFT, token_RSHIFT,
            token_CONCAT})"

definition parseExpr :: "env \<Rightarrow> Parser \<Rightarrow> (expr option \<times> Parser) option" where
  "parseExpr env p = callExprPrec env precLowest p"

definition parseLiteral :: "literalType \<Rightarrow> Parser \<Rightarrow> (expr \<times> Parser) option" where
  "parseLiteral litType p = do {
     let v = Value (cur p);
     p \<leftarrow> advance p;
     Some (Literal litType v, p) }"

definition parseParam :: "Parser \<Rightarrow> (expr \<times> Parser) option" where
  "parseParam p = do {
     let val = Value (cur p);
     let param =
       (if val = ''?'' then Param ParamQuestion [] 0
        else if hasPrefix val ''$'' then
          Param ParamDollar [] (if length val > 1 then Atoi (tl val) else 0)
        else if hasPrefix val '':'' then Param ParamColon (tl val) 0
        else if hasPrefix val ''@'' then Param ParamAt (tl val) 0
        else Param ParamQuestion [] 0);
     p \<leftarrow> advance p;
     Some (param, p) }"

text \<open>
  The loop of \<^verbatim>\<open>parseExprList\<close>, which \<^verbatim>\<open>parseFuncCall\<close>, \<^verbatim>\<open>parseArrayExpr\<close>, \<^verbatim>\<open>parseInExpr\<close>
  and \<^verbatim>\<open>parseValuesClause\<close> each write out again for their own list: expressions separated
  by commas, until \<^verbatim>\<open>parseExpr\<close> returns \<^verbatim>\<open>nil\<close> or no comma follows.
\<close>

definition parseExprList :: "env \<Rightarrow> Parser \<Rightarrow> (expr list \<times> Parser) option" where
  "parseExprList env p =
     loop (fuel env)
       (\<lambda>(exprs, p). do {
          (e, p) \<leftarrow> parseExpr env p;
          case e of
            None \<Rightarrow> Some (Leave (exprs, p))
          | Some x \<Rightarrow>
              if \<not> curIs p token_COMMA then Some (Leave (exprs @ [x], p))
              else do { p \<leftarrow> advance p; Some (Continue (exprs @ [x], p)) } })
       ([], p)"

definition parseOrderBy :: "env \<Rightarrow> Parser \<Rightarrow> (expr orderByExpr list \<times> Parser) option" where
  "parseOrderBy env p = do {
     p \<leftarrow> advance p;
     (ok, p) \<leftarrow> expect token_BY p;
     if \<not> ok then Some ([], p)
     else
       loop (fuel env)
         (\<lambda>(items, p). do {
            (e, p) \<leftarrow> parseExpr env p;
            case e of
              None \<Rightarrow> Some (Leave (items, p))
            | Some x \<Rightarrow> do {
                (desc, p) \<leftarrow>
                  (if curIs p token_ASC then do { p \<leftarrow> advance p; Some (False, p) }
                   else if curIs p token_DESC then do { p \<leftarrow> advance p; Some (True, p) }
                   else Some (False, p));
                (nullsFirst, p) \<leftarrow>
                  (if curIs p token_NULLS then do {
                     p \<leftarrow> advance p;
                     if curIs p token_FIRST then do { p \<leftarrow> advance p; Some (Some True, p) }
                     else if curIs p token_LAST then do { p \<leftarrow> advance p; Some (Some False, p) }
                     else Some (None, p) }
                   else Some (None, p));
                let items = items @ [OrderByExpr (Some x) desc nullsFirst];
                if \<not> curIs p token_COMMA then Some (Leave (items, p))
                else do { p \<leftarrow> advance p; Some (Continue (items, p)) } } })
         ([], p) }"

definition parseFrameBound :: "env \<Rightarrow> Parser \<Rightarrow> (expr frameBound \<times> Parser) option" where
  "parseFrameBound env p =
     (if curIs p token_CURRENT then do {
        p \<leftarrow> advance p;
        (_, p) \<leftarrow> expect token_ROW p;
        Some (FrameBound BoundCurrentRow None, p) }
      else if curIs p token_UNBOUNDED then do {
        p \<leftarrow> advance p;
        if curIs p token_PRECEDING then do {
          p \<leftarrow> advance p; Some (FrameBound BoundUnboundedPreceding None, p) }
        else if curIs p token_FOLLOWING then do {
          p \<leftarrow> advance p; Some (FrameBound BoundUnboundedFollowing None, p) }
        else Some (FrameBound BoundCurrentRow None, p) }
      else do {
        (off, p) \<leftarrow> parseExpr env p;
        if curIs p token_PRECEDING then do {
          p \<leftarrow> advance p; Some (FrameBound BoundPreceding off, p) }
        else if curIs p token_FOLLOWING then do {
          p \<leftarrow> advance p; Some (FrameBound BoundFollowing off, p) }
        else Some (FrameBound BoundCurrentRow off, p) })"

definition parseWindowFrame :: "env \<Rightarrow> Parser \<Rightarrow> (expr windowFrame \<times> Parser) option" where
  "parseWindowFrame env p = do {
     let ftype =
       (if curIs p token_RANGE then FrameRange
        else if curIs p token_GROUPS then FrameGroups
        else FrameRows);
     p \<leftarrow> advance p;
     if curIs p token_BETWEEN then do {
       p \<leftarrow> advance p;
       (startB, p) \<leftarrow> parseFrameBound env p;
       (_, p) \<leftarrow> expect token_AND p;
       (endB, p) \<leftarrow> parseFrameBound env p;
       Some (WindowFrame ftype (Some startB) (Some endB), p) }
     else do {
       (startB, p) \<leftarrow> parseFrameBound env p;
       Some (WindowFrame ftype (Some startB) None, p) } }"

definition parseWindowSpec :: "env \<Rightarrow> Parser \<Rightarrow> (expr windowSpec option \<times> Parser) option" where
  "parseWindowSpec env p = do {
     p \<leftarrow> advance p;
     if curIs p token_IDENT then do {
       let name = Value (cur p);
       p \<leftarrow> advance p;
       Some (Some (WindowSpec name [] [] None), p) }
     else do {
       (ok, p) \<leftarrow> expect token_LPAREN p;
       if \<not> ok then Some (None, p)
       else do {
         (named, p) \<leftarrow>
           (if curIs p token_IDENT then do {
              (isBy, p) \<leftarrow> peekIs token_BY p; Some (\<not> isBy, p) }
            else Some (False, p));
         let name = (if named then Value (cur p) else []);
         p \<leftarrow> advanceIf named p;
         (partitionBy, p) \<leftarrow>
           (if curIs p token_PARTITION then do {
              p \<leftarrow> advance p;
              (_, p) \<leftarrow> expect token_BY p;
              parseExprList env p }
            else Some ([], p));
         (orderBy, p) \<leftarrow>
           (if curIs p token_ORDER then parseOrderBy env p else Some ([], p));
         (frame, p) \<leftarrow>
           (if curIs p token_ROWS \<or> curIs p token_RANGE \<or> curIs p token_GROUPS then do {
              (f, p) \<leftarrow> parseWindowFrame env p; Some (Some f, p) }
            else Some (None, p));
         (_, p) \<leftarrow> expect token_RPAREN p;
         Some (Some (WindowSpec name partitionBy orderBy frame), p) } } }"

text \<open>
  \<^verbatim>\<open>parseFuncCall(pos, name)\<close>. The result is a pointer, \<open>None\<close> for \<^verbatim>\<open>nil\<close>. The argument
  \<^verbatim>\<open>*\<close> is a \<^verbatim>\<open>StarExpr\<close> without qualifier.
\<close>

definition parseFuncCall :: "env \<Rightarrow> string \<Rightarrow> Parser \<Rightarrow> (expr option \<times> Parser) option" where
  "parseFuncCall env name p = do {
     p \<leftarrow> advance p;
     fnName \<leftarrow> ToUpper name;
     let dist = curIs p token_DISTINCT;
     p \<leftarrow> advanceIf dist p;
     (args, p) \<leftarrow>
       (if \<not> curIs p token_RPAREN then
          (if curIs p token_ASTERISK then do { p \<leftarrow> advance p; Some ([StarE [] False], p) }
           else parseExprList env p)
        else Some ([], p));
     (ok, p) \<leftarrow> expect token_RPAREN p;
     if \<not> ok then Some (None, p)
     else do {
       (r, p) \<leftarrow>
         (if curIs p token_FILTER then do {
            p \<leftarrow> advance p;
            (ok, p) \<leftarrow> expect token_LPAREN p;
            if \<not> ok then Some (None, p)
            else do {
              (ok, p) \<leftarrow> expect token_WHERE p;
              if \<not> ok then Some (None, p)
              else do {
                (flt, p) \<leftarrow> parseExpr env p;
                (ok, p) \<leftarrow> expect token_RPAREN p;
                if \<not> ok then Some (None, p) else Some (Some flt, p) } } }
          else Some (Some None, p));
       case r of
         None \<Rightarrow> Some (None, p)
       | Some flt \<Rightarrow> do {
           (over, p) \<leftarrow>
             (if curIs p token_OVER then parseWindowSpec env p else Some (None, p));
           Some (Some (FuncExpr fnName dist args flt over), p) } } }"

definition parseIdentifierOrFunc :: "env \<Rightarrow> Parser \<Rightarrow> (expr option \<times> Parser) option" where
  "parseIdentifierOrFunc env p = do {
     let name = Value (cur p);
     p \<leftarrow> advance p;
     if curIs p token_LPAREN then do {
       (fn, p) \<leftarrow> parseFuncCall env name p;
       Some (Some (exprOf KFuncExpr fn), p) }
     else
       loop (fuel env)
         (\<lambda>(parts, p).
            if curIs p token_DOT then do {
              p \<leftarrow> advance p;
              if curIs p token_ASTERISK then do {
                p \<leftarrow> advance p;
                Some (Leave (Some (StarE (last parts) True), p)) }
              else if \<not> curIs p token_IDENT \<and> \<not> IsKeyword (Type (cur p)) then
                Some (Leave (None, errorf (''expected identifier after '' @ [CHR 0x27] @ ''.'' @ [CHR 0x27]) [] p))
              else do {
                let v = Value (cur p);
                p \<leftarrow> advance p;
                Some (Continue (parts @ [v], p)) } }
            else Some (Leave (Some (ColName parts), p)))
         ([name], p) }"

definition parseParenOrSubquery :: "env \<Rightarrow> Parser \<Rightarrow> (expr option \<times> Parser) option" where
  "parseParenOrSubquery env p = do {
     p \<leftarrow> advance p;
     if curIs p token_SELECT \<or> curIs p token_WITH then do {
       (stmt, p) \<leftarrow>
         (if curIs p token_WITH then callWith env p
          else do { (s, p) \<leftarrow> callSelect env p; Some (Some (stmtOfSelect s), p) });
       if stmt = None then Some (None, p)
       else do {
         (ok, p) \<leftarrow> expect token_RPAREN p;
         if \<not> ok then Some (None, p)
         else (case asSelectStmt stmt of
                 (sel, True) \<Rightarrow> Some (Some (Subquery sel), p)
               | (sel, False) \<Rightarrow>
                   Some (None, errorf ''expected SELECT statement in subquery'' [] p)) } }
     else do {
       (e, p) \<leftarrow> parseExpr env p;
       (ok, p) \<leftarrow> expect token_RPAREN p;
       if \<not> ok then Some (None, p) else Some (Some (ParenExpr e), p) } }"

text \<open>\<^verbatim>\<open>parseNotExpr\<close>, \<^verbatim>\<open>parseUnaryMinus\<close> and \<^verbatim>\<open>parseUnaryBitnot\<close>.\<close>

definition parseNotExpr :: "env \<Rightarrow> Parser \<Rightarrow> (expr \<times> Parser) option" where
  "parseNotExpr env p = do {
     p \<leftarrow> advance p;
     (operand, p) \<leftarrow> callExprPrec env precNot p;
     Some (UnaryExpr token_NOT operand, p) }"

definition parseUnaryMinus :: "env \<Rightarrow> Parser \<Rightarrow> (expr \<times> Parser) option" where
  "parseUnaryMinus env p = do {
     p \<leftarrow> advance p;
     (operand, p) \<leftarrow> callExprPrec env precUnary p;
     Some (UnaryExpr token_MINUS operand, p) }"

definition parseUnaryBitnot :: "env \<Rightarrow> Parser \<Rightarrow> (expr \<times> Parser) option" where
  "parseUnaryBitnot env p = do {
     p \<leftarrow> advance p;
     (operand, p) \<leftarrow> callExprPrec env precUnary p;
     Some (UnaryExpr token_BITNOT operand, p) }"

definition parseExistsExpr :: "env \<Rightarrow> Parser \<Rightarrow> (expr option \<times> Parser) option" where
  "parseExistsExpr env p = do {
     p \<leftarrow> advance p;
     let neg = curIs p token_NOT;
     p \<leftarrow> advanceIf neg p;
     (ok, p) \<leftarrow> expect token_LPAREN p;
     if \<not> ok then Some (None, p)
     else do {
       (sel, p) \<leftarrow>
         (if curIs p token_SELECT then callSelect env p
          else if curIs p token_WITH then do {
            (stmt, p) \<leftarrow> callWith env p;
            Some (fst (asSelectStmt stmt), p) }
          else Some (None, p));
       if sel = None then Some (None, errorf ''expected SELECT in EXISTS subquery'' [] p)
       else do {
         (ok, p) \<leftarrow> expect token_RPAREN p;
         if \<not> ok then Some (None, p) else Some (Some (ExistsExpr neg sel), p) } } }"

definition parseCaseExpr :: "env \<Rightarrow> Parser \<Rightarrow> (expr option \<times> Parser) option" where
  "parseCaseExpr env p = do {
     p \<leftarrow> advance p;
     (operand, p) \<leftarrow> (if \<not> curIs p token_WHEN then parseExpr env p else Some (None, p));
     (r, p) \<leftarrow>
       loop (fuel env)
         (\<lambda>(whens, p).
            if curIs p token_WHEN then do {
              p \<leftarrow> advance p;
              (cond, p) \<leftarrow> parseExpr env p;
              (ok, p) \<leftarrow> expect token_THEN p;
              if \<not> ok then Some (Leave (None, p))
              else do {
                (result, p) \<leftarrow> parseExpr env p;
                Some (Continue (whens @ [(cond, result)], p)) } }
            else Some (Leave (Some whens, p)))
         ([], p);
     case r of
       None \<Rightarrow> Some (None, p)
     | Some whens \<Rightarrow> do {
         (els, p) \<leftarrow>
           (if curIs p token_ELSE then do { p \<leftarrow> advance p; parseExpr env p }
            else Some (None, p));
         (ok, p) \<leftarrow> expect token_END p;
         if \<not> ok then Some (None, p) else Some (Some (CaseExpr operand whens els), p) } }"

definition emptyDataType :: DataType where
  "emptyDataType = \<lparr>TypeName = [], TypeLength = None, TypePrecision = None, TypeScale = None,
     TypeArray = False, TypeUnsigned = False, TypeCharset = [], TypeCollation = []\<rparr>"

definition parseDataType :: "env \<Rightarrow> Parser \<Rightarrow> (DataType \<times> Parser) option" where
  "parseDataType env p =
     (if \<not> (IsKeyword (Type (cur p)) \<or> curIs p token_IDENT) then
        Some (emptyDataType, errorf ''expected data type'' [] p)
      else do {
        let dt = emptyDataType\<lparr>TypeName := Value (cur p)\<rparr>;
        p \<leftarrow> advance p;
        (dt, p) \<leftarrow>
          (if curIs p token_PRECISION \<or> curIs p token_VARYING then do {
             let dt = dt\<lparr>TypeName := TypeName dt @ '' '' @ Value (cur p)\<rparr>;
             p \<leftarrow> advance p;
             Some (dt, p) }
           else Some (dt, p));
        (dt, p) \<leftarrow>
          (if curIs p token_LPAREN then do {
             p \<leftarrow> advance p;
             (dt, p) \<leftarrow>
               (if curIs p token_INT then do {
                  let dt = dt\<lparr>TypeLength := Some (parseInt (Value (cur p)))\<rparr>;
                  p \<leftarrow> advance p;
                  if curIs p token_COMMA then do {
                    p \<leftarrow> advance p;
                    if curIs p token_INT then do {
                      let dt = dt\<lparr>TypePrecision := TypeLength dt,
                                    TypeScale := Some (parseInt (Value (cur p)))\<rparr>;
                      p \<leftarrow> advance p;
                      Some (dt, p) }
                    else Some (dt, p) }
                  else Some (dt, p) }
                else Some (dt, p));
             (_, p) \<leftarrow> expect token_RPAREN p;
             Some (dt, p) }
           else Some (dt, p));
        loop (fuel env)
          (\<lambda>(dt, p).
             if curIs p token_UNSIGNED then do {
               p \<leftarrow> advance p; Some (Continue (dt\<lparr>TypeUnsigned := True\<rparr>, p)) }
             else if curIs p token_SIGNED \<or> curIs p token_ZEROFILL then do {
               p \<leftarrow> advance p; Some (Continue (dt, p)) }
             else if curIs p token_CHARACTER \<or> curIs p token_CHAR then do {
               (isSet, p) \<leftarrow> peekIs token_SET p;
               (isSet, p) \<leftarrow> (if isSet then Some (True, p) else peekIs token_CHARSET p);
               if isSet then do {
                 p \<leftarrow> advance p;
                 p \<leftarrow> advance p;
                 if curIs p token_IDENT \<or> curIs p token_STRING then do {
                   let dt = dt\<lparr>TypeCharset := Value (cur p)\<rparr>;
                   p \<leftarrow> advance p;
                   Some (Continue (dt, p)) }
                 else Some (Continue (dt, p)) }
               else Some (Leave (dt, p)) }
             else if curIs p token_COLLATE then do {
               p \<leftarrow> advance p;
               if curIs p token_IDENT \<or> curIs p token_STRING then do {
                 let dt = dt\<lparr>TypeCollation := Value (cur p)\<rparr>;
                 p \<leftarrow> advance p;
                 Some (Continue (dt, p)) }
               else Some (Continue (dt, p)) }
             else if curIs p token_ARRAY then do {
               p \<leftarrow> advance p; Some (Continue (dt\<lparr>TypeArray := True\<rparr>, p)) }
             else if curIs p token_LBRACKET then do {
               p \<leftarrow> advance p;
               (_, p) \<leftarrow> expect token_RBRACKET p;
               Some (Continue (dt\<lparr>TypeArray := True\<rparr>, p)) }
             else Some (Leave (dt, p)))
          (dt, p) })"

definition parseCastExpr :: "env \<Rightarrow> Parser \<Rightarrow> (expr option \<times> Parser) option" where
  "parseCastExpr env p = do {
     p \<leftarrow> advance p;
     (ok, p) \<leftarrow> expect token_LPAREN p;
     if \<not> ok then Some (None, p)
     else do {
       (e, p) \<leftarrow> parseExpr env p;
       (ok, p) \<leftarrow> expect token_AS p;
       if \<not> ok then Some (None, p)
       else do {
         (dataType, p) \<leftarrow> parseDataType env p;
         (ok, p) \<leftarrow> expect token_RPAREN p;
         if \<not> ok then Some (None, p) else Some (Some (CastExpr e (Some dataType)), p) } } }"

definition parsePostgresCast :: "env \<Rightarrow> expr \<Rightarrow> Parser \<Rightarrow> (expr \<times> Parser) option" where
  "parsePostgresCast env left p = do {
     p \<leftarrow> advance p;
     (dataType, p) \<leftarrow> parseDataType env p;
     Some (CastExpr (Some left) (Some dataType), p) }"

definition parseIntervalExpr :: "env \<Rightarrow> Parser \<Rightarrow> (expr \<times> Parser) option" where
  "parseIntervalExpr env p = do {
     p \<leftarrow> advance p;
     (v, p) \<leftarrow> parseExpr env p;
     if IsKeyword (Type (cur p)) then do {
       let unit = Value (cur p);
       p \<leftarrow> advance p;
       Some (IntervalExpr v unit, p) }
     else Some (IntervalExpr v [], p) }"

definition parseExtractExpr :: "env \<Rightarrow> Parser \<Rightarrow> (expr option \<times> Parser) option" where
  "parseExtractExpr env p = do {
     p \<leftarrow> advance p;
     (ok, p) \<leftarrow> expect token_LPAREN p;
     if \<not> ok then Some (None, p)
     else do {
       let hasField = (IsKeyword (Type (cur p)) \<or> curIs p token_IDENT);
       let field = (if hasField then Value (cur p) else []);
       p \<leftarrow> advanceIf hasField p;
       (ok, p) \<leftarrow> expect token_FROM p;
       if \<not> ok then Some (None, p)
       else do {
         (source, p) \<leftarrow> parseExpr env p;
         (ok, p) \<leftarrow> expect token_RPAREN p;
         if \<not> ok then Some (None, p) else Some (Some (ExtractExpr field source), p) } } }"

definition parseTrimExpr :: "env \<Rightarrow> Parser \<Rightarrow> (expr option \<times> Parser) option" where
  "parseTrimExpr env p = do {
     p \<leftarrow> advance p;
     (ok, p) \<leftarrow> expect token_LPAREN p;
     if \<not> ok then Some (None, p)
     else do {
       let trimType =
         (if curIs p token_LEADING then TrimLeading
          else if curIs p token_TRAILING then TrimTrailing
          else TrimBoth);
       p \<leftarrow> advanceIf (curIs p token_LEADING \<or> curIs p token_TRAILING \<or> curIs p token_BOTH) p;
       (trimChar, p) \<leftarrow> (if \<not> curIs p token_FROM then parseExpr env p else Some (None, p));
       p \<leftarrow> advanceIf (curIs p token_FROM) p;
       (e, p) \<leftarrow> parseExpr env p;
       (ok, p) \<leftarrow> expect token_RPAREN p;
       if \<not> ok then Some (None, p) else Some (Some (TrimExpr trimType trimChar e), p) } }"

definition parseSubstringExpr :: "env \<Rightarrow> Parser \<Rightarrow> (expr option \<times> Parser) option" where
  "parseSubstringExpr env p = do {
     p \<leftarrow> advance p;
     (ok, p) \<leftarrow> expect token_LPAREN p;
     if \<not> ok then Some (None, p)
     else do {
       (e, p) \<leftarrow> parseExpr env p;
       (from, p) \<leftarrow>
         (if curIs p token_FROM \<or> curIs p token_COMMA then do {
            p \<leftarrow> advance p; parseExpr env p }
          else Some (None, p));
       (for, p) \<leftarrow>
         (if curIs p token_FOR \<or> curIs p token_COMMA then do {
            p \<leftarrow> advance p; parseExpr env p }
          else Some (None, p));
       (ok, p) \<leftarrow> expect token_RPAREN p;
       if \<not> ok then Some (None, p) else Some (Some (SubstringExpr e from for), p) } }"

definition parsePositionExpr :: "env \<Rightarrow> Parser \<Rightarrow> (expr option \<times> Parser) option" where
  "parsePositionExpr env p = do {
     p \<leftarrow> advance p;
     (ok, p) \<leftarrow> expect token_LPAREN p;
     if \<not> ok then Some (None, p)
     else do {
       (needle, p) \<leftarrow> parseExpr env p;
       (ok, p) \<leftarrow> expect token_IN p;
       if \<not> ok then Some (None, p)
       else do {
         (haystack, p) \<leftarrow> parseExpr env p;
         (ok, p) \<leftarrow> expect token_RPAREN p;
         if \<not> ok then Some (None, p) else Some (Some (PositionExpr needle haystack), p) } } }"

definition parseArrayExpr :: "env \<Rightarrow> Parser \<Rightarrow> (expr option \<times> Parser) option" where
  "parseArrayExpr env p = do {
     p \<leftarrow> advance p;
     (ok, p) \<leftarrow> expect token_LBRACKET p;
     if \<not> ok then Some (None, p)
     else do {
       (elements, p) \<leftarrow>
         (if \<not> curIs p token_RBRACKET then parseExprList env p else Some ([], p));
       (ok, p) \<leftarrow> expect token_RBRACKET p;
       if \<not> ok then Some (None, p) else Some (Some (ArrayExpr elements), p) } }"

definition parseSubscript :: "env \<Rightarrow> expr \<Rightarrow> Parser \<Rightarrow> (expr option \<times> Parser) option" where
  "parseSubscript env left p = do {
     p \<leftarrow> advance p;
     (index, p) \<leftarrow> parseExpr env p;
     if index = None then Some (None, errorf ''expected expression in subscript'' [] p)
     else do {
       (ok, p) \<leftarrow> expect token_RBRACKET p;
       if \<not> ok then Some (None, p) else Some (Some (SubscriptExpr (Some left) index), p) } }"

definition parseIsExpr :: "expr \<Rightarrow> Parser \<Rightarrow> (expr \<times> Parser) option" where
  "parseIsExpr left p = do {
     p \<leftarrow> advance p;
     let neg = curIs p token_NOT;
     p \<leftarrow> advanceIf neg p;
     let (what, p) =
       (if curIs p token_NULL then (IsNull, p)
        else if curIs p token_TRUE then (IsTrue, p)
        else if curIs p token_FALSE then (IsFalse, p)
        else if curIs p token_UNKNOWN then (IsUnknown, p)
        else (IsNull, errorf ''expected NULL, TRUE, FALSE, or UNKNOWN after IS'' [] p));
     p \<leftarrow> advance p;
     Some (IsExpr (Some left) neg what, p) }"

definition parseInExpr :: "env \<Rightarrow> expr \<Rightarrow> bool \<Rightarrow> Parser \<Rightarrow> (expr option \<times> Parser) option" where
  "parseInExpr env left neg p = do {
     p \<leftarrow> advance p;
     (ok, p) \<leftarrow> expect token_LPAREN p;
     if \<not> ok then Some (None, p)
     else do {
       (r, p) \<leftarrow>
         (if curIs p token_SELECT \<or> curIs p token_WITH then do {
            (stmt, p) \<leftarrow>
              (if curIs p token_WITH then callWith env p
               else do { (s, p) \<leftarrow> callSelect env p; Some (Some (stmtOfSelect s), p) });
            if stmt = None then Some (None, p)
            else (case asSelectStmt stmt of
                    (sel, True) \<Rightarrow> Some (Some ([], sel), p)
                  | (sel, False) \<Rightarrow>
                      Some (None, errorf ''expected SELECT statement in IN clause'' [] p)) }
          else do { (vals, p) \<leftarrow> parseExprList env p; Some (Some (vals, None), p) });
       case r of
         None \<Rightarrow> Some (None, p)
       | Some (vals, sel) \<Rightarrow> do {
           (ok, p) \<leftarrow> expect token_RPAREN p;
           if \<not> ok then Some (None, p) else Some (Some (InExpr (Some left) neg vals sel), p) } } }"

definition parseBetweenExpr :: "env \<Rightarrow> expr \<Rightarrow> bool \<Rightarrow> Parser \<Rightarrow> (expr option \<times> Parser) option" where
  "parseBetweenExpr env left neg p = do {
     p \<leftarrow> advance p;
     p \<leftarrow> advanceIf (curIs p token_SYMMETRIC \<or> curIs p token_ASYMMETRIC) p;
     (low, p) \<leftarrow> callExprPrec env (precComparison + 1) p;
     (ok, p) \<leftarrow> expect token_AND p;
     if \<not> ok then Some (None, p)
     else do {
       (high, p) \<leftarrow> callExprPrec env (precComparison + 1) p;
       Some (Some (BetweenExpr (Some left) neg low high), p) } }"

definition parseLikeExpr :: "env \<Rightarrow> expr \<Rightarrow> bool \<Rightarrow> Parser \<Rightarrow> (expr \<times> Parser) option" where
  "parseLikeExpr env left neg p = do {
     let ilike = curIs p token_ILIKE;
     p \<leftarrow> advance p;
     (pattern, p) \<leftarrow> callExprPrec env (precComparison + 1) p;
     (escape, p) \<leftarrow>
       (if curIs p token_ESCAPE then do {
          p \<leftarrow> advance p; callExprPrec env (precComparison + 1) p }
        else Some (None, p));
     Some (LikeExpr (Some left) pattern neg escape ilike, p) }"

definition parseSimilarExpr :: "env \<Rightarrow> expr \<Rightarrow> bool \<Rightarrow> Parser \<Rightarrow> (expr \<times> Parser) option" where
  "parseSimilarExpr env left neg p = do {
     p \<leftarrow> advance p;
     (_, p) \<leftarrow> expect token_TO p;
     (pattern, p) \<leftarrow> callExprPrec env (precComparison + 1) p;
     (escape, p) \<leftarrow>
       (if curIs p token_ESCAPE then do {
          p \<leftarrow> advance p; callExprPrec env (precComparison + 1) p }
        else Some (None, p));
     Some (LikeExpr (Some left) pattern neg escape False, p) }"

definition parseCollateExpr :: "expr \<Rightarrow> Parser \<Rightarrow> (expr \<times> Parser) option" where
  "parseCollateExpr left p = do {
     p \<leftarrow> advance p;
     if curIs p token_IDENT \<or> curIs p token_STRING then do {
       let collation = Value (cur p);
       p \<leftarrow> advance p;
       Some (CollateExpr (Some left) collation, p) }
     else Some (CollateExpr (Some left) [], p) }"

text \<open>
  A function whose result is a node that is never \<^verbatim>\<open>nil\<close>, and a function whose result is a
  pointer to a node of kind \<open>k\<close>, each returned as an \<^verbatim>\<open>ast.Expr\<close>.
\<close>

definition node :: "(expr \<times> Parser) option \<Rightarrow> (expr option \<times> Parser) option" where
  "node r = do { (e, p) \<leftarrow> r; Some (Some e, p) }"

definition pointer :: "exprKind \<Rightarrow> (expr option \<times> Parser) option \<Rightarrow> (expr option \<times> Parser) option" where
  "pointer k r = do { (e, p) \<leftarrow> r; Some (Some (exprOf k e), p) }"

definition parsePrimaryExpr :: "env \<Rightarrow> Parser \<Rightarrow> (expr option \<times> Parser) option" where
  "parsePrimaryExpr env p = do {
     p \<leftarrow> skipComments env p;
     let t = Type (cur p);
     if t = token_INT then node (parseLiteral LiteralInt p)
     else if t = token_FLOAT then node (parseLiteral LiteralFloat p)
     else if t = token_STRING then node (parseLiteral LiteralString p)
     else if t = token_NULL then do { p \<leftarrow> advance p; Some (Some (Literal LiteralNull ''NULL''), p) }
     else if t = token_TRUE then do { p \<leftarrow> advance p; Some (Some (Literal LiteralBool ''TRUE''), p) }
     else if t = token_FALSE then do { p \<leftarrow> advance p; Some (Some (Literal LiteralBool ''FALSE''), p) }
     else if t = token_IDENT then parseIdentifierOrFunc env p
     else if t = token_PARAM then node (parseParam p)
     else if t = token_LPAREN then parseParenOrSubquery env p
     else if t = token_NOT then node (parseNotExpr env p)
     else if t = token_MINUS then node (parseUnaryMinus env p)
     else if t = token_BITNOT then node (parseUnaryBitnot env p)
     else if t = token_EXISTS then pointer KExistsExpr (parseExistsExpr env p)
     else if t = token_CASE then pointer KCaseExpr (parseCaseExpr env p)
     else if t = token_CAST then pointer KCastExpr (parseCastExpr env p)
     else if t = token_INTERVAL then node (parseIntervalExpr env p)
     else if t = token_EXTRACT then pointer KExtractExpr (parseExtractExpr env p)
     else if t = token_TRIM then pointer KTrimExpr (parseTrimExpr env p)
     else if t = token_SUBSTRING then pointer KSubstringExpr (parseSubstringExpr env p)
     else if t = token_POSITION then pointer KPositionExpr (parsePositionExpr env p)
     else if t = token_ASTERISK then do { p \<leftarrow> advance p; Some (Some (StarE [] False), p) }
     else if t = token_ARRAY then pointer KArrayExpr (parseArrayExpr env p)
     else if t = token_DEFAULT then do {
       p \<leftarrow> advance p; Some (Some (Literal LiteralNull ''DEFAULT''), p) }
     else if IsKeyword t then parseIdentifierOrFunc env p
     else Some (None, errorf ''unexpected token %v in expression'' [t] p) }"

text \<open>
  The loop of \<^verbatim>\<open>parseExprPrec\<close>. \<open>special\<close> is the shape that every special form has there:
  \<^verbatim>\<open>if isNilExpr(left) { return nil }; left = ...; if isNilExpr(left) { return nil }; continue\<close>,
  the form consuming a leading \<^verbatim>\<open>NOT\<close> when \<open>skipNot\<close>.
\<close>

type_synonym exprFlow = "(expr \<times> Parser, expr option \<times> Parser) flow option"

definition special :: "expr \<Rightarrow> bool \<Rightarrow> (Parser \<Rightarrow> (expr \<times> Parser) option) \<Rightarrow> Parser \<Rightarrow> exprFlow"
  where
  "special left skipNot form p =
     (if isNilExpr left then Some (Leave (None, p))
      else do {
        p \<leftarrow> advanceIf skipNot p;
        (left, p) \<leftarrow> form p;
        if isNilExpr left then Some (Leave (None, p)) else Some (Continue (left, p)) })"

definition typed :: "exprKind \<Rightarrow> (expr option \<times> Parser) option \<Rightarrow> (expr \<times> Parser) option" where
  "typed k r = do { (e, p) \<leftarrow> r; Some (exprOf k e, p) }"

definition exprLoop :: "env \<Rightarrow> nat \<Rightarrow> expr \<times> Parser \<Rightarrow> exprFlow" where
  "exprLoop env minPrec = (\<lambda>(left, p).
     let op = Type (cur p) in
     if curIs p token_IS then special left False (parseIsExpr left) p
     else if curIs p token_IN then
       special left False (\<lambda>p. typed KInExpr (parseInExpr env left False p)) p
     else do {
       (next, p) \<leftarrow>
         (if curIs p token_NOT then do { (it, p) \<leftarrow> peek p; Some (Some (Type it), p) }
          else Some (None, p));
       if next = Some token_IN then
         special left True (\<lambda>p. typed KInExpr (parseInExpr env left True p)) p
       else if next = Some token_BETWEEN then
         special left True (\<lambda>p. typed KBetweenExpr (parseBetweenExpr env left True p)) p
       else if next = Some token_LIKE \<or> next = Some token_ILIKE then
         special left True (parseLikeExpr env left True) p
       else if next = Some token_SIMILAR then
         special left True (parseSimilarExpr env left True) p
       else if curIs p token_BETWEEN then
         special left False (\<lambda>p. typed KBetweenExpr (parseBetweenExpr env left False p)) p
       else if curIs p token_LIKE \<or> curIs p token_ILIKE then
         special left False (parseLikeExpr env left False) p
       else if curIs p token_SIMILAR then
         special left False (parseSimilarExpr env left False) p
       else if curIs p token_COLLATE then
         special left False (parseCollateExpr left) p
       else if curIs p token_DCOLON then
         special left False (parsePostgresCast env left) p
       else if curIs p token_LBRACKET then
         special left False (\<lambda>p. typed KSubscriptExpr (parseSubscript env left p)) p
       else if precedence op < minPrec then Some (Leave (Some left, p))
       else if \<not> isBinaryOp op then Some (Leave (Some left, p))
       else do {
         p \<leftarrow> advance p;
         (right, p) \<leftarrow> callExprPrec env (precedence op + 1) p;
         case right of
           None \<Rightarrow> Some (Leave (None, p))
         | Some r \<Rightarrow> Some (Continue (BinaryExpr op (Some left) (Some r), p)) } })"

definition parseExprPrec :: "env \<Rightarrow> nat \<Rightarrow> Parser \<Rightarrow> (expr option \<times> Parser) option" where
  "parseExprPrec env minPrec p = do {
     (left, p) \<leftarrow> parsePrimaryExpr env p;
     case left of
       None \<Rightarrow> Some (None, p)
     | Some left \<Rightarrow> loop (fuel env) (exprLoop env minPrec) (left, p) }"

subsection \<open>\<^verbatim>\<open>SELECT\<close>\<close>

definition isClauseKeyword :: "token \<Rightarrow> bool" where
  "isClauseKeyword t =
     (t \<in> {token_FROM, token_WHERE, token_GROUP, token_HAVING, token_ORDER,
            token_LIMIT, token_OFFSET, token_UNION, token_INTERSECT, token_EXCEPT,
            token_FOR, token_INTO, token_ON, token_USING, token_JOIN, token_INNER,
            token_LEFT, token_RIGHT, token_FULL, token_CROSS, token_NATURAL,
            token_AND, token_OR, token_THEN, token_ELSE, token_END, token_WHEN,
            token_AS, token_SET, token_VALUES, token_RETURNING})"

text \<open>The type assertion \<^verbatim>\<open>expr.(*ast.StarExpr)\<close>, the star as a select expression.\<close>

fun asStarExpr :: "expr \<Rightarrow> expr selectExpr option" where
  "asStarExpr (StarE t q) = Some (StarExpr t q)"
| "asStarExpr _ = None"

definition parseSelectExpr :: "env \<Rightarrow> Parser \<Rightarrow> (expr selectExpr option \<times> Parser) option" where
  "parseSelectExpr env p = do {
     p \<leftarrow> skipComments env p;
     if curIs p token_ASTERISK then do { p \<leftarrow> advance p; Some (Some (StarExpr [] False), p) }
     else do {
       (e, p) \<leftarrow> parseExpr env p;
       case e of
         None \<Rightarrow> Some (None, p)
       | Some x \<Rightarrow>
           (case asStarExpr x of
              Some star \<Rightarrow> Some (Some star, p)
            | None \<Rightarrow>
                if curIs p token_AS then do {
                  p \<leftarrow> advance p;
                  if \<not> curIs p token_IDENT \<and> \<not> curIs p token_STRING then
                    Some (None, errorf ''expected alias after AS'' [] p)
                  else do {
                    let alias = Value (cur p);
                    p \<leftarrow> advance p;
                    Some (Some (AliasedExpr (Some x) alias), p) } }
                else if curIs p token_IDENT \<and> \<not> isClauseKeyword (Type (cur p)) then do {
                  let alias = Value (cur p);
                  p \<leftarrow> advance p;
                  Some (Some (AliasedExpr (Some x) alias), p) }
                else Some (Some (AliasedExpr (Some x) []), p)) } }"

definition parseSelectExprs :: "env \<Rightarrow> Parser \<Rightarrow> (expr selectExpr list \<times> Parser) option" where
  "parseSelectExprs env p =
     loop (fuel env)
       (\<lambda>(exprs, p). do {
          (e, p) \<leftarrow> parseSelectExpr env p;
          case e of
            None \<Rightarrow> Some (Leave (exprs, p))
          | Some x \<Rightarrow>
              if \<not> curIs p token_COMMA then Some (Leave (exprs @ [x], p))
              else do { p \<leftarrow> advance p; Some (Continue (exprs @ [x], p)) } })
       ([], p)"

text \<open>
  The loop that collects the values of tokens accepted by \<open>ok\<close>, separated by commas; it is
  written out in \<^verbatim>\<open>parseSelectInto\<close>, \<^verbatim>\<open>parseColumnNameList\<close>, \<^verbatim>\<open>parseIndexHint\<close>,
  \<^verbatim>\<open>parseOnConflict\<close> and \<^verbatim>\<open>parseInsert\<close>.
\<close>

definition nameList :: "env \<Rightarrow> (token \<Rightarrow> bool) \<Rightarrow> Parser \<Rightarrow> (string list \<times> Parser) option" where
  "nameList env ok p =
     loop (fuel env)
       (\<lambda>(names, p).
          if \<not> ok (Type (cur p)) then Some (Leave (names, p))
          else do {
            let names = names @ [Value (cur p)];
            p \<leftarrow> advance p;
            if \<not> curIs p token_COMMA then Some (Leave (names, p))
            else do { p \<leftarrow> advance p; Some (Continue (names, p)) } })
       ([], p)"

definition parseSelectInto :: "env \<Rightarrow> Parser \<Rightarrow> (SelectInto \<times> Parser) option" where
  "parseSelectInto env p = do {
     p \<leftarrow> advance p;
     let into = \<lparr>Outfile = [], Dumpfile = [], Vars = []\<rparr>;
     if curIs p token_OUTFILE then do {
       p \<leftarrow> advance p;
       if curIs p token_STRING then do {
         let into = into\<lparr>Outfile := Value (cur p)\<rparr>;
         p \<leftarrow> advance p;
         Some (into, p) }
       else Some (into, p) }
     else if curIs p token_IDENT \<and> Value (cur p) = ''DUMPFILE'' then do {
       p \<leftarrow> advance p;
       if curIs p token_STRING then do {
         let into = into\<lparr>Dumpfile := Value (cur p)\<rparr>;
         p \<leftarrow> advance p;
         Some (into, p) }
       else Some (into, p) }
     else do {
       (vars, p) \<leftarrow> nameList env (\<lambda>t. t = token_PARAM \<or> t = token_IDENT) p;
       Some (into\<lparr>Vars := vars\<rparr>, p) } }"

definition parseColumnNameList :: "env \<Rightarrow> Parser \<Rightarrow> (string list \<times> Parser) option" where
  "parseColumnNameList env p = do {
     p \<leftarrow> advance p;
     (names, p) \<leftarrow> nameList env (\<lambda>t. t = token_IDENT) p;
     (_, p) \<leftarrow> expect token_RPAREN p;
     Some (names, p) }"

text \<open>\<^verbatim>\<open>parseTableName\<close>: the parts of the name, \<open>None\<close> for the \<^verbatim>\<open>nil\<close> pointer.\<close>

definition parseTableName :: "env \<Rightarrow> Parser \<Rightarrow> (string list option \<times> Parser) option" where
  "parseTableName env p =
     (if \<not> curIsIdent p then Some (None, errorf ''expected table name'' [] p)
      else do {
        let parts = [curIdentValue p];
        p \<leftarrow> advance p;
        loop (fuel env)
          (\<lambda>(parts, p).
             if curIs p token_DOT then do {
               p \<leftarrow> advance p;
               if \<not> curIsIdent p then
                 Some (Leave (None,
                   errorf (''expected identifier after '' @ [CHR 0x27] @ ''.'' @ [CHR 0x27]) [] p))
               else do {
                 let parts = parts @ [curIdentValue p];
                 p \<leftarrow> advance p;
                 Some (Continue (parts, p)) } }
             else Some (Leave (Some parts, p)))
          (parts, p) })"

definition parseValuesClause :: "env \<Rightarrow> Parser \<Rightarrow> (tableExpr \<times> Parser) option" where
  "parseValuesClause env p = do {
     p \<leftarrow> advance p;
     (rows, p) \<leftarrow>
       loop (fuel env)
         (\<lambda>(rows, p). do {
            (ok, p) \<leftarrow> expect token_LPAREN p;
            if \<not> ok then Some (Leave (rows, p))
            else do {
              (row, p) \<leftarrow> parseExprList env p;
              let rows = rows @ [row];
              (ok, p) \<leftarrow> expect token_RPAREN p;
              if \<not> ok then Some (Leave (rows, p))
              else if \<not> curIs p token_COMMA then Some (Leave (rows, p))
              else do { p \<leftarrow> advance p; Some (Continue (rows, p)) } } })
         ([], p);
     Some (ValuesStmt rows, p) }"

definition parseIndexHint :: "env \<Rightarrow> Parser \<Rightarrow> (IndexHint \<times> Parser) option" where
  "parseIndexHint env p = do {
     let hintType =
       (if curIs p token_FORCE then HintForce
        else if curIs p token_IGNORE then HintIgnore
        else HintUse);
     p \<leftarrow> advance p;
     p \<leftarrow> advanceIf (curIs p token_INDEX \<or> curIs p token_KEY) p;
     (hintFor, p) \<leftarrow>
       (if curIs p token_FOR then do {
          p \<leftarrow> advance p;
          if curIs p token_JOIN then do { p \<leftarrow> advance p; Some (HintForJoin, p) }
          else if curIs p token_ORDER then do {
            p \<leftarrow> advance p; (_, p) \<leftarrow> expect token_BY p; Some (HintForOrderBy, p) }
          else if curIs p token_GROUP then do {
            p \<leftarrow> advance p; (_, p) \<leftarrow> expect token_BY p; Some (HintForGroupBy, p) }
          else Some (HintForAll, p) }
        else Some (HintForAll, p));
     (indexes, p) \<leftarrow>
       (if curIs p token_LPAREN then do {
          p \<leftarrow> advance p;
          (names, p) \<leftarrow> nameList env (\<lambda>t. t = token_IDENT \<or> t = token_PRIMARY) p;
          (_, p) \<leftarrow> expect token_RPAREN p;
          Some (names, p) }
        else Some ([], p));
     Some (\<lparr>HintType = hintType, HintFor = hintFor, HintIndexes = indexes\<rparr>, p) }"

text \<open>
  \<^verbatim>\<open>parseTablePrimary\<close>. The column alias list is parsed and dropped, as in the source; the
  assertion \<^verbatim>\<open>expr.(*ast.JoinExpr)\<close> under \<^verbatim>\<open>lateral\<close> never holds there, because \<^verbatim>\<open>expr\<close> is a
  subquery, a parenthesized table, a table name or a \<^verbatim>\<open>VALUES\<close> clause.
\<close>

definition parseTablePrimary :: "env \<Rightarrow> Parser \<Rightarrow> (tableExpr option \<times> Parser) option" where
  "parseTablePrimary env p = do {
     let lateral = curIs p token_LATERAL;
     p \<leftarrow> advanceIf lateral p;
     (r, p) \<leftarrow>
       (if curIs p token_LPAREN then do {
          p \<leftarrow> advance p;
          if curIs p token_SELECT \<or> curIs p token_WITH then do {
            (stmt, p) \<leftarrow>
              (if curIs p token_WITH then callWith env p
               else do { (s, p) \<leftarrow> callSelect env p; Some (Some (stmtOfSelect s), p) });
            if stmt = None then Some (None, p)
            else do {
              (ok, p) \<leftarrow> expect token_RPAREN p;
              if \<not> ok then Some (None, p)
              else (case asSelectStmt stmt of
                      (sel, True) \<Rightarrow> Some (Some (SubqueryT sel), p)
                    | (sel, False) \<Rightarrow>
                        Some (None, errorf ''expected SELECT statement in subquery'' [] p)) } }
          else do {
            (inner, p) \<leftarrow> callTableExpr env p;
            (ok, p) \<leftarrow> expect token_RPAREN p;
            if \<not> ok then Some (None, p) else Some (Some (ParenTableExpr inner), p) } }
        else if curIsIdent p then do {
          (tn, p) \<leftarrow> parseTableName env p;
          case tn of
            None \<Rightarrow> Some (None, p)
          | Some parts \<Rightarrow> Some (Some (TableName parts), p) }
        else if curIs p token_VALUES then do {
          (v, p) \<leftarrow> parseValuesClause env p; Some (Some v, p) }
        else Some (None, errorf ''expected table name or subquery'' [] p));
     case r of
       None \<Rightarrow> Some (None, p)
     | Some e \<Rightarrow> do {
         p \<leftarrow> advanceIf (curIs p token_AS) p;
         let hasAlias = (curIs p token_IDENT \<and> \<not> isClauseKeyword (Type (cur p)));
         let alias = (if hasAlias then Value (cur p) else []);
         p \<leftarrow> advanceIf hasAlias p;
         (_, p) \<leftarrow> (if curIs p token_LPAREN then parseColumnNameList env p else Some ([], p));
         (hints, p) \<leftarrow>
           loop (fuel env)
             (\<lambda>(hints, p).
                if curIs p token_USE \<or> curIs p token_FORCE \<or> curIs p token_IGNORE then do {
                  (h, p) \<leftarrow> parseIndexHint env p;
                  Some (Continue (hints @ [h], p)) }
                else Some (Leave (hints, p)))
             ([], p);
         if alias \<noteq> [] \<or> length hints > 0 \<or> lateral then
           Some (Some (AliasedTableExpr (Some e) alias hints), p)
         else Some (Some e, p) } }"

definition checkJoinKeyword :: "Parser \<Rightarrow> joinType \<times> bool \<times> bool" where
  "checkJoinKeyword p =
     (let t = Type (cur p); natural = curIs p token_NATURAL in
      if t = token_JOIN then (JoinInner, natural, True)
      else if t = token_INNER then (JoinInner, natural, True)
      else if t = token_LEFT then (JoinLeft, natural, True)
      else if t = token_RIGHT then (JoinRight, natural, True)
      else if t = token_FULL then (JoinFull, natural, True)
      else if t = token_CROSS then (JoinCross, natural, True)
      else if t = token_NATURAL then (JoinInner, True, True)
      else if t = token_STRAIGHT_JOIN then (JoinInner, False, True)
      else if t = token_COMMA then (JoinCross, False, True)
      else (JoinInner, False, False))"

definition consumeJoinKeywords :: "env \<Rightarrow> Parser \<Rightarrow> Parser option" where
  "consumeJoinKeywords env p =
     loop (fuel env)
       (\<lambda>p. if Type (cur p) \<in> {token_NATURAL, token_INNER, token_LEFT, token_RIGHT, token_FULL,
                 token_OUTER, token_CROSS, token_JOIN, token_STRAIGHT_JOIN, token_COMMA}
            then do { p \<leftarrow> advance p; Some (Continue p) }
            else Some (Leave p)) p"

definition parseTableExpr :: "env \<Rightarrow> Parser \<Rightarrow> (tableExpr option \<times> Parser) option" where
  "parseTableExpr env p = do {
     (left, p) \<leftarrow> parseTablePrimary env p;
     case left of
       None \<Rightarrow> Some (None, p)
     | Some left \<Rightarrow>
         loop (fuel env)
           (\<lambda>(left, p).
              case checkJoinKeyword p of (joinType, natural, hasJoin) \<Rightarrow>
                if \<not> hasJoin then Some (Leave (Some left, p))
                else do {
                  p \<leftarrow> consumeJoinKeywords env p;
                  let lateral = curIs p token_LATERAL;
                  p \<leftarrow> advanceIf lateral p;
                  (right, p) \<leftarrow> parseTablePrimary env p;
                  (on, using, p) \<leftarrow>
                    (if joinType \<noteq> JoinCross \<and> \<not> natural then
                       (if curIs p token_ON then do {
                          p \<leftarrow> advance p;
                          (e, p) \<leftarrow> parseExpr env p;
                          Some (e, [], p) }
                        else if curIs p token_USING then do {
                          p \<leftarrow> advance p;
                          (names, p) \<leftarrow> parseColumnNameList env p;
                          Some (None, names, p) }
                        else Some (None, [], p))
                     else Some (None, [], p));
                  Some (Continue
                    (JoinExpr joinType (Some left) right on using natural lateral, p)) })
           (left, p) }"

definition parseLimit :: "env \<Rightarrow> Parser \<Rightarrow> (expr limit \<times> Parser) option" where
  "parseLimit env p = do {
     p \<leftarrow> advance p;
     (count, p) \<leftarrow> parseExpr env p;
     if curIs p token_OFFSET then do {
       p \<leftarrow> advance p;
       (off, p) \<leftarrow> parseExpr env p;
       Some (Limit count off, p) }
     else if curIs p token_COMMA then do {
       p \<leftarrow> advance p;
       (count2, p) \<leftarrow> parseExpr env p;
       Some (Limit count2 count, p) }
     else Some (Limit count None, p) }"

definition parseLockClause :: "Parser \<Rightarrow> (string \<times> Parser) option" where
  "parseLockClause p = do {
     p \<leftarrow> advance p;
     let lock =
       (if curIs p token_UPDATE then ''UPDATE'' else if curIs p token_SHARE then ''SHARE'' else []);
     p \<leftarrow> advanceIf (curIs p token_UPDATE \<or> curIs p token_SHARE) p;
     if curIs p token_NOWAIT then do {
       p \<leftarrow> advance p; Some (lock @ '' NOWAIT'', p) }
     else if curIs p token_SKIP then do {
       p \<leftarrow> advance p;
       if curIs p token_LOCKED then do { p \<leftarrow> advance p; Some (lock @ '' SKIP LOCKED'', p) }
       else Some (lock, p) }
     else Some (lock, p) }"

definition parseWindowDefs :: "env \<Rightarrow> Parser \<Rightarrow> (expr windowDef list \<times> Parser) option" where
  "parseWindowDefs env p = do {
     p \<leftarrow> advance p;
     loop (fuel env)
       (\<lambda>(defs, p).
          if \<not> curIs p token_IDENT then Some (Leave (defs, p))
          else do {
            let name = Value (cur p);
            p \<leftarrow> advance p;
            (ok, p) \<leftarrow> expect token_AS p;
            if \<not> ok then Some (Leave (defs, p))
            else do {
              (spec, p) \<leftarrow> parseWindowSpec env p;
              let defs = defs @ [WindowDef name spec];
              if \<not> curIs p token_COMMA then Some (Leave (defs, p))
              else do { p \<leftarrow> advance p; Some (Continue (defs, p)) } } })
       ([], p) }"

definition isSetOpToken :: "Parser \<Rightarrow> bool" where
  "isSetOpToken p = (curIs p token_UNION \<or> curIs p token_INTERSECT \<or> curIs p token_EXCEPT)"

text \<open>
  \<^verbatim>\<open>parseSetOp\<close>: every right operand is parsed, its result is dropped, and \<^verbatim>\<open>left\<close> is
  returned.
\<close>

definition parseSetOp ::
  "env \<Rightarrow> selectStmt option \<Rightarrow> Parser \<Rightarrow> (selectStmt option \<times> Parser) option" where
  "parseSetOp env left p =
     loop (fuel env)
       (\<lambda>p. if isSetOpToken p then do {
               p \<leftarrow> advance p;
               p \<leftarrow> advanceIf (curIs p token_ALL \<or> curIs p token_DISTINCT) p;
               if curIs p token_LPAREN then do {
                 p \<leftarrow> advance p;
                 (_, p) \<leftarrow> callSelect env p;
                 (_, p) \<leftarrow> expect token_RPAREN p;
                 Some (Continue p) }
               else do {
                 (_, p) \<leftarrow> callSelect env p;
                 Some (Continue p) } }
            else Some (Leave (left, p))) p"

definition isSelectHint :: "Parser \<Rightarrow> bool" where
  "isSelectHint p =
     (curIs p token_SQL_CALC_FOUND_ROWS \<or> curIs p token_SQL_SMALL_RESULT \<or>
      curIs p token_SQL_BIG_RESULT \<or> curIs p token_SQL_BUFFER_RESULT \<or>
      curIs p token_HIGH_PRIORITY \<or> curIs p token_STRAIGHT_JOIN)"

definition parseSelect :: "env \<Rightarrow> Parser \<Rightarrow> (selectStmt option \<times> Parser) option" where
  "parseSelect env p = do {
     (ok, p) \<leftarrow> expect token_SELECT p;
     if \<not> ok then Some (None, p)
     else do {
       p \<leftarrow> loop (fuel env)
              (\<lambda>p. if isSelectHint p then do { p \<leftarrow> advance p; Some (Continue p) }
                   else Some (Leave p)) p;
       let dist = curIs p token_DISTINCT;
       p \<leftarrow> advanceIf (curIs p token_DISTINCT \<or> curIs p token_ALL) p;
       (columns, p) \<leftarrow> parseSelectExprs env p;
       (into, p) \<leftarrow>
         (if curIs p token_INTO then do { (i, p) \<leftarrow> parseSelectInto env p; Some (Some i, p) }
          else Some (None, p));
       (from, p) \<leftarrow>
         (if curIs p token_FROM then do { p \<leftarrow> advance p; parseTableExpr env p }
          else Some (None, p));
       (wher, p) \<leftarrow>
         (if curIs p token_WHERE then do { p \<leftarrow> advance p; parseExpr env p }
          else Some (None, p));
       (g, p) \<leftarrow>
         (if curIs p token_GROUP then do {
            p \<leftarrow> advance p;
            (ok, p) \<leftarrow> expect token_BY p;
            if \<not> ok then Some (None, p)
            else do { (l, p) \<leftarrow> parseExprList env p; Some (Some l, p) } }
          else Some (Some [], p));
       case g of
         None \<Rightarrow> Some (None, p)
       | Some groupBy \<Rightarrow> do {
           (having, p) \<leftarrow>
             (if curIs p token_HAVING then do { p \<leftarrow> advance p; parseExpr env p }
              else Some (None, p));
           (windowDefs, p) \<leftarrow>
             (if curIs p token_WINDOW then parseWindowDefs env p else Some ([], p));
           (orderBy, p) \<leftarrow>
             (if curIs p token_ORDER then parseOrderBy env p else Some ([], p));
           (lim, p) \<leftarrow>
             (if curIs p token_LIMIT then do { (l, p) \<leftarrow> parseLimit env p; Some (Some l, p) }
              else Some (None, p));
           (lim, p) \<leftarrow>
             (if curIs p token_OFFSET \<and> lim = None then do {
                p \<leftarrow> advance p;
                (off, p) \<leftarrow> parseExpr env p;
                Some (Some (Limit None off), p) }
              else Some (lim, p));
           (lim, p) \<leftarrow>
             (if curIs p token_FETCH then do {
                let l = (case lim of None \<Rightarrow> Limit None None | Some l \<Rightarrow> l);
                p \<leftarrow> advance p;
                p \<leftarrow> advanceIf (curIs p token_FIRST \<or> curIs p token_NEXT) p;
                (count, p) \<leftarrow> parseExpr env p;
                p \<leftarrow> advanceIf (curIs p token_ROW \<or> curIs p token_ROWS) p;
                p \<leftarrow> advanceIf (curIs p token_ONLY) p;
                Some (Some (Limit count (LimitOffset l)), p) }
              else Some (lim, p));
           (lock, p) \<leftarrow> (if curIs p token_FOR then parseLockClause p else Some ([], p));
           let stmt = SelectStmt None dist columns from wher groupBy having orderBy lim lock
                        into windowDefs;
           if isSetOpToken p then parseSetOp env (Some stmt) p else Some (Some stmt, p) } } }"

subsection \<open>\<^verbatim>\<open>INSERT\<close>\<close>

definition parseUpdateExprs :: "env \<Rightarrow> Parser \<Rightarrow> (expr updateExpr list \<times> Parser) option" where
  "parseUpdateExprs env p =
     loop (fuel env)
       (\<lambda>(exprs, p).
          if \<not> curIs p token_IDENT then Some (Leave (exprs, p))
          else do {
            let parts = [Value (cur p)];
            p \<leftarrow> advance p;
            (parts, p) \<leftarrow>
              loop (fuel env)
                (\<lambda>(parts, p).
                   if curIs p token_DOT then do {
                     p \<leftarrow> advance p;
                     if curIs p token_IDENT then do {
                       let parts = parts @ [Value (cur p)];
                       p \<leftarrow> advance p;
                       Some (Continue (parts, p)) }
                     else Some (Leave (parts, p)) }
                   else Some (Leave (parts, p)))
                (parts, p);
            (_, p) \<leftarrow> expect token_EQ p;
            (e, p) \<leftarrow> parseExpr env p;
            let exprs = exprs @ [UpdateExpr parts e];
            if \<not> curIs p token_COMMA then Some (Leave (exprs, p))
            else do { p \<leftarrow> advance p; Some (Continue (exprs, p)) } })
       ([], p)"

definition parseOnConflict :: "env \<Rightarrow> Parser \<Rightarrow> (expr onConflict \<times> Parser) option" where
  "parseOnConflict env p = do {
     p \<leftarrow> advance p;
     (columns, p) \<leftarrow>
       (if curIs p token_LPAREN then do {
          p \<leftarrow> advance p;
          (names, p) \<leftarrow> nameList env (\<lambda>t. t = token_IDENT) p;
          (_, p) \<leftarrow> expect token_RPAREN p;
          Some (names, p) }
        else Some ([], p));
     (wher, p) \<leftarrow>
       (if curIs p token_WHERE then do { p \<leftarrow> advance p; parseExpr env p }
        else Some (None, p));
     (_, p) \<leftarrow> expect token_DO p;
     if curIs p token_NOTHING then do {
       p \<leftarrow> advance p;
       Some (OnConflict columns wher True [], p) }
     else if curIs p token_UPDATE then do {
       p \<leftarrow> advance p;
       (_, p) \<leftarrow> expect token_SET p;
       (updates, p) \<leftarrow> parseUpdateExprs env p;
       Some (OnConflict columns wher False updates, p) }
     else Some (OnConflict columns wher False [], p) }"

definition parseValuesList :: "env \<Rightarrow> Parser \<Rightarrow> (expr list list \<times> Parser) option" where
  "parseValuesList env p =
     loop (fuel env)
       (\<lambda>(rows, p).
          if \<not> curIs p token_LPAREN then Some (Leave (rows, p))
          else do {
            p \<leftarrow> advance p;
            (row, p) \<leftarrow>
              loop (fuel env)
                (\<lambda>(row, p). do {
                   (r, p) \<leftarrow>
                     (if curIs p token_DEFAULT then do {
                        p \<leftarrow> advance p;
                        Some (Some (Literal LiteralNull ''DEFAULT''), p) }
                      else parseExpr env p);
                   case r of
                     None \<Rightarrow> Some (Leave (row, p))
                   | Some x \<Rightarrow>
                       if \<not> curIs p token_COMMA then Some (Leave (row @ [x], p))
                       else do { p \<leftarrow> advance p; Some (Continue (row @ [x], p)) } })
                ([], p);
            let rows = rows @ [row];
            (_, p) \<leftarrow> expect token_RPAREN p;
            if \<not> curIs p token_COMMA then Some (Leave (rows, p))
            else do { p \<leftarrow> advance p; Some (Continue (rows, p)) } })
       ([], p)"

text \<open>
  The source clause of \<^verbatim>\<open>parseInsert\<close>, lines 52 to 110, with the loop of its \<^verbatim>\<open>SET\<close>
  branch (the row \<^verbatim>\<open>stmt.Values[0]\<close> in its state) before it: its result is the three fields it
  may write, \<^verbatim>\<open>Columns\<close>, \<^verbatim>\<open>Values\<close> and \<^verbatim>\<open>Select\<close>, or \<open>None\<close> where the source returns
  \<^verbatim>\<open>nil\<close>. \<^verbatim>\<open>Values\<close> is \<^verbatim>\<open>nil\<close> exactly when it is \<open>[]\<close> here: \<^verbatim>\<open>parseValuesList\<close> returns \<^verbatim>\<open>nil\<close>
  or a slice with a row, and the other branches that write it start from \<^verbatim>\<open>[][]ast.Expr{{}}\<close>.
\<close>

definition insertSetLoop ::
  "env \<Rightarrow> string list list \<times> expr list \<times> Parser \<Rightarrow>
   (string list list \<times> expr list \<times> Parser,
    (string list list \<times> expr list list \<times> selectStmt option) option \<times> Parser) flow option"
  where
  "insertSetLoop env = (\<lambda>(columns, row, p).
     if \<not> curIsIdent p then Some (Leave (Some (columns, [row], None), p))
     else do {
       let colName = curIdentValue p;
       p \<leftarrow> advance p;
       (ok, p) \<leftarrow> expect token_EQ p;
       if \<not> ok then Some (Leave (None, p))
       else do {
         (val, p) \<leftarrow> parseExpr env p;
         case val of
           None \<Rightarrow> Some (Leave (None, p))
         | Some v \<Rightarrow>
             if \<not> curIs p token_COMMA then
               Some (Leave (Some (columns @ [[colName]], [row @ [v]], None), p))
             else do {
               p \<leftarrow> advance p;
               Some (Continue (columns @ [[colName]], row @ [v], p)) } } })"

definition parseInsertSource ::
  "env \<Rightarrow> string list list \<Rightarrow> Parser \<Rightarrow>
   ((string list list \<times> expr list list \<times> selectStmt option) option \<times> Parser) option" where
  "parseInsertSource env columns p =
     (if curIs p token_VALUES \<or> curIs p token_VALUE then do {
        p \<leftarrow> advance p;
        (rows, p) \<leftarrow> parseValuesList env p;
        Some (Some (columns, rows, None), p) }
      else if curIs p token_SELECT \<or> curIs p token_WITH then do {
        (innerStmt, p) \<leftarrow>
          (if curIs p token_WITH then callWith env p
           else do { (s, p) \<leftarrow> callSelect env p; Some (Some (stmtOfSelect s), p) });
        if innerStmt = None then Some (None, p)
        else (case asSelectStmt innerStmt of
                (sel, True) \<Rightarrow> Some (Some (columns, [], sel), p)
              | (sel, False) \<Rightarrow> Some (None, errorf ''expected SELECT statement'' [] p)) }
      else if curIs p token_SET then do {
        p \<leftarrow> advance p;
        if \<not> curIsIdent p then Some (None, errorf ''expected column name after SET'' [] p)
        else loop (fuel env) (insertSetLoop env) (columns, [], p) }
      else if curIs p token_DEFAULT then do {
        p \<leftarrow> advance p;
        (_, p) \<leftarrow> expect token_VALUES p;
        Some (Some (columns, [[]], None), p) }
      else Some (Some (columns, [], None), p))"

definition parseInsert ::
  "env \<Rightarrow> Parser \<Rightarrow> ((expr, selectStmt, statement) insertStmt option \<times> Parser) option" where
  "parseInsert env p = do {
     let replace = curIs p token_REPLACE;
     p \<leftarrow> advance p;
     let ignore = curIs p token_IGNORE;
     p \<leftarrow> advanceIf ignore p;
     (ok, p) \<leftarrow> expect token_INTO p;
     if \<not> ok then Some (None, p)
     else do {
       (table, p) \<leftarrow> parseTableName env p;
       (hasColumns, p) \<leftarrow>
         (if curIs p token_LPAREN then do {
            (isSelect, p) \<leftarrow> peekIs token_SELECT p; Some (\<not> isSelect, p) }
          else Some (False, p));
       (columns, p) \<leftarrow>
         (if hasColumns then do {
            p \<leftarrow> advance p;
            (names, p) \<leftarrow> nameList env (\<lambda>t. t = token_IDENT) p;
            (_, p) \<leftarrow> expect token_RPAREN p;
            Some (map (\<lambda>n. [n]) names, p) }
          else Some ([], p));
       (r, p) \<leftarrow> parseInsertSource env columns p;
       case r of
         None \<Rightarrow> Some (None, p)
       | Some (columns, rows, sel) \<Rightarrow> do {
           (onDuplicateUpdate, p) \<leftarrow>
             (if curIs p token_ON then do {
                p \<leftarrow> advance p;
                if curIs p token_DUPLICATE then do {
                  p \<leftarrow> advance p;
                  (_, p) \<leftarrow> expect token_KEY p;
                  (_, p) \<leftarrow> expect token_UPDATE p;
                  parseUpdateExprs env p }
                else Some ([], p) }
              else Some ([], p));
           (hasConflict, p) \<leftarrow>
             (if curIs p token_CONFLICT then Some (True, p)
              else if curIs p token_ON then peekIs token_CONFLICT p
              else Some (False, p));
           (onConflict, p) \<leftarrow>
             (if hasConflict then do {
                p \<leftarrow> advanceIf (curIs p token_ON) p;
                (c, p) \<leftarrow> parseOnConflict env p;
                Some (Some c, p) }
              else Some (None, p));
           (returning, p) \<leftarrow>
             (if curIs p token_RETURNING then do { p \<leftarrow> advance p; parseSelectExprs env p }
              else Some ([], p));
           Some (Some (InsertStmt None replace ignore table columns rows sel onDuplicateUpdate
                         onConflict returning), p) } } }"

subsection \<open>Statements\<close>

definition parseCTE :: "env \<Rightarrow> Parser \<Rightarrow> (statement cte option \<times> Parser) option" where
  "parseCTE env p =
     (if \<not> curIs p token_IDENT then Some (None, errorf ''expected CTE name'' [] p)
      else do {
        let name = Value (cur p);
        p \<leftarrow> advance p;
        (columns, p) \<leftarrow>
          (if curIs p token_LPAREN then parseColumnNameList env p else Some ([], p));
        (ok, p) \<leftarrow> expect token_AS p;
        if \<not> ok then Some (None, p)
        else do {
          (ok, p) \<leftarrow> expect token_LPAREN p;
          if \<not> ok then Some (None, p)
          else do {
            (query, p) \<leftarrow> callStatement env p;
            (ok, p) \<leftarrow> expect token_RPAREN p;
            if \<not> ok then Some (None, p) else Some (Some (CTE name columns query), p) } } })"

definition parseWithClause :: "env \<Rightarrow> Parser \<Rightarrow> (statement withClause \<times> Parser) option" where
  "parseWithClause env p = do {
     p \<leftarrow> advance p;
     let recursive = curIs p token_RECURSIVE;
     p \<leftarrow> advanceIf recursive p;
     (ctes, p) \<leftarrow>
       loop (fuel env)
         (\<lambda>(ctes, p). do {
            (c, p) \<leftarrow> parseCTE env p;
            let ctes = (case c of None \<Rightarrow> ctes | Some c \<Rightarrow> ctes @ [c]);
            if \<not> curIs p token_COMMA then Some (Leave (ctes, p))
            else do { p \<leftarrow> advance p; Some (Continue (ctes, p)) } })
         ([], p);
     Some (WithClause recursive ctes, p) }"

text \<open>The assignments \<^verbatim>\<open>stmt.With = ...\<close>, \<^verbatim>\<open>sel.OrderBy = ...\<close> and \<^verbatim>\<open>sel.Limit = ...\<close>.\<close>

fun setWith :: "statement withClause option \<Rightarrow> selectStmt \<Rightarrow> selectStmt" where
  "setWith w (SelectStmt _ d c f wh g h ob l lk i wd) = SelectStmt w d c f wh g h ob l lk i wd"

fun setOrderBy :: "expr orderByExpr list \<Rightarrow> selectStmt \<Rightarrow> selectStmt" where
  "setOrderBy ob (SelectStmt w d c f wh g h _ l lk i wd) = SelectStmt w d c f wh g h ob l lk i wd"

fun setLimit :: "expr limit option \<Rightarrow> selectStmt \<Rightarrow> selectStmt" where
  "setLimit l (SelectStmt w d c f wh g h ob _ lk i wd) = SelectStmt w d c f wh g h ob l lk i wd"

fun setInsWith ::
  "statement withClause option \<Rightarrow> (expr, selectStmt, statement) insertStmt \<Rightarrow>
   (expr, selectStmt, statement) insertStmt" where
  "setInsWith w (InsertStmt _ r i t c v s od oc rt) = InsertStmt w r i t c v s od oc rt"

text \<open>
  \<^verbatim>\<open>parseWith\<close>. The branches for \<^verbatim>\<open>UPDATE\<close> and \<^verbatim>\<open>DELETE\<close> are outside the fragment.
\<close>

definition parseWith :: "env \<Rightarrow> Parser \<Rightarrow> (statement option \<times> Parser) option" where
  "parseWith env p = do {
     (withClause, p) \<leftarrow> parseWithClause env p;
     p \<leftarrow> skipComments env p;
     if curIs p token_SELECT then do {
       (stmt, p) \<leftarrow> parseSelect env p;
       Some (Some (stmtOfSelect (map_option (setWith (Some withClause)) stmt)), p) }
     else if curIs p token_INSERT \<or> curIs p token_REPLACE then do {
       (stmt, p) \<leftarrow> parseInsert env p;
       Some (Some (stmtOfInsert (map_option (setInsWith (Some withClause)) stmt)), p) }
     else if curIs p token_UPDATE \<or> curIs p token_DELETE then None
     else Some (None,
            errorf ''expected SELECT, INSERT, UPDATE, or DELETE after WITH'' [] p) }"

text \<open>
  \<^verbatim>\<open>parseParenthesizedStatement\<close>. When the inner statement is a \<^verbatim>\<open>nil\<close> pointer of type
  \<^verbatim>\<open>*ast.SelectStmt\<close> and no set operation follows, the assignments to the fields of \<^verbatim>\<open>sel\<close>
  dereference \<^verbatim>\<open>nil\<close>: the run panics.
\<close>

definition parseParenthesizedStatement :: "env \<Rightarrow> Parser \<Rightarrow> (statement option \<times> Parser) option" where
  "parseParenthesizedStatement env p = do {
     p \<leftarrow> advance p;
     (inner, p) \<leftarrow> callStatement env p;
     if inner = None then Some (None, p)
     else do {
       (ok, p) \<leftarrow> expect token_RPAREN p;
       if \<not> ok then Some (None, p)
       else (case asSelectStmt inner of
               (sel, False) \<Rightarrow> Some (inner, p)
             | (sel, True) \<Rightarrow>
                 if isSetOpToken p then do {
                   (s, p) \<leftarrow> parseSetOp env sel p;
                   Some (Some (stmtOfSelect s), p) }
                 else (case sel of
                         None \<Rightarrow> None
                       | Some s \<Rightarrow> do {
                           (s, p) \<leftarrow>
                             (if curIs p token_ORDER then do {
                                (ob, p) \<leftarrow> parseOrderBy env p; Some (setOrderBy ob s, p) }
                              else Some (s, p));
                           (s, p) \<leftarrow>
                             (if curIs p token_LIMIT then do {
                                (l, p) \<leftarrow> parseLimit env p; Some (setLimit (Some l) s, p) }
                              else Some (s, p));
                           Some (Some (SelectS s), p) })) } }"

text \<open>
  \<^verbatim>\<open>parseStatement\<close>. The statements \<^verbatim>\<open>UPDATE\<close>, \<^verbatim>\<open>DELETE\<close>, \<^verbatim>\<open>CREATE\<close>, \<^verbatim>\<open>ALTER\<close>, \<^verbatim>\<open>DROP\<close>,
  \<^verbatim>\<open>TRUNCATE\<close>, \<^verbatim>\<open>EXPLAIN\<close> and \<^verbatim>\<open>ANALYZE\<close> are outside the fragment.
\<close>

definition parseStatement :: "env \<Rightarrow> Parser \<Rightarrow> (statement option \<times> Parser) option" where
  "parseStatement env p =
     (let t = Type (cur p) in
      if t = token_SELECT then do {
        (s, p) \<leftarrow> parseSelect env p; Some (Some (stmtOfSelect s), p) }
      else if t = token_INSERT \<or> t = token_REPLACE then do {
        (s, p) \<leftarrow> parseInsert env p; Some (Some (stmtOfInsert s), p) }
      else if t \<in> {token_UPDATE, token_DELETE, token_CREATE, token_ALTER, token_DROP} then None
      else if t = token_WITH then parseWith env p
      else if t \<in> {token_TRUNCATE, token_EXPLAIN, token_ANALYZE} then None
      else if t = token_LPAREN then parseParenthesizedStatement env p
      else do {
        p \<leftarrow> advance (errorf ''unexpected token %v at start of statement'' [t] p);
        Some (None, p) })"

subsection \<open>The knot\<close>

definition step :: "env \<Rightarrow> call \<Rightarrow> Parser \<Rightarrow> (res \<times> Parser) option" where
  "step env c p =
     (case c of
        CStatement \<Rightarrow> do { (s, p) \<leftarrow> parseStatement env p; Some (RStatement s, p) }
      | CSelect \<Rightarrow> do { (s, p) \<leftarrow> parseSelect env p; Some (RSelect s, p) }
      | CWith \<Rightarrow> do { (s, p) \<leftarrow> parseWith env p; Some (RStatement s, p) }
      | CTableExpr \<Rightarrow> do { (t, p) \<leftarrow> parseTableExpr env p; Some (RTableExpr t, p) }
      | CExprPrec minPrec \<Rightarrow> do { (e, p) \<leftarrow> parseExprPrec env minPrec p; Some (RExpr e, p) })"

fun run :: "nat \<Rightarrow> call \<Rightarrow> Parser \<Rightarrow> (res \<times> Parser) option" where
  "run 0 c p = None"
| "run (Suc n) c p = step \<lparr>fuel = n, rec = run n\<rparr> c p"

definition envOf :: "nat \<Rightarrow> env" where
  "envOf n = \<lparr>fuel = n, rec = run n\<rparr>"

subsection \<open>\<^verbatim>\<open>Parse\<close> and \<^verbatim>\<open>ParseAll\<close>\<close>

text \<open>
  The methods of the parser, with the fuel \<open>n\<close>, and the functions of package \<^verbatim>\<open>machparse\<close>
  that run them on a string. The error is \<^verbatim>\<open>p.errors[0]\<close> or \<^verbatim>\<open>nil\<close>.
\<close>

definition Parse :: "nat \<Rightarrow> Parser \<Rightarrow> (statement option \<times> ParseError option) option" where
  "Parse n p = do {
     p \<leftarrow> skipComments (envOf n) p;
     if curIs p token_EOF then Some (None, None)
     else do {
       (stmt, p) \<leftarrow> parseStatement (envOf n) p;
       if length (errors p) > 0 then Some (None, Some (hd (errors p)))
       else do {
         p \<leftarrow> skipComments (envOf n) p;
         p \<leftarrow> loop n
                (\<lambda>p. if curIs p token_SEMICOLON then do {
                        p \<leftarrow> advance p;
                        p \<leftarrow> skipComments (envOf n) p;
                        Some (Continue p) }
                     else Some (Leave p)) p;
         if \<not> curIs p token_EOF then
           Some (None,
             Some (hd (errors (errorf ''unexpected token %v after statement'' [Type (cur p)] p))))
         else Some (stmt, None) } } }"

definition ParseAll :: "nat \<Rightarrow> Parser \<Rightarrow> (statement list \<times> ParseError option) option" where
  "ParseAll n p = do {
     (stmts, p) \<leftarrow>
       loop n
         (\<lambda>(stmts, p).
            if curIs p token_EOF then Some (Leave (stmts, p))
            else do {
              p \<leftarrow> skipComments (envOf n) p;
              if curIs p token_EOF then Some (Leave (stmts, p))
              else do {
                (stmt, p) \<leftarrow> parseStatement (envOf n) p;
                let stmts = (case stmt of None \<Rightarrow> stmts | Some s \<Rightarrow> stmts @ [s]);
                p \<leftarrow> loop n
                       (\<lambda>p. if curIs p token_SEMICOLON then do {
                               p \<leftarrow> advance p; Some (Continue p) }
                            else Some (Leave p)) p;
                p \<leftarrow> skipComments (envOf n) p;
                Some (Continue (stmts, p)) } })
         ([], p);
     if length (errors p) > 0 then Some (stmts, Some (hd (errors p)))
     else Some (stmts, None) }"

definition ParseSQL :: "nat \<Rightarrow> string \<Rightarrow> (statement option \<times> ParseError option) option" where
  "ParseSQL n sql = do { p \<leftarrow> NewParser sql; Parse n p }"

definition ParseAllSQL :: "nat \<Rightarrow> string \<Rightarrow> (statement list \<times> ParseError option) option" where
  "ParseAllSQL n sql = do { p \<leftarrow> NewParser sql; ParseAll n p }"

section \<open>Formatter: nodes\<close>

text \<open>
  \<^verbatim>\<open>Format\<close> switches on the type of its node and calls itself on the children. Here a
  function that formats a node reaches \<^verbatim>\<open>Format\<close> through its first argument \<open>fmt\<close>; \<open>Format\<close>
  below ties the knot with a fuel. The node of a call is an interface value (\<^verbatim>\<open>Expr\<close>,
  \<^verbatim>\<open>TableExpr\<close>, \<^verbatim>\<open>Statement\<close>), for which \<^verbatim>\<open>nil\<close> formats to nothing, or a pointer
  \<^verbatim>\<open>*ast.SelectStmt\<close> stored in the interface, for which \<^verbatim>\<open>nil\<close> is dereferenced. The result
  \<open>None\<close> is a run that does not come to an end in the model: a \<^verbatim>\<open>nil\<close> dereference, no fuel,
  or a keyword with a byte outside ASCII.
\<close>

datatype node =
    NExpr "expr option"
  | NTable "tableExpr option"
  | NStatement "statement option"
  | NSelect "selectStmt option"

type_synonym writer = "Formatter \<Rightarrow> Formatter option"

definition writeKeyword :: "string \<Rightarrow> writer" where
  "writeKeyword kw f =
     (if Uppercase (opts f) then do { s \<leftarrow> ToUpper kw; Some (writeStr s f) }
      else do { s \<leftarrow> ToLower kw; Some (writeStr s f) })"

text \<open>
  The loop \<^verbatim>\<open>for i, x := range xs { if i > 0 { f.write(sep) }; ... }\<close>, with the body after the
  separator as \<open>g\<close>.
\<close>

primrec formatItems :: "string \<Rightarrow> ('a \<Rightarrow> writer) \<Rightarrow> nat \<Rightarrow> 'a list \<Rightarrow> writer" where
  "formatItems sep g i [] f = Some f"
| "formatItems sep g i (x # xs) f =
     do { f \<leftarrow> g x (if i > 0 then writeStr sep f else f); formatItems sep g (Suc i) xs f }"

definition formatList :: "string \<Rightarrow> ('a \<Rightarrow> writer) \<Rightarrow> 'a list \<Rightarrow> writer" where
  "formatList sep g xs f = formatItems sep g 0 xs f"

definition identWriter :: "string \<Rightarrow> writer" where
  "identWriter idn f = Some (writeIdent idn f)"

text \<open>
  \<^verbatim>\<open>itoa\<close>. For the least \<^verbatim>\<open>int\<close> the call \<^verbatim>\<open>itoa(-n)\<close> is the same call again, which never
  returns.
\<close>

fun digits :: "nat \<Rightarrow> string" where
  "digits n = (if n < 10 then [char_of (48 + n)] else digits (n div 10) @ [char_of (48 + n mod 10)])"

declare digits.simps [simp del]

definition itoa :: "int \<Rightarrow> string option" where
  "itoa n =
     (if n = 0 then Some ''0''
      else if n < 0 then (if n = - maxInt - 1 then None else Some (''-'' @ digits (nat (- n))))
      else Some (digits (nat n)))"

text \<open>
  \<^verbatim>\<open>tokenToString\<close> on the operators that \<^verbatim>\<open>isBinaryOp\<close> accepts; its default case, the name of
  any other token in the table \<^verbatim>\<open>tokenNames\<close>, is outside the fragment.
\<close>

definition tokenToString :: "token \<Rightarrow> string option" where
  "tokenToString t =
     (if t = token_EQ then Some ''=''
      else if t = token_NEQ then Some ''<>''
      else if t = token_LT then Some ''<''
      else if t = token_GT then Some ''>''
      else if t = token_LTE then Some ''<=''
      else if t = token_GTE then Some ''>=''
      else if t = token_PLUS then Some ''+''
      else if t = token_MINUS then Some ''-''
      else if t = token_ASTERISK then Some ''*''
      else if t = token_SLASH then Some ''/''
      else if t = token_PERCENT then Some ''%''
      else if t = token_AND then Some ''AND''
      else if t = token_OR then Some ''OR''
      else if t = token_XOR then Some ''XOR''
      else if t = token_CONCAT then Some ''||''
      else if t = token_BITAND then Some ''&''
      else if t = token_BITOR then Some ''|''
      else if t = token_BITXOR then Some ''^''
      else if t = token_LSHIFT then Some ''<<''
      else if t = token_RSHIFT then Some ''>>''
      else None)"

definition formatDataType :: "DataType option \<Rightarrow> writer" where
  "formatDataType dt f =
     (case dt of
        None \<Rightarrow> Some f
      | Some dt \<Rightarrow> do {
          f \<leftarrow> (if needsQuoting (TypeName dt) then Some (writeIdent (TypeName dt) f)
                else writeKeyword (TypeName dt) f);
          f \<leftarrow> (case TypeLength dt of
                  None \<Rightarrow> Some f
                | Some len \<Rightarrow> do {
                    s \<leftarrow> itoa len;
                    let f = writeStr s (writeStr ''('' f);
                    f \<leftarrow> (case TypeScale dt of
                            None \<Rightarrow> Some f
                          | Some scale \<Rightarrow> do {
                              s \<leftarrow> itoa scale; Some (writeStr s (writeStr '', '' f)) });
                    Some (writeStr '')'' f) });
          f \<leftarrow> (if TypeUnsigned dt then writeKeyword ''UNSIGNED'' (writeStr '' '' f) else Some f);
          Some (if TypeArray dt then writeStr ''[]'' f else f) })"

definition formatBinaryExpr :: "(node \<Rightarrow> writer) \<Rightarrow> token \<Rightarrow> expr option \<Rightarrow> expr option \<Rightarrow> writer"
  where
  "formatBinaryExpr fmt op l r f = do {
     f \<leftarrow> fmt (NExpr l) f;
     s \<leftarrow> tokenToString op;
     f \<leftarrow> writeKeyword s (writeStr '' '' f);
     fmt (NExpr r) (writeStr '' '' f) }"

text \<open>The assertion \<^verbatim>\<open>e.Operand.(*ast.UnaryExpr)\<close> with \<^verbatim>\<open>inner.Op == token.MINUS\<close>.\<close>

fun isUnaryMinus :: "expr option \<Rightarrow> bool" where
  "isUnaryMinus (Some (UnaryExpr op e)) = (op = token_MINUS)"
| "isUnaryMinus _ = False"

definition formatUnaryExpr :: "(node \<Rightarrow> writer) \<Rightarrow> token \<Rightarrow> expr option \<Rightarrow> writer" where
  "formatUnaryExpr fmt op operand f = do {
     f \<leftarrow> (if op = token_NOT then do { f \<leftarrow> writeKeyword ''NOT'' f; Some (writeStr '' '' f) }
           else if op = token_MINUS then do {
             let f = writeStr ''-'' f;
             Some (if isUnaryMinus operand then writeStr '' '' f else f) }
           else if op = token_BITNOT then Some (writeStr ''~'' f)
           else Some f);
     fmt (NExpr operand) f }"

definition formatOrderByItem :: "(node \<Rightarrow> writer) \<Rightarrow> bool \<Rightarrow> expr orderByExpr \<Rightarrow> writer" where
  "formatOrderByItem fmt nulls ob f = do {
     f \<leftarrow> fmt (NExpr (OrderExpr ob)) f;
     f \<leftarrow> (if OrderDesc ob then writeKeyword ''DESC'' (writeStr '' '' f) else Some f);
     if nulls then
       (case NullsFirst ob of
          None \<Rightarrow> Some f
        | Some first \<Rightarrow> do {
            f \<leftarrow> writeKeyword ''NULLS'' (writeStr '' '' f);
            writeKeyword (if first then ''FIRST'' else ''LAST'') (writeStr '' '' f) })
     else Some f }"

text \<open>
  \<^verbatim>\<open>formatFrameBound\<close> and \<^verbatim>\<open>formatWindowFrame\<close>; a \<^verbatim>\<open>nil\<close> bound is dereferenced.
\<close>

definition formatFrameBound :: "(node \<Rightarrow> writer) \<Rightarrow> expr frameBound option \<Rightarrow> writer" where
  "formatFrameBound fmt bound f =
     (case bound of
        None \<Rightarrow> None
      | Some b \<Rightarrow>
          (case BoundType b of
             BoundCurrentRow \<Rightarrow> writeKeyword ''CURRENT ROW'' f
           | BoundUnboundedPreceding \<Rightarrow> writeKeyword ''UNBOUNDED PRECEDING'' f
           | BoundUnboundedFollowing \<Rightarrow> writeKeyword ''UNBOUNDED FOLLOWING'' f
           | BoundPreceding \<Rightarrow> do {
               f \<leftarrow> fmt (NExpr (BoundOffset b)) f;
               writeKeyword ''PRECEDING'' (writeStr '' '' f) }
           | BoundFollowing \<Rightarrow> do {
               f \<leftarrow> fmt (NExpr (BoundOffset b)) f;
               writeKeyword ''FOLLOWING'' (writeStr '' '' f) }))"

definition formatWindowFrame :: "(node \<Rightarrow> writer) \<Rightarrow> expr windowFrame \<Rightarrow> writer" where
  "formatWindowFrame fmt frame f = do {
     f \<leftarrow> (case FrameType frame of
             FrameRows \<Rightarrow> writeKeyword ''ROWS'' f
           | FrameRange \<Rightarrow> writeKeyword ''RANGE'' f
           | FrameGroups \<Rightarrow> writeKeyword ''GROUPS'' f);
     let f = writeStr '' '' f;
     if FrameEnd frame \<noteq> None then do {
       f \<leftarrow> writeKeyword ''BETWEEN'' f;
       f \<leftarrow> formatFrameBound fmt (FrameStart frame) (writeStr '' '' f);
       f \<leftarrow> writeKeyword ''AND'' (writeStr '' '' f);
       formatFrameBound fmt (FrameEnd frame) (writeStr '' '' f) }
     else formatFrameBound fmt (FrameStart frame) f }"

definition formatWindowSpec :: "(node \<Rightarrow> writer) \<Rightarrow> expr windowSpec \<Rightarrow> writer" where
  "formatWindowSpec fmt spec f = do {
     f \<leftarrow> writeKeyword ''OVER'' f;
     let f = writeStr '' '' f;
     if WindowName spec \<noteq> [] \<and> length (PartitionBy spec) = 0 \<and>
        length (WindowOrderBy spec) = 0 \<and> Frame spec = None
     then Some (writeIdent (WindowName spec) f)
     else do {
       let f = writeStr ''('' f;
       let f = (if WindowName spec \<noteq> [] then writeIdent (WindowName spec) f else f);
       f \<leftarrow> (if length (PartitionBy spec) > 0 then do {
               let f = (if WindowName spec \<noteq> [] then writeStr '' '' f else f);
               f \<leftarrow> writeKeyword ''PARTITION BY'' f;
               formatList '', '' (\<lambda>pb. fmt (NExpr (Some pb))) (PartitionBy spec)
                 (writeStr '' '' f) }
             else Some f);
       f \<leftarrow> (if length (WindowOrderBy spec) > 0 then do {
               let f = (if WindowName spec \<noteq> [] \<or> length (PartitionBy spec) > 0
                        then writeStr '' '' f else f);
               f \<leftarrow> writeKeyword ''ORDER BY'' f;
               formatList '', '' (formatOrderByItem fmt False) (WindowOrderBy spec)
                 (writeStr '' '' f) }
             else Some f);
       f \<leftarrow> (case Frame spec of
               None \<Rightarrow> Some f
             | Some frame \<Rightarrow> formatWindowFrame fmt frame (writeStr '' '' f));
       Some (writeStr '')'' f) } }"

definition formatFuncExpr ::
  "(node \<Rightarrow> writer) \<Rightarrow> string \<Rightarrow> bool \<Rightarrow> expr list \<Rightarrow> expr option \<Rightarrow> expr windowSpec option \<Rightarrow>
   writer" where
  "formatFuncExpr fmt name dist args flt over f = do {
     let f = writeStr ''('' (writeFuncName name f);
     f \<leftarrow> (if dist then do { f \<leftarrow> writeKeyword ''DISTINCT'' f; Some (writeStr '' '' f) }
           else Some f);
     f \<leftarrow> formatList '', '' (\<lambda>arg. fmt (NExpr (Some arg))) args f;
     let f = writeStr '')'' f;
     f \<leftarrow> (if flt \<noteq> None then do {
             f \<leftarrow> writeKeyword ''FILTER'' (writeStr '' '' f);
             f \<leftarrow> writeKeyword ''WHERE'' (writeStr '' ('' f);
             f \<leftarrow> fmt (NExpr flt) (writeStr '' '' f);
             Some (writeStr '')'' f) }
           else Some f);
     case over of
       None \<Rightarrow> Some f
     | Some spec \<Rightarrow> formatWindowSpec fmt spec (writeStr '' '' f) }"

definition formatCaseExpr ::
  "(node \<Rightarrow> writer) \<Rightarrow> expr option \<Rightarrow> (expr option \<times> expr option) list \<Rightarrow> expr option \<Rightarrow> writer"
  where
  "formatCaseExpr fmt operand whens els f = do {
     f \<leftarrow> writeKeyword ''CASE'' f;
     f \<leftarrow> (if operand \<noteq> None then fmt (NExpr operand) (writeStr '' '' f) else Some f);
     f \<leftarrow> formatList []
           (\<lambda>(cond, result) f. do {
              f \<leftarrow> writeKeyword ''WHEN'' (writeStr '' '' f);
              f \<leftarrow> fmt (NExpr cond) (writeStr '' '' f);
              f \<leftarrow> writeKeyword ''THEN'' (writeStr '' '' f);
              fmt (NExpr result) (writeStr '' '' f) })
           whens f;
     f \<leftarrow> (if els \<noteq> None then do {
             f \<leftarrow> writeKeyword ''ELSE'' (writeStr '' '' f);
             fmt (NExpr els) (writeStr '' '' f) }
           else Some f);
     writeKeyword ''END'' (writeStr '' '' f) }"

definition formatCastExpr :: "(node \<Rightarrow> writer) \<Rightarrow> expr option \<Rightarrow> DataType option \<Rightarrow> writer" where
  "formatCastExpr fmt e dt f = do {
     f \<leftarrow> writeKeyword ''CAST'' f;
     f \<leftarrow> fmt (NExpr e) (writeStr ''('' f);
     f \<leftarrow> writeKeyword ''AS'' (writeStr '' '' f);
     f \<leftarrow> formatDataType dt (writeStr '' '' f);
     Some (writeStr '')'' f) }"

text \<open>\<^verbatim>\<open>formatColName\<close> and \<^verbatim>\<open>formatTableName\<close>.\<close>

definition formatParts :: "string list \<Rightarrow> writer" where
  "formatParts parts f = formatList ''.'' identWriter parts f"

text \<open>\<^verbatim>\<open>strings.ReplaceAll\<close> of one byte by two bytes.\<close>

definition replaceByte :: "char \<Rightarrow> string \<Rightarrow> string \<Rightarrow> string" where
  "replaceByte old new s = concat (map (\<lambda>c. if c = old then new else [c]) s)"

definition formatStringLiteral :: "string \<Rightarrow> writer" where
  "formatStringLiteral s f =
     Some (writeStr [CHR 0x27]
       (writeStr (replaceByte (CHR 0x27) [CHR 0x27, CHR 0x27]
                    (replaceByte (CHR 0x5C) [CHR 0x5C, CHR 0x5C] s))
          (writeStr [CHR 0x27] f)))"

definition formatLiteral :: "literalType \<Rightarrow> string \<Rightarrow> writer" where
  "formatLiteral t v f =
     (case t of
        LiteralNull \<Rightarrow> writeKeyword ''NULL'' f
      | LiteralString \<Rightarrow> formatStringLiteral v f
      | LiteralBool \<Rightarrow> writeKeyword v f
      | _ \<Rightarrow> Some (writeStr v f))"

definition formatParam :: "paramType \<Rightarrow> string \<Rightarrow> int \<Rightarrow> writer" where
  "formatParam t name index f =
     (case t of
        ParamQuestion \<Rightarrow> Some (writeStr ''?'' f)
      | ParamDollar \<Rightarrow> do { s \<leftarrow> itoa index; Some (writeStr s (writeStr ''$'' f)) }
      | ParamColon \<Rightarrow> Some (writeStr name (writeStr '':'' f))
      | ParamAt \<Rightarrow> Some (writeStr name (writeStr ''@'' f)))"

definition formatNot :: "bool \<Rightarrow> writer" where
  "formatNot neg f = (if neg then writeKeyword ''NOT'' (writeStr '' '' f) else Some f)"

definition formatInExpr ::
  "(node \<Rightarrow> writer) \<Rightarrow> expr option \<Rightarrow> bool \<Rightarrow> expr list \<Rightarrow> selectStmt option \<Rightarrow> writer" where
  "formatInExpr fmt e neg vals sel f = do {
     f \<leftarrow> fmt (NExpr e) f;
     f \<leftarrow> formatNot neg f;
     f \<leftarrow> writeKeyword ''IN'' (writeStr '' '' f);
     let f = writeStr '' ('' f;
     f \<leftarrow> (if sel \<noteq> None then fmt (NSelect sel) f
           else formatList '', '' (\<lambda>v. fmt (NExpr (Some v))) vals f);
     Some (writeStr '')'' f) }"

definition formatBetweenExpr ::
  "(node \<Rightarrow> writer) \<Rightarrow> expr option \<Rightarrow> bool \<Rightarrow> expr option \<Rightarrow> expr option \<Rightarrow> writer" where
  "formatBetweenExpr fmt e neg low high f = do {
     f \<leftarrow> fmt (NExpr e) f;
     f \<leftarrow> formatNot neg f;
     f \<leftarrow> writeKeyword ''BETWEEN'' (writeStr '' '' f);
     f \<leftarrow> fmt (NExpr low) (writeStr '' '' f);
     f \<leftarrow> writeKeyword ''AND'' (writeStr '' '' f);
     fmt (NExpr high) (writeStr '' '' f) }"

definition formatLikeExpr ::
  "(node \<Rightarrow> writer) \<Rightarrow> expr option \<Rightarrow> expr option \<Rightarrow> bool \<Rightarrow> expr option \<Rightarrow> bool \<Rightarrow> writer"
  where
  "formatLikeExpr fmt e pattern neg escape ilike f = do {
     f \<leftarrow> fmt (NExpr e) f;
     f \<leftarrow> formatNot neg f;
     f \<leftarrow> writeKeyword (if ilike then ''ILIKE'' else ''LIKE'') (writeStr '' '' f);
     f \<leftarrow> fmt (NExpr pattern) (writeStr '' '' f);
     if escape \<noteq> None then do {
       f \<leftarrow> writeKeyword ''ESCAPE'' (writeStr '' '' f);
       fmt (NExpr escape) (writeStr '' '' f) }
     else Some f }"

definition formatIsExpr :: "(node \<Rightarrow> writer) \<Rightarrow> expr option \<Rightarrow> bool \<Rightarrow> isType \<Rightarrow> writer" where
  "formatIsExpr fmt e neg what f = do {
     f \<leftarrow> fmt (NExpr e) f;
     f \<leftarrow> writeKeyword ''IS'' (writeStr '' '' f);
     f \<leftarrow> formatNot neg f;
     writeKeyword
       (case what of IsNull \<Rightarrow> ''NULL'' | IsTrue \<Rightarrow> ''TRUE'' | IsFalse \<Rightarrow> ''FALSE''
        | IsUnknown \<Rightarrow> ''UNKNOWN'')
       (writeStr '' '' f) }"

text \<open>The case \<^verbatim>\<open>*ast.Subquery\<close> of \<^verbatim>\<open>Format\<close>.\<close>

definition formatSubquery :: "(node \<Rightarrow> writer) \<Rightarrow> selectStmt option \<Rightarrow> writer" where
  "formatSubquery fmt sel f = do {
     f \<leftarrow> fmt (NSelect sel) (writeStr ''('' f);
     Some (writeStr '')'' f) }"

definition formatExistsExpr :: "(node \<Rightarrow> writer) \<Rightarrow> bool \<Rightarrow> selectStmt option \<Rightarrow> writer" where
  "formatExistsExpr fmt neg sel f = do {
     f \<leftarrow> (if neg then do { f \<leftarrow> writeKeyword ''NOT'' f; Some (writeStr '' '' f) } else Some f);
     f \<leftarrow> writeKeyword ''EXISTS'' f;
     formatSubquery fmt sel (writeStr '' '' f) }"

definition formatIntervalExpr :: "(node \<Rightarrow> writer) \<Rightarrow> expr option \<Rightarrow> string \<Rightarrow> writer" where
  "formatIntervalExpr fmt v unit f = do {
     f \<leftarrow> writeKeyword ''INTERVAL'' f;
     f \<leftarrow> fmt (NExpr v) (writeStr '' '' f);
     if unit \<noteq> [] then writeKeyword unit (writeStr '' '' f) else Some f }"

definition formatExtractExpr :: "(node \<Rightarrow> writer) \<Rightarrow> string \<Rightarrow> expr option \<Rightarrow> writer" where
  "formatExtractExpr fmt field source f = do {
     f \<leftarrow> writeKeyword ''EXTRACT'' f;
     let f = writeIdent field (writeStr ''('' f);
     f \<leftarrow> writeKeyword ''FROM'' (writeStr '' '' f);
     f \<leftarrow> fmt (NExpr source) (writeStr '' '' f);
     Some (writeStr '')'' f) }"

definition formatTrimExpr ::
  "(node \<Rightarrow> writer) \<Rightarrow> trimType \<Rightarrow> expr option \<Rightarrow> expr option \<Rightarrow> writer" where
  "formatTrimExpr fmt trimType trimChar e f = do {
     f \<leftarrow> writeKeyword ''TRIM'' f;
     f \<leftarrow> writeKeyword
           (case trimType of TrimLeading \<Rightarrow> ''LEADING'' | TrimTrailing \<Rightarrow> ''TRAILING''
            | TrimBoth \<Rightarrow> ''BOTH'')
           (writeStr ''('' f);
     let f = writeStr '' '' f;
     f \<leftarrow> (if trimChar \<noteq> None then do {
             f \<leftarrow> fmt (NExpr trimChar) f; Some (writeStr '' '' f) }
           else Some f);
     f \<leftarrow> writeKeyword ''FROM'' f;
     f \<leftarrow> fmt (NExpr e) (writeStr '' '' f);
     Some (writeStr '')'' f) }"

definition formatSubstringExpr ::
  "(node \<Rightarrow> writer) \<Rightarrow> expr option \<Rightarrow> expr option \<Rightarrow> expr option \<Rightarrow> writer" where
  "formatSubstringExpr fmt e from for f = do {
     f \<leftarrow> writeKeyword ''SUBSTRING'' f;
     f \<leftarrow> fmt (NExpr e) (writeStr ''('' f);
     f \<leftarrow> (if from \<noteq> None then do {
             f \<leftarrow> writeKeyword ''FROM'' (writeStr '' '' f);
             fmt (NExpr from) (writeStr '' '' f) }
           else Some f);
     f \<leftarrow> (if for \<noteq> None then do {
             f \<leftarrow> writeKeyword ''FOR'' (writeStr '' '' f);
             fmt (NExpr for) (writeStr '' '' f) }
           else Some f);
     Some (writeStr '')'' f) }"

definition formatArrayExpr :: "(node \<Rightarrow> writer) \<Rightarrow> expr list \<Rightarrow> writer" where
  "formatArrayExpr fmt elements f = do {
     f \<leftarrow> writeKeyword ''ARRAY'' f;
     f \<leftarrow> formatList '', '' (\<lambda>e. fmt (NExpr (Some e))) elements (writeStr ''[ '' f);
     Some (writeStr '' ]'' f) }"

definition formatRows :: "(node \<Rightarrow> writer) \<Rightarrow> expr list list \<Rightarrow> writer" where
  "formatRows fmt rows f =
     formatList '', ''
       (\<lambda>row f. do {
          f \<leftarrow> formatList '', '' (\<lambda>v. fmt (NExpr (Some v))) row (writeStr ''('' f);
          Some (writeStr '')'' f) })
       rows f"

definition formatValuesStmt :: "(node \<Rightarrow> writer) \<Rightarrow> expr list list \<Rightarrow> writer" where
  "formatValuesStmt fmt rows f = do {
     f \<leftarrow> writeKeyword ''VALUES'' f;
     formatRows fmt rows (writeStr '' '' f) }"

text \<open>The alias of an \<^verbatim>\<open>AliasedExpr\<close> and of an \<^verbatim>\<open>AliasedTableExpr\<close>.\<close>

definition formatAlias :: "string \<Rightarrow> writer" where
  "formatAlias alias f =
     (if alias \<noteq> [] then do {
        f \<leftarrow> writeKeyword ''AS'' (writeStr '' '' f);
        Some (writeIdent alias (writeStr '' '' f)) }
      else Some f)"

definition formatJoinExpr ::
  "(node \<Rightarrow> writer) \<Rightarrow> joinType \<Rightarrow> tableExpr option \<Rightarrow> tableExpr option \<Rightarrow> expr option \<Rightarrow>
   string list \<Rightarrow> bool \<Rightarrow> writer" where
  "formatJoinExpr fmt jt left right on using natural f = do {
     f \<leftarrow> fmt (NTable left) f;
     let f = writeStr '' '' f;
     f \<leftarrow> (if natural then do { f \<leftarrow> writeKeyword ''NATURAL'' f; Some (writeStr '' '' f) }
           else Some f);
     f \<leftarrow> writeKeyword
           (case jt of JoinInner \<Rightarrow> ''JOIN'' | JoinLeft \<Rightarrow> ''LEFT JOIN''
            | JoinRight \<Rightarrow> ''RIGHT JOIN'' | JoinFull \<Rightarrow> ''FULL JOIN''
            | JoinCross \<Rightarrow> ''CROSS JOIN'') f;
     f \<leftarrow> fmt (NTable right) (writeStr '' '' f);
     f \<leftarrow> (if on \<noteq> None then do {
             f \<leftarrow> writeKeyword ''ON'' (writeStr '' '' f);
             fmt (NExpr on) (writeStr '' '' f) }
           else Some f);
     if length using > 0 then do {
       f \<leftarrow> writeKeyword ''USING'' (writeStr '' '' f);
       f \<leftarrow> formatList '', '' identWriter using (writeStr '' ('' f);
       Some (writeStr '')'' f) }
     else Some f }"

text \<open>
  The expression cases of \<^verbatim>\<open>Format\<close>. There is no case for \<^verbatim>\<open>*ast.PositionExpr\<close>, which
  formats to nothing, also when the pointer is \<^verbatim>\<open>nil\<close>; a \<^verbatim>\<open>nil\<close> pointer of another node type
  is dereferenced by the function of its case.
\<close>

definition formatExpr :: "(node \<Rightarrow> writer) \<Rightarrow> expr \<Rightarrow> writer" where
  "formatExpr fmt e f =
     (case e of
        Literal t v \<Rightarrow> formatLiteral t v f
      | ColName parts \<Rightarrow> formatParts parts f
      | Param t name index \<Rightarrow> formatParam t name index f
      | BinaryExpr op l r \<Rightarrow> formatBinaryExpr fmt op l r f
      | UnaryExpr op operand \<Rightarrow> formatUnaryExpr fmt op operand f
      | ParenExpr x \<Rightarrow> do { f \<leftarrow> fmt (NExpr x) (writeStr ''('' f); Some (writeStr '')'' f) }
      | FuncExpr name dist args flt over \<Rightarrow> formatFuncExpr fmt name dist args flt over f
      | CastExpr x dt \<Rightarrow> formatCastExpr fmt x dt f
      | CaseExpr operand whens els \<Rightarrow> formatCaseExpr fmt operand whens els f
      | InExpr x neg vals sel \<Rightarrow> formatInExpr fmt x neg vals sel f
      | BetweenExpr x neg low high \<Rightarrow> formatBetweenExpr fmt x neg low high f
      | LikeExpr x pattern neg escape ilike \<Rightarrow> formatLikeExpr fmt x pattern neg escape ilike f
      | IsExpr x neg what \<Rightarrow> formatIsExpr fmt x neg what f
      | Subquery sel \<Rightarrow> formatSubquery fmt sel f
      | ExistsExpr neg sel \<Rightarrow> formatExistsExpr fmt neg sel f
      | ArrayExpr elements \<Rightarrow> formatArrayExpr fmt elements f
      | SubscriptExpr x index \<Rightarrow> do {
          f \<leftarrow> fmt (NExpr x) f;
          f \<leftarrow> fmt (NExpr index) (writeStr ''[ '' f);
          Some (writeStr '' ]'' f) }
      | IntervalExpr v unit \<Rightarrow> formatIntervalExpr fmt v unit f
      | ExtractExpr field source \<Rightarrow> formatExtractExpr fmt field source f
      | TrimExpr trimType trimChar x \<Rightarrow> formatTrimExpr fmt trimType trimChar x f
      | SubstringExpr x from for \<Rightarrow> formatSubstringExpr fmt x from for f
      | PositionExpr needle haystack \<Rightarrow> Some f
      | CollateExpr x collation \<Rightarrow> do {
          f \<leftarrow> fmt (NExpr x) f;
          f \<leftarrow> writeKeyword ''COLLATE'' (writeStr '' '' f);
          Some (writeStr collation (writeStr '' '' f)) }
      | StarE tableName hasQualifier \<Rightarrow>
          Some (writeStr ''*''
            (if hasQualifier then writeStr ''.'' (writeIdent tableName f) else f))
      | NilPtr k \<Rightarrow> (if k = KPositionExpr then Some f else None))"

definition formatTableExpr :: "(node \<Rightarrow> writer) \<Rightarrow> tableExpr \<Rightarrow> writer" where
  "formatTableExpr fmt t f =
     (case t of
        TableName parts \<Rightarrow> formatParts parts f
      | AliasedTableExpr x alias hints \<Rightarrow> do { f \<leftarrow> fmt (NTable x) f; formatAlias alias f }
      | JoinExpr jt left right on using natural lateral \<Rightarrow>
          formatJoinExpr fmt jt left right on using natural f
      | ParenTableExpr x \<Rightarrow> do { f \<leftarrow> fmt (NTable x) (writeStr ''('' f); Some (writeStr '')'' f) }
      | SubqueryT sel \<Rightarrow> formatSubquery fmt sel f
      | ValuesStmt rows \<Rightarrow> formatValuesStmt fmt rows f)"

text \<open>The cases \<^verbatim>\<open>*ast.AliasedExpr\<close> and \<^verbatim>\<open>*ast.StarExpr\<close> of \<^verbatim>\<open>Format\<close>.\<close>

definition formatSelectExpr :: "(node \<Rightarrow> writer) \<Rightarrow> expr selectExpr \<Rightarrow> writer" where
  "formatSelectExpr fmt col f =
     (case col of
        AliasedExpr x alias \<Rightarrow> do { f \<leftarrow> fmt (NExpr x) f; formatAlias alias f }
      | StarExpr tableName hasQualifier \<Rightarrow>
          Some (writeStr ''*''
            (if hasQualifier then writeStr ''.'' (writeIdent tableName f) else f)))"

definition formatWithClause :: "(node \<Rightarrow> writer) \<Rightarrow> statement withClause \<Rightarrow> writer" where
  "formatWithClause fmt w f = do {
     f \<leftarrow> writeKeyword ''WITH'' f;
     f \<leftarrow> (if Recursive w then writeKeyword ''RECURSIVE'' (writeStr '' '' f) else Some f);
     formatList '', ''
       (\<lambda>c f. do {
          let f = writeIdent (CteName c) f;
          f \<leftarrow> (if length (CteColumns c) > 0 then do {
                  f \<leftarrow> formatList '', '' identWriter (CteColumns c) (writeStr '' ('' f);
                  Some (writeStr '')'' f) }
                else Some f);
          f \<leftarrow> writeKeyword ''AS'' (writeStr '' '' f);
          f \<leftarrow> fmt (NStatement (Query c)) (writeStr '' ('' f);
          Some (writeStr '')'' f) })
       (CTEs w) (writeStr '' '' f) }"

text \<open>The clause \<^verbatim>\<open>if s.With != nil { f.formatWithClause(s.With); f.write(" ") }\<close>.\<close>

definition formatWith :: "(node \<Rightarrow> writer) \<Rightarrow> statement withClause option \<Rightarrow> writer" where
  "formatWith fmt w f =
     (case w of
        None \<Rightarrow> Some f
      | Some w \<Rightarrow> do { f \<leftarrow> formatWithClause fmt w f; Some (writeStr '' '' f) })"

definition formatSelect :: "(node \<Rightarrow> writer) \<Rightarrow> selectStmt \<Rightarrow> writer" where
  "formatSelect fmt s f = do {
     f \<leftarrow> formatWith fmt (With s) f;
     f \<leftarrow> writeKeyword ''SELECT'' f;
     f \<leftarrow> (if Distinct s then writeKeyword ''DISTINCT'' (writeStr '' '' f) else Some f);
     f \<leftarrow> formatList '', '' (formatSelectExpr fmt) (Columns s) (writeStr '' '' f);
     f \<leftarrow> (if From s \<noteq> None then do {
             f \<leftarrow> writeKeyword ''FROM'' (writeStr '' '' f);
             fmt (NTable (From s)) (writeStr '' '' f) }
           else Some f);
     f \<leftarrow> (if Where s \<noteq> None then do {
             f \<leftarrow> writeKeyword ''WHERE'' (writeStr '' '' f);
             fmt (NExpr (Where s)) (writeStr '' '' f) }
           else Some f);
     f \<leftarrow> (if length (GroupBy s) > 0 then do {
             f \<leftarrow> writeKeyword ''GROUP BY'' (writeStr '' '' f);
             formatList '', '' (\<lambda>e. fmt (NExpr (Some e))) (GroupBy s) (writeStr '' '' f) }
           else Some f);
     f \<leftarrow> (if Having s \<noteq> None then do {
             f \<leftarrow> writeKeyword ''HAVING'' (writeStr '' '' f);
             fmt (NExpr (Having s)) (writeStr '' '' f) }
           else Some f);
     f \<leftarrow> (if length (OrderBy s) > 0 then do {
             f \<leftarrow> writeKeyword ''ORDER BY'' (writeStr '' '' f);
             formatList '', '' (formatOrderByItem fmt True) (OrderBy s) (writeStr '' '' f) }
           else Some f);
     f \<leftarrow> (case SelLimit s of
             None \<Rightarrow> Some f
           | Some l \<Rightarrow> do {
               f \<leftarrow> (if Count l \<noteq> None then do {
                       f \<leftarrow> writeKeyword ''LIMIT'' (writeStr '' '' f);
                       fmt (NExpr (Count l)) (writeStr '' '' f) }
                     else Some f);
               if LimitOffset l \<noteq> None then do {
                 f \<leftarrow> writeKeyword ''OFFSET'' (writeStr '' '' f);
                 fmt (NExpr (LimitOffset l)) (writeStr '' '' f) }
               else Some f });
     if Lock s \<noteq> [] then do {
       f \<leftarrow> writeKeyword ''FOR'' (writeStr '' '' f);
       writeKeyword (Lock s) (writeStr '' '' f) }
     else Some f }"

text \<open>\<^verbatim>\<open>ColName.Name\<close>: the last part, or the empty string.\<close>

definition colName :: "string list \<Rightarrow> string" where
  "colName parts = (if length parts = 0 then [] else last parts)"

definition formatUpdateExprs :: "(node \<Rightarrow> writer) \<Rightarrow> expr updateExpr list \<Rightarrow> writer" where
  "formatUpdateExprs fmt ues f =
     formatList '', ''
       (\<lambda>ue f. fmt (NExpr (UpdExpr ue)) (writeStr '' = '' (writeIdent (colName (UpdColumn ue)) f)))
       ues f"

text \<open>\<^verbatim>\<open>formatInsert\<close>; \<^verbatim>\<open>f.Format(s.Table)\<close> dereferences a \<^verbatim>\<open>nil\<close> table.\<close>

definition formatInsert ::
  "(node \<Rightarrow> writer) \<Rightarrow> (expr, selectStmt, statement) insertStmt \<Rightarrow> writer" where
  "formatInsert fmt s f = do {
     f \<leftarrow> formatWith fmt (InsWith s) f;
     f \<leftarrow> writeKeyword (if Replace s then ''REPLACE'' else ''INSERT'') f;
     f \<leftarrow> (if Ignore s then writeKeyword ''IGNORE'' (writeStr '' '' f) else Some f);
     f \<leftarrow> writeKeyword ''INTO'' (writeStr '' '' f);
     f \<leftarrow> (case Table s of None \<Rightarrow> None | Some parts \<Rightarrow> formatParts parts (writeStr '' '' f));
     f \<leftarrow> (if length (InsColumns s) > 0 then do {
             f \<leftarrow> formatList '', '' (\<lambda>col. identWriter (colName col)) (InsColumns s)
                   (writeStr '' ('' f);
             Some (writeStr '')'' f) }
           else Some f);
     f \<leftarrow> (if Select s \<noteq> None then fmt (NSelect (Select s)) (writeStr '' '' f)
           else if length (Values s) > 0 then do {
             f \<leftarrow> writeKeyword ''VALUES'' (writeStr '' '' f);
             formatRows fmt (Values s) (writeStr '' '' f) }
           else Some f);
     f \<leftarrow> (if length (OnDuplicateUpdate s) > 0 then do {
             f \<leftarrow> writeKeyword ''ON DUPLICATE KEY UPDATE'' (writeStr '' '' f);
             formatUpdateExprs fmt (OnDuplicateUpdate s) (writeStr '' '' f) }
           else Some f);
     f \<leftarrow> (case InsOnConflict s of
             None \<Rightarrow> Some f
           | Some oc \<Rightarrow> do {
               f \<leftarrow> writeKeyword ''ON CONFLICT'' (writeStr '' '' f);
               f \<leftarrow> (if length (ConflictColumns oc) > 0 then do {
                       f \<leftarrow> formatList '', '' identWriter (ConflictColumns oc) (writeStr '' ('' f);
                       Some (writeStr '')'' f) }
                     else Some f);
               f \<leftarrow> writeKeyword ''DO'' (writeStr '' '' f);
               let f = writeStr '' '' f;
               if DoNothing oc then writeKeyword ''NOTHING'' f
               else do {
                 f \<leftarrow> writeKeyword ''UPDATE SET'' f;
                 formatUpdateExprs fmt (Updates oc) (writeStr '' '' f) } });
     if length (Returning s) > 0 then do {
       f \<leftarrow> writeKeyword ''RETURNING'' (writeStr '' '' f);
       formatList '', '' (formatSelectExpr fmt) (Returning s) (writeStr '' '' f) }
     else Some f }"

definition formatSetOp ::
  "(node \<Rightarrow> writer) \<Rightarrow> setOpType \<Rightarrow> bool \<Rightarrow> statement option \<Rightarrow> statement option \<Rightarrow> writer"
  where
  "formatSetOp fmt t al left right f = do {
     f \<leftarrow> fmt (NStatement left) f;
     f \<leftarrow> writeKeyword
           (case t of Union \<Rightarrow> ''UNION'' | Intersect \<Rightarrow> ''INTERSECT'' | Except \<Rightarrow> ''EXCEPT'')
           (writeStr '' '' f);
     f \<leftarrow> (if al then writeKeyword ''ALL'' (writeStr '' '' f) else Some f);
     fmt (NStatement right) (writeStr '' '' f) }"

definition formatStatement :: "(node \<Rightarrow> writer) \<Rightarrow> statement \<Rightarrow> writer" where
  "formatStatement fmt s f =
     (case s of
        SelectS sel \<Rightarrow> formatSelect fmt sel f
      | InsertS ins \<Rightarrow> formatInsert fmt ins f
      | SetOp t al left right ob lim \<Rightarrow> formatSetOp fmt t al left right f
      | NilStmt k \<Rightarrow> None)"

text \<open>
  \<^verbatim>\<open>Format\<close>: the \<^verbatim>\<open>nil\<close> interface formats to nothing; a \<^verbatim>\<open>nil\<close> \<^verbatim>\<open>*ast.SelectStmt\<close> is not the
  \<^verbatim>\<open>nil\<close> interface, and \<^verbatim>\<open>formatSelect\<close> dereferences it.
\<close>

definition formatNode :: "(node \<Rightarrow> writer) \<Rightarrow> node \<Rightarrow> writer" where
  "formatNode fmt nd f =
     (case nd of
        NExpr None \<Rightarrow> Some f
      | NExpr (Some e) \<Rightarrow> formatExpr fmt e f
      | NTable None \<Rightarrow> Some f
      | NTable (Some t) \<Rightarrow> formatTableExpr fmt t f
      | NStatement None \<Rightarrow> Some f
      | NStatement (Some s) \<Rightarrow> formatStatement fmt s f
      | NSelect None \<Rightarrow> None
      | NSelect (Some s) \<Rightarrow> formatSelect fmt s f)"

fun Format :: "nat \<Rightarrow> node \<Rightarrow> writer" where
  "Format 0 nd f = None"
| "Format (Suc n) nd f = formatNode (Format n) nd f"

text \<open>\<^verbatim>\<open>format.String\<close> of a statement, with the fuel \<open>n\<close>.\<close>

definition String :: "nat \<Rightarrow> statement option \<Rightarrow> string option" where
  "String n stmt = map_option buf (Format n (NStatement stmt) (NewFormatter DefaultOptions))"

section \<open>Notions used in the statements\<close>

text \<open>
  The bytes \<^verbatim>\<open>[A-Za-z0-9_$]\<close>, and the double-quote form of an identifier: the identifier
  between two double quotes, each double quote in it written twice.
\<close>

definition wordByte :: "char \<Rightarrow> bool" where
  "wordByte ch =
     ((CHR ''a'' \<le> ch \<and> ch \<le> CHR ''z'') \<or> (CHR ''A'' \<le> ch \<and> ch \<le> CHR ''Z'') \<or>
      (CHR ''0'' \<le> ch \<and> ch \<le> CHR ''9'') \<or> ch = CHR ''_'' \<or> ch = CHR ''$'')"

primrec doubled :: "string \<Rightarrow> string" where
  "doubled [] = []"
| "doubled (ch # s) = (if ch = CHR 0x22 then [CHR 0x22, CHR 0x22] else [ch]) @ doubled s"

definition quotedForm :: "string \<Rightarrow> string" where
  "quotedForm idn = [CHR 0x22] @ doubled idn @ [CHR 0x22]"


text \<open>
  Notions for the lexer's properties. \<open>good l r\<close>: the call returned (no panic) and left the
  input, the buffered item and the peek flag as they were. \<open>advPos P l\<close>: where a loop
  \<^verbatim>\<open>for l.pos < len(l.input) && P(l.input[l.pos]) { l.pos++ }\<close> stops. \<open>adv l l'\<close>: \<open>l'\<close> is
  \<open>l\<close> moved forward inside the input. \<open>outcome typ c l r\<close>: a delimited construct either
  ended at a closing byte \<open>c\<close> with a token of kind \<open>typ\<close>, or ran to the end of the input
  and gave \<^verbatim>\<open>ILLEGAL\<close> with the text from the token's start. \<open>escapedBody c s\<close>: in \<open>s\<close>
  every byte \<open>c\<close> is one of a pair; \<open>closedOutcome\<close> is \<open>outcome\<close> for the bracket and
  backtick identifiers, with the token text.
\<close>

definition good :: "lexer \<Rightarrow> (item \<times> lexer) option \<Rightarrow> bool" where
  "good l r = (\<exists>it l'. r = Some (it, l') \<and> input l' = input l \<and> item l' = item l \<and> peeked l' = peeked l)"

definition advPos :: "(char \<Rightarrow> bool) \<Rightarrow> lexer \<Rightarrow> nat" where
  "advPos P l = pos (the (advanceWhile P l))"

definition outcome :: "token \<Rightarrow> char \<Rightarrow> lexer \<Rightarrow> (item \<times> lexer) option \<Rightarrow> bool" where
  "outcome typ c l r =
     (\<exists>it l'. r = Some (it, l') \<and> input l' = input l \<and> item l' = item l \<and> peeked l' = peeked l \<and>
        start l' = start l \<and>
        ((Type it = typ \<and> pos l < pos l' \<and> pos l' \<le> length (input l) \<and> input l ! (pos l' - 1) = c) \<or>
         (Type it = token_ILLEGAL \<and> Value it = drop (start l) (input l) \<and> pos l' = length (input l))))"

fun escapedBody :: "char \<Rightarrow> string \<Rightarrow> bool" where
  "escapedBody c [] = True"
| "escapedBody c [x] = (x \<noteq> c)"
| "escapedBody c (x # y # zs) = (if x = c then y = c \<and> escapedBody c zs else escapedBody c (y # zs))"

definition closedOutcome :: "char \<Rightarrow> lexer \<Rightarrow> (item \<times> lexer) option \<Rightarrow> bool" where
  "closedOutcome c l r =
     (\<exists>it l'. r = Some (it, l') \<and> input l' = input l \<and> item l' = item l \<and> peeked l' = peeked l \<and>
        start l' = start l \<and>
        ((Type it = token_IDENT \<and> pos l < pos l' \<and> pos l' \<le> length (input l) \<and>
          input l ! (pos l' - 1) = c \<and> (pos l' < length (input l) \<longrightarrow> input l ! pos l' \<noteq> c) \<and>
          escapedBody c (take (pos l' - 1 - pos l) (drop (pos l) (input l))) \<and>
          Value it = take (pos l' - 1 - (start l + 1)) (drop (start l + 1) (input l))) \<or>
         (Type it = token_ILLEGAL \<and> Value it = drop (start l) (input l) \<and> pos l' = length (input l) \<and>
          escapedBody c (drop (pos l) (input l)))))"

definition adv :: "lexer \<Rightarrow> lexer \<Rightarrow> bool" where
  "adv l l' = (input l' = input l \<and> item l' = item l \<and> peeked l' = peeked l \<and> start l' = start l \<and>
     pos l \<le> pos l' \<and> (pos l \<le> length (input l) \<longrightarrow> pos l' \<le> length (input l)))"

text \<open>
  Notions for unterminated constructs, each a reading of the text after the opening
  delimiter from left to right. \<open>openString q s\<close>: \<open>s\<close> holds no closing quote \<open>q\<close>, a quote
  being closing unless it is one of a pair \<open>qq\<close> or the byte after a backslash.
  \<open>escapedBody c s\<close> above is the same for a quoted identifier, where only the pair counts.
  \<open>openComment s\<close>: \<open>s\<close> holds no \<^verbatim>\<open>*/\<close>. \<open>verdict typ unterminated l r\<close>: the scan returned; its
  token is \<^verbatim>\<open>ILLEGAL\<close> with the text from the token's start to the end of the input, where
  the scan stopped, when \<open>unterminated\<close>, and has kind \<open>typ\<close> otherwise.
\<close>

fun openString :: "char \<Rightarrow> string \<Rightarrow> bool" where
  "openString q [] = True"
| "openString q [x] = (x \<noteq> q)"
| "openString q (x # y # zs) =
     (if x = q then y = q \<and> openString q zs
      else if x = CHR 0x5C then openString q zs
      else openString q (y # zs))"

fun openComment :: "string \<Rightarrow> bool" where
  "openComment [] = True"
| "openComment [x] = True"
| "openComment (x # y # zs) = (\<not> (x = CHR ''*'' \<and> y = CHR ''/'') \<and> openComment (y # zs))"


text \<open>
  Notions for the parser's properties. \<open>isSetOp\<close>: the statement is a \<^verbatim>\<open>SetOp\<close> node.
  \<open>topBinary e\<close>: the operator of \<open>e\<close> when \<open>e\<close> is a \<^verbatim>\<open>BinaryExpr\<close>, the operator at the top of
  the expression. \<open>topAtLeast m e\<close>: when \<open>e\<close> is a \<^verbatim>\<open>BinaryExpr\<close>, the precedence of its operator
  is at least \<open>m\<close>.
\<close>

fun isSetOp :: "statement \<Rightarrow> bool" where
  "isSetOp (SetOp t al l r ob lim) = True"
| "isSetOp _ = False"



section \<open>Properties\<close>

subsection \<open>Evaluating the keyword table\<close>

lemma map_of_step: "map_of ((l, v) # ps) k = (if k = l then Some v else map_of ps k)"
  by simp

lemmas kw_eval = keywordsMap_def map_of_step map_of.simps(1) list.inject char.inject
  simp_thms if_True if_False list.distinct

lemma kw_select: "LookupIdent ''select'' = token_SELECT"
proof -
  have "map_of keywordsMap ''select'' = Some token_SELECT"
    by (simp only: kw_eval cong: if_weak_cong)
  then show ?thesis
    by (simp add: LookupIdent_def lookupKeyword_def isLowercase_def)
qed

subsection \<open>Identifier quoting\<close>

lemma needsQuotingNonKeyword_iff:
  "needsQuotingNonKeyword idn \<longleftrightarrow>
     idn = [] \<or> \<not> isIdentStart (hd idn) \<or> (\<exists>ch \<in> set idn. \<not> wordByte ch)"
proof (cases idn)
  case Nil
  then show ?thesis by (simp add: needsQuotingNonKeyword_def)
next
  case (Cons c cs)
  have "isIdentStart c \<Longrightarrow> wordByte c"
    by (auto simp: isIdentStart_def wordByte_def)
  then show ?thesis using Cons
    by (auto simp: needsQuotingNonKeyword_def isIdentStart_def wordByte_def list_ex_iff)
qed

lemma doubleQuotes_doubled: "doubleQuotes s = doubled s"
  by (induction s) (simp_all add: doubleQuotes_def)

text \<open>
  Claim C9. \<^verbatim>\<open>writeIdent\<close> appends the identifier in double quotes, embedded double
  quotes doubled (\<open>quotedForm\<close>), exactly when the identifier is empty, or does not begin with an ASCII
  letter or underscore, or holds a byte outside \<^verbatim>\<open>[A-Za-z0-9_$]\<close>, or is a keyword
  (\<^verbatim>\<open>token.IsKeyword\<close>); otherwise it appends the identifier as it is. \<^verbatim>\<open>writeFuncName\<close>
  does the same without the keyword condition.
\<close>

theorem identifier_quoting:
  "buf (writeIdent idn f) =
     buf f @ (if idn = [] \<or> \<not> isIdentStart (hd idn) \<or> (\<exists>ch \<in> set idn. \<not> wordByte ch) \<or>
                 IsKeywordIdent idn
              then quotedForm idn else idn) \<and>
   buf (writeFuncName idn f) =
     buf f @ (if idn = [] \<or> \<not> isIdentStart (hd idn) \<or> (\<exists>ch \<in> set idn. \<not> wordByte ch)
              then quotedForm idn else idn)"
  using needsQuotingNonKeyword_iff [of idn]
  by (auto simp: writeIdent_def writeFuncName_def needsQuoting_def writeStr_def quotedForm_def
      doubleQuotes_doubled)

theorem identifier_quoting_witness:
  "buf (writeIdent [CHR ''a'', CHR 0x22, CHR ''b''] (NewFormatter DefaultOptions)) =
     [CHR 0x22, CHR ''a'', CHR 0x22, CHR 0x22, CHR ''b'', CHR 0x22] \<and>
   buf (writeFuncName [CHR ''a'', CHR 0x22, CHR ''b''] (NewFormatter DefaultOptions)) =
     [CHR 0x22, CHR ''a'', CHR 0x22, CHR 0x22, CHR ''b'', CHR 0x22] \<and>
   buf (writeIdent ''select'' (NewFormatter DefaultOptions)) = [CHR 0x22] @ ''select'' @ [CHR 0x22] \<and>
   buf (writeFuncName ''select'' (NewFormatter DefaultOptions)) = ''select''"
  using identifier_quoting [of "[CHR ''a'', CHR 0x22, CHR ''b'']" "NewFormatter DefaultOptions"]
    identifier_quoting [of "''select''" "NewFormatter DefaultOptions"] kw_select
  by (simp add: IsKeywordIdent_def isIdentStart_def wordByte_def quotedForm_def NewFormatter_def)

subsection \<open>The lexer returns on every input\<close>

lemma byte_at_Some [simp]: "i < length s \<Longrightarrow> byte_at s i = Some (s ! i)"
  by (simp add: byte_at_def)

lemma advanceWhile_total:
  "\<exists>n. advanceWhile P l = Some (l\<lparr>pos := n\<rparr>) \<and> pos l \<le> n \<and>
        (pos l \<le> length (input l) \<longrightarrow> n \<le> length (input l))"
proof (induction P l rule: advanceWhile.induct)
  case (1 P l)
  show ?case
  proof (cases "pos l < length (input l) \<and> P (input l ! pos l)")
    case True
    then have rec: "advanceWhile P l = advanceWhile P (bump 1 l)"
      by (subst advanceWhile.simps) simp
    have "\<exists>n. advanceWhile P (bump 1 l) = Some ((bump 1 l)\<lparr>pos := n\<rparr>) \<and> pos (bump 1 l) \<le> n \<and>
        (pos (bump 1 l) \<le> length (input (bump 1 l)) \<longrightarrow> n \<le> length (input (bump 1 l)))"
      using "1.IH" True by simp
    then obtain n where "advanceWhile P (bump 1 l) = Some (l\<lparr>pos := n\<rparr>)" "pos l + 1 \<le> n"
      "n \<le> length (input l)"
      using True by (auto simp: bump_def)
    with rec show ?thesis by auto
  next
    case False
    then have "advanceWhile P l = Some l"
      by (subst advanceWhile.simps) auto
    then show ?thesis by (intro exI[of _ "pos l"]) simp
  qed
qed

lemma advPos_facts:
  "advanceWhile P l = Some (l\<lparr>pos := advPos P l\<rparr>)"
  "pos l \<le> advPos P l"
  "pos l \<le> length (input l) \<Longrightarrow> advPos P l \<le> length (input l)"
  using advanceWhile_total [of P l] by (auto simp: advPos_def)

lemma advanceWhile_eq [simp]: "advanceWhile P l = Some (l\<lparr>pos := advPos P l\<rparr>)"
  by (rule advPos_facts)

lemma advPos_ge [simp]: "a \<le> pos l \<Longrightarrow> a \<le> advPos P l"
  using advPos_facts(2) [of l P] by simp

lemma advPos_le [simp]: "pos l \<le> length (input l) \<Longrightarrow> advPos P l \<le> length (input l)"
  by (rule advPos_facts)

lemma good_Some: "input l' = input l \<Longrightarrow> item l' = item l \<Longrightarrow> peeked l' = peeked l \<Longrightarrow> good l (Some (it, l'))"
  by (simp add: good_def)

lemma good_bump [simp]: "good (bump n l) r = good l r"
  by (simp add: good_def bump_def)

lemma good_newline [simp]: "good (newline l) r = good l r"
  by (simp add: good_def newline_def)

lemma good_sliceItem: "a \<le> b \<Longrightarrow> b \<le> length (input l) \<Longrightarrow> good l (sliceItem l typ a b)"
  by (simp add: good_def sliceItem_def slice_def)

lemma outcome_bump: "outcome typ c (bump n l) r \<Longrightarrow> outcome typ c l r"
  by (auto simp: outcome_def bump_def)

lemma outcome_newline [simp]: "outcome typ c (newline l) r = outcome typ c l r"
  by (simp add: outcome_def newline_def)

lemma outcome_good: "outcome typ c l r \<Longrightarrow> good l r"
  by (auto simp: outcome_def good_def)

lemma outcome_eof:
  "start l \<le> pos l \<Longrightarrow> pos l = length (input l) \<Longrightarrow>
   outcome typ c l (sliceItem l token_ILLEGAL (start l) (pos l))"
  by (simp add: outcome_def sliceItem_def slice_def makeItem_def)

lemma scanStringLoop_outcome:
  "start l \<le> pos l \<Longrightarrow> pos l \<le> length (input l) \<Longrightarrow>
   outcome token_STRING q l (scanStringLoop q b l)"
proof (induction q b l rule: scanStringLoop.induct)
  case (1 q b l)
  show ?case
  proof (cases "pos l < length (input l)")
    case False
    with "1.prems" have "pos l = length (input l)" by simp
    moreover from False have "scanStringLoop q b l = sliceItem l token_ILLEGAL (start l) (pos l)"
      by (subst scanStringLoop.simps) simp
    ultimately show ?thesis using "1.prems" outcome_eof [of l token_STRING q] by simp
  next
    case True
    let ?ch = "input l ! pos l"
    have at: "byte_at (input l) (pos l) = Some ?ch" using True by simp
    consider (dbl) "?ch = q" "byteIs l 1 q" | (cls) "?ch = q" "\<not> byteIs l 1 q"
      | (esc) "?ch \<noteq> q" "?ch = CHR 0x5C \<and> pos l + 1 < length (input l)"
      | (oth) "?ch \<noteq> q" "\<not> (?ch = CHR 0x5C \<and> pos l + 1 < length (input l))"
      by blast
    then show ?thesis
    proof cases
      case dbl
      then have eq: "scanStringLoop q b l = scanStringLoop q (b @ [q]) (bump 2 l)"
        using True by (subst scanStringLoop.simps) simp
      have "outcome token_STRING q (bump 2 l) (scanStringLoop q (b @ [q]) (bump 2 l))"
        by (rule "1.IH"(1)[OF True at]) (use dbl "1.prems" in \<open>simp_all add: bump_def byteIs_def\<close>)
      then show ?thesis unfolding eq by (rule outcome_bump)
    next
      case cls
      then have eq: "scanStringLoop q b l = Some (makeItem (bump 1 l) token_STRING b, bump 1 l)"
        using True by (subst scanStringLoop.simps) simp
      show ?thesis unfolding eq using True cls
        by (simp add: outcome_def bump_def makeItem_def)
    next
      case esc
      then have at1: "byte_at (input l) (pos l + 1) = Some (input l ! (pos l + 1))" by simp
      from esc have eq: "scanStringLoop q b l =
          scanStringLoop q (b @ unescape (input l ! (pos l + 1))) (bump 2 l)"
        using True by (subst scanStringLoop.simps) simp
      have "outcome token_STRING q (bump 2 l)
          (scanStringLoop q (b @ unescape (input l ! (pos l + 1))) (bump 2 l))"
        by (rule "1.IH"(2)[OF True at _ _ at1]) (use esc "1.prems" in \<open>simp_all add: bump_def\<close>)
      then show ?thesis unfolding eq by (rule outcome_bump)
    next
      case oth
      let ?l = "if ?ch = CHR 0x0A then newline l else l"
      from oth have eq: "scanStringLoop q b l = scanStringLoop q (b @ [?ch]) (bump 1 ?l)"
        using True by (subst scanStringLoop.simps) auto
      have "outcome token_STRING q (bump 1 ?l) (scanStringLoop q (b @ [?ch]) (bump 1 ?l))"
        by (rule "1.IH"(3)[OF True at]) (use oth True "1.prems" in \<open>simp_all add: bump_def newline_def\<close>)
      then have "outcome token_STRING q ?l (scanStringLoop q (b @ [?ch]) (bump 1 ?l))"
        by (rule outcome_bump)
      then show ?thesis unfolding eq by (simp split: if_splits)
    qed
  qed
qed

lemma scanQuotedLoop_outcome:
  "start l < pos l \<Longrightarrow> pos l \<le> length (input l) \<Longrightarrow>
   outcome token_IDENT (CHR 0x22) l (scanQuotedLoop b l)"
proof (induction b l rule: scanQuotedLoop.induct)
  case (1 b l)
  show ?case
  proof (cases "pos l < length (input l)")
    case False
    with "1.prems" have "pos l = length (input l)" by simp
    moreover from False have "scanQuotedLoop b l = sliceItem l token_ILLEGAL (start l) (pos l)"
      by (subst scanQuotedLoop.simps) simp
    ultimately show ?thesis using "1.prems" outcome_eof [of l token_IDENT "CHR 0x22"] by simp
  next
    case True
    let ?ch = "input l ! pos l"
    have at: "byte_at (input l) (pos l) = Some ?ch" using True by simp
    consider (dbl) "?ch = CHR 0x22" "byteIs l 1 (CHR 0x22)"
      | (cls) "?ch = CHR 0x22" "\<not> byteIs l 1 (CHR 0x22)"
      | (oth) "?ch \<noteq> CHR 0x22"
      by blast
    then show ?thesis
    proof cases
      case dbl
      then have eq: "scanQuotedLoop b l = scanQuotedLoop (b @ [CHR 0x22]) (bump 2 l)"
        using True by (subst scanQuotedLoop.simps) simp
      have "outcome token_IDENT (CHR 0x22) (bump 2 l) (scanQuotedLoop (b @ [CHR 0x22]) (bump 2 l))"
        by (rule "1.IH"(1)[OF True at]) (use dbl "1.prems" in \<open>simp_all add: bump_def byteIs_def\<close>)
      then show ?thesis unfolding eq by (rule outcome_bump)
    next
      case cls
      then have eq: "scanQuotedLoop b l =
          (if b = [] then sliceItem (bump 1 l) token_IDENT (start l + 1) (pos l)
           else Some (makeItem (bump 1 l) token_IDENT b, bump 1 l))"
        using True by (subst scanQuotedLoop.simps) (simp add: bump_def Let_def)
      show ?thesis unfolding eq using True cls "1.prems"
        by (simp add: outcome_def bump_def makeItem_def sliceItem_def slice_def)
    next
      case oth
      let ?l = "if ?ch = CHR 0x0A then newline l else l"
      from oth have eq: "scanQuotedLoop b l = scanQuotedLoop (b @ [?ch]) (bump 1 ?l)"
        using True by (subst scanQuotedLoop.simps) auto
      have "outcome token_IDENT (CHR 0x22) (bump 1 ?l) (scanQuotedLoop (b @ [?ch]) (bump 1 ?l))"
        by (rule "1.IH"(2)[OF True at]) (use oth True "1.prems" in \<open>simp_all add: bump_def newline_def\<close>)
      then have "outcome token_IDENT (CHR 0x22) ?l (scanQuotedLoop (b @ [?ch]) (bump 1 ?l))"
        by (rule outcome_bump)
      then show ?thesis unfolding eq by (simp split: if_splits)
    qed
  qed
qed

lemma scanBlockLoop_outcome:
  "start l \<le> pos l \<Longrightarrow> pos l \<le> length (input l) \<Longrightarrow>
   outcome token_COMMENT (CHR ''/'') l (scanBlockLoop l)"
proof (induction l rule: scanBlockLoop.induct)
  case (1 l)
  show ?case
  proof (cases "pos l < length (input l)")
    case False
    with "1.prems" have "pos l = length (input l)" by simp
    moreover from False have "scanBlockLoop l = sliceItem l token_ILLEGAL (start l) (pos l)"
      by (subst scanBlockLoop.simps) simp
    ultimately show ?thesis using "1.prems" outcome_eof [of l token_COMMENT "CHR ''/''"] by simp
  next
    case True
    let ?ch = "input l ! pos l"
    have at: "byte_at (input l) (pos l) = Some ?ch" using True by simp
    show ?thesis
    proof (cases "?ch = CHR ''*'' \<and> byteIs l 1 (CHR ''/'')")
      case cls: True
      then have eq: "scanBlockLoop l = sliceItem (bump 2 l) token_COMMENT (start l) (pos l + 2)"
        using True by (subst scanBlockLoop.simps) simp
      show ?thesis unfolding eq using True cls "1.prems"
        by (simp add: outcome_def bump_def makeItem_def sliceItem_def slice_def byteIs_def)
    next
      case oth: False
      let ?l = "if ?ch = CHR 0x0A then newline l else l"
      from oth have eq: "scanBlockLoop l = scanBlockLoop (bump 1 ?l)"
        using True by (subst scanBlockLoop.simps) auto
      have "outcome token_COMMENT (CHR ''/'') (bump 1 ?l) (scanBlockLoop (bump 1 ?l))"
        by (rule "1.IH"[OF True at]) (use oth True "1.prems" in \<open>simp_all add: bump_def newline_def\<close>)
      then have "outcome token_COMMENT (CHR ''/'') ?l (scanBlockLoop (bump 1 ?l))"
        by (rule outcome_bump)
      then show ?thesis unfolding eq by (simp split: if_splits)
    qed
  qed
qed

lemma scanDollarLoop_good:
  "cs \<le> pos l \<Longrightarrow> start l \<le> pos l \<Longrightarrow> pos l \<le> length (input l) \<Longrightarrow>
   good l (scanDollarLoop cs ed l)"
proof (induction cs ed l rule: scanDollarLoop.induct)
  case (1 cs ed l)
  show ?case
  proof (cases "pos l < length (input l)")
    case False
    then have "scanDollarLoop cs ed l = sliceItem l token_ILLEGAL (start l) (pos l)"
      by (subst scanDollarLoop.simps) simp
    then show ?thesis using "1.prems" by (simp add: good_sliceItem)
  next
    case True
    let ?ch = "input l ! pos l"
    have at: "byte_at (input l) (pos l) = Some ?ch" using True by simp
    show ?thesis
    proof (cases "?ch = CHR ''$'' \<and> pos l + length ed \<le> length (input l) \<and>
                slice (input l) (pos l) (pos l + length ed) = Some ed")
      case cls: True
      then have eq: "scanDollarLoop cs ed l =
          do { content \<leftarrow> slice (input l) cs (pos l);
               Some (makeItem l token_STRING content, bump (length ed) l) }"
        using True by (subst scanDollarLoop.simps) simp
      show ?thesis unfolding eq using True "1.prems"
        by (simp add: good_def bump_def slice_def)
    next
      case oth: False
      let ?l = "if ?ch = CHR 0x0A then newline l else l"
      from oth have eq: "scanDollarLoop cs ed l = scanDollarLoop cs ed (bump 1 ?l)"
        using True by (subst scanDollarLoop.simps) auto
      have "good (bump 1 ?l) (scanDollarLoop cs ed (bump 1 ?l))"
        by (rule "1.IH"[OF True at]) (use oth True "1.prems" in \<open>simp_all add: bump_def newline_def\<close>)
      then show ?thesis unfolding eq by (simp split: if_splits)
    qed
  qed
qed

lemma escapedBody_other: "x \<noteq> c \<Longrightarrow> escapedBody c (x # ys) = escapedBody c ys"
  by (cases ys) simp_all

lemma escapedBody_pair: "escapedBody c (c # c # ys) = escapedBody c ys"
  by simp

lemma closedOutcome_newline [simp]: "closedOutcome c (newline l) r = closedOutcome c l r"
  by (simp add: closedOutcome_def newline_def)

lemma closedOutcome_other:
  assumes "closedOutcome c (bump 1 l) r" "pos l < length (input l)" "input l ! pos l \<noteq> c"
  shows "closedOutcome c l r"
proof -
  have d: "drop (pos l) (input l) = input l ! pos l # drop (pos l + 1) (input l)"
    using assms(2) by (simp add: Cons_nth_drop_Suc)
  from assms(1) obtain it l' where r: "r = Some (it, l')" and
    fr: "input l' = input l" "item l' = item l" "peeked l' = peeked l" "start l' = start l" and
    alt: "(Type it = token_IDENT \<and> pos l + 1 < pos l' \<and> pos l' \<le> length (input l) \<and>
          input l ! (pos l' - 1) = c \<and> (pos l' < length (input l) \<longrightarrow> input l ! pos l' \<noteq> c) \<and>
          escapedBody c (take (pos l' - 1 - (pos l + 1)) (drop (pos l + 1) (input l))) \<and>
          Value it = take (pos l' - 1 - (start l + 1)) (drop (start l + 1) (input l))) \<or>
         (Type it = token_ILLEGAL \<and> Value it = drop (start l) (input l) \<and> pos l' = length (input l) \<and>
          escapedBody c (drop (pos l + 1) (input l)))"
    by (auto simp: closedOutcome_def bump_def)
  from alt show ?thesis
  proof
    assume a: "Type it = token_IDENT \<and> pos l + 1 < pos l' \<and> pos l' \<le> length (input l) \<and>
          input l ! (pos l' - 1) = c \<and> (pos l' < length (input l) \<longrightarrow> input l ! pos l' \<noteq> c) \<and>
          escapedBody c (take (pos l' - 1 - (pos l + 1)) (drop (pos l + 1) (input l))) \<and>
          Value it = take (pos l' - 1 - (start l + 1)) (drop (start l + 1) (input l))"
    then have "pos l + 1 < pos l'" by simp
    then have "pos l' - 1 - pos l = Suc (pos l' - 1 - (pos l + 1))" by arith
    then have "take (pos l' - 1 - pos l) (drop (pos l) (input l)) =
        input l ! pos l # take (pos l' - 1 - (pos l + 1)) (drop (pos l + 1) (input l))"
      using d by simp
    then have "escapedBody c (take (pos l' - 1 - pos l) (drop (pos l) (input l)))"
      using a assms(3) by (simp add: escapedBody_other)
    with a r fr show ?thesis by (simp add: closedOutcome_def)
  next
    assume a: "Type it = token_ILLEGAL \<and> Value it = drop (start l) (input l) \<and>
        pos l' = length (input l) \<and> escapedBody c (drop (pos l + 1) (input l))"
    then have "escapedBody c (drop (pos l) (input l))"
      using d assms(3) by (simp add: escapedBody_other)
    with a r fr show ?thesis by (simp add: closedOutcome_def)
  qed
qed

lemma closedOutcome_pair:
  assumes "closedOutcome c (bump 2 l) r" "pos l + 1 < length (input l)" "input l ! pos l = c"
    "input l ! (pos l + 1) = c"
  shows "closedOutcome c l r"
proof -
  have d: "drop (pos l) (input l) = c # c # drop (pos l + 2) (input l)"
    using assms(2-4) Cons_nth_drop_Suc [of "pos l" "input l"]
      Cons_nth_drop_Suc [of "Suc (pos l)" "input l"] by simp
  from assms(1) obtain it l' where r: "r = Some (it, l')" and
    fr: "input l' = input l" "item l' = item l" "peeked l' = peeked l" "start l' = start l" and
    alt: "(Type it = token_IDENT \<and> pos l + 2 < pos l' \<and> pos l' \<le> length (input l) \<and>
          input l ! (pos l' - 1) = c \<and> (pos l' < length (input l) \<longrightarrow> input l ! pos l' \<noteq> c) \<and>
          escapedBody c (take (pos l' - 1 - (pos l + 2)) (drop (pos l + 2) (input l))) \<and>
          Value it = take (pos l' - 1 - (start l + 1)) (drop (start l + 1) (input l))) \<or>
         (Type it = token_ILLEGAL \<and> Value it = drop (start l) (input l) \<and> pos l' = length (input l) \<and>
          escapedBody c (drop (pos l + 2) (input l)))"
    by (auto simp: closedOutcome_def bump_def)
  from alt show ?thesis
  proof
    assume a: "Type it = token_IDENT \<and> pos l + 2 < pos l' \<and> pos l' \<le> length (input l) \<and>
          input l ! (pos l' - 1) = c \<and> (pos l' < length (input l) \<longrightarrow> input l ! pos l' \<noteq> c) \<and>
          escapedBody c (take (pos l' - 1 - (pos l + 2)) (drop (pos l + 2) (input l))) \<and>
          Value it = take (pos l' - 1 - (start l + 1)) (drop (start l + 1) (input l))"
    then have "pos l + 2 < pos l'" by simp
    then have "pos l' - 1 - pos l = Suc (Suc (pos l' - 1 - (pos l + 2)))" by arith
    then have "take (pos l' - 1 - pos l) (drop (pos l) (input l)) =
        c # c # take (pos l' - 1 - (pos l + 2)) (drop (pos l + 2) (input l))"
      using d by simp
    then have "escapedBody c (take (pos l' - 1 - pos l) (drop (pos l) (input l)))"
      using a by simp
    with a r fr show ?thesis by (simp add: closedOutcome_def)
  next
    assume a: "Type it = token_ILLEGAL \<and> Value it = drop (start l) (input l) \<and>
        pos l' = length (input l) \<and> escapedBody c (drop (pos l + 2) (input l))"
    then have "escapedBody c (drop (pos l) (input l))"
      using d by simp
    with a r fr show ?thesis by (simp add: closedOutcome_def)
  qed
qed

lemma scanClosedLoop_outcome:
  "start l < pos l \<Longrightarrow> pos l \<le> length (input l) \<Longrightarrow> closedOutcome c l (scanClosedLoop c l)"
proof (induction c l rule: scanClosedLoop.induct)
  case (1 c l)
  show ?case
  proof (cases "pos l < length (input l)")
    case False
    with "1.prems" have e: "pos l = length (input l)" by simp
    from False have "scanClosedLoop c l = sliceItem l token_ILLEGAL (start l) (pos l)"
      by (subst scanClosedLoop.simps) simp
    then show ?thesis using "1.prems" e
      by (simp add: closedOutcome_def sliceItem_def slice_def makeItem_def)
  next
    case True
    let ?ch = "input l ! pos l"
    have at: "byte_at (input l) (pos l) = Some ?ch" using True by simp
    consider (dbl) "?ch = c" "byteIs l 1 c" | (cls) "?ch = c" "\<not> byteIs l 1 c" | (oth) "?ch \<noteq> c"
      by blast
    then show ?thesis
    proof cases
      case dbl
      then have eq: "scanClosedLoop c l = scanClosedLoop c (bump 2 l)"
        using True by (subst scanClosedLoop.simps) simp
      have o: "closedOutcome c (bump 2 l) (scanClosedLoop c (bump 2 l))"
        by (rule "1.IH"(1)[OF True at]) (use dbl "1.prems" in \<open>simp_all add: bump_def byteIs_def\<close>)
      show ?thesis unfolding eq
        by (rule closedOutcome_pair[OF o]) (use dbl in \<open>simp_all add: byteIs_def\<close>)
    next
      case cls
      then have eq: "scanClosedLoop c l = sliceItem (bump 1 l) token_IDENT (start l + 1) (pos l)"
        using True by (subst scanClosedLoop.simps) (simp add: bump_def Let_def)
      show ?thesis unfolding eq using True cls "1.prems"
        by (simp add: closedOutcome_def bump_def makeItem_def sliceItem_def slice_def byteIs_def)
    next
      case oth
      let ?l = "if ?ch = CHR 0x0A then newline l else l"
      from oth have eq: "scanClosedLoop c l = scanClosedLoop c (bump 1 ?l)"
        using True by (subst scanClosedLoop.simps) auto
      have o: "closedOutcome c (bump 1 ?l) (scanClosedLoop c (bump 1 ?l))"
        by (rule "1.IH"(2)[OF True at]) (use oth True "1.prems" in \<open>simp_all add: bump_def newline_def\<close>)
      have "closedOutcome c ?l (scanClosedLoop c (bump 1 ?l))"
        by (rule closedOutcome_other[OF o]) (use oth True in \<open>auto simp: newline_def\<close>)
      then show ?thesis unfolding eq by (simp split: if_splits)
    qed
  qed
qed

lemma good_pos_update [simp]: "good (l\<lparr>pos := n\<rparr>) r = good l r"
  by (simp add: good_def)

lemma advPos_le_input [simp]: "input l = inp \<Longrightarrow> pos l \<le> length inp \<Longrightarrow> advPos P l \<le> length inp"
  using advPos_le [of l P] by simp

lemma advPos_ge_Suc [simp]: "a \<le> pos l \<Longrightarrow> a \<le> Suc (advPos P l)"
  using advPos_facts(2) [of l P] by linarith

lemmas lexdefs = good_def Let_def byteIs_def byteHas_def bump_def sliceItem_def slice_def single_def

lemma scanIdentifier_good: "start l \<le> pos l \<Longrightarrow> pos l \<le> length (input l) \<Longrightarrow> good l (scanIdentifier l)"
  by (simp add: scanIdentifier_def lexdefs)

lemma adv_good:
  "adv l l' \<Longrightarrow> start l \<le> pos l \<Longrightarrow> pos l \<le> length (input l) \<Longrightarrow>
   good l (sliceItem l' typ (start l') (pos l'))"
  by (simp add: adv_def good_def sliceItem_def slice_def)

lemma adv_trans: "adv a b \<Longrightarrow> adv b c \<Longrightarrow> adv a c"
  by (simp add: adv_def)

lemma adv_advance: "adv l (l\<lparr>pos := advPos P l\<rparr>)"
  by (simp add: adv_def)

lemma adv_bump: "pos l + n \<le> length (input l) \<Longrightarrow> adv l (bump n l)"
  by (simp add: adv_def bump_def)

lemma byteIs_bound: "byteIs l k c \<Longrightarrow> pos l + k < length (input l)"
  by (simp add: byteIs_def)

lemma scanDecimalPart_adv: "\<exists>tok' l'. scanDecimalPart tok l = Some (tok', l') \<and> adv l l'"
proof (cases "byteIs l 0 (CHR ''.'')")
  case True
  then have "adv l (bump 1 l)" by (intro adv_bump) (simp add: byteIs_def)
  moreover have "adv (bump 1 l) ((bump 1 l)\<lparr>pos := advPos isDigit (bump 1 l)\<rparr>)"
    by (rule adv_advance)
  ultimately show ?thesis using True by (auto simp: scanDecimalPart_def intro: adv_trans)
next
  case False
  then show ?thesis by (simp add: scanDecimalPart_def adv_def)
qed

lemma scanExponent_adv: "\<exists>tok' l'. scanExponent tok l = Some (tok', l') \<and> adv l l'"
proof (cases "byteIs l 0 (CHR ''e'') \<or> byteIs l 0 (CHR ''E'')")
  case True
  define l1 where "l1 = bump 1 l"
  define l2 where "l2 = (if byteIs l1 0 (CHR ''+'') \<or> byteIs l1 0 (CHR ''-'') then bump 1 l1 else l1)"
  have a1: "adv l l1" unfolding l1_def using True by (intro adv_bump) (auto simp: byteIs_def)
  have a2: "adv l1 l2" unfolding l2_def by (auto simp: adv_def bump_def byteIs_def)
  have a3: "adv l2 (l2\<lparr>pos := advPos isDigit l2\<rparr>)" by (rule adv_advance)
  have "scanExponent tok l = Some (token_FLOAT, l2\<lparr>pos := advPos isDigit l2\<rparr>)"
    using True by (simp add: scanExponent_def l1_def l2_def Let_def)
  then show ?thesis using a1 a2 a3 by (auto intro: adv_trans)
next
  case False
  then show ?thesis by (simp add: scanExponent_def adv_def)
qed

lemma scanHex_good:
  assumes "start l \<le> pos l" "pos l + 1 < length (input l)"
  shows "good l (scanHex l)"
proof -
  have "adv l (bump 2 l)" using assms by (intro adv_bump) simp
  moreover have "adv (bump 2 l) ((bump 2 l)\<lparr>pos := advPos isHexDigit (bump 2 l)\<rparr>)"
    by (rule adv_advance)
  ultimately have "adv l ((bump 2 l)\<lparr>pos := advPos isHexDigit (bump 2 l)\<rparr>)"
    by (rule adv_trans)
  from adv_good [OF this, of token_INT] assms show ?thesis by (simp add: scanHex_def)
qed

lemma scanNumber_good:
  assumes "start l \<le> pos l" "pos l \<le> length (input l)"
  shows "good l (scanNumber l)"
proof (cases "pos l + 1 < length (input l) \<and> input l ! pos l = CHR ''0'' \<and>
         (input l ! (pos l + 1) = CHR ''x'' \<or> input l ! (pos l + 1) = CHR ''X'')")
  case True
  then show ?thesis using scanHex_good [of l] assms by (simp add: scanNumber_def)
next
  case False
  define l1 where "l1 = l\<lparr>pos := advPos isDigit l\<rparr>"
  have a1: "adv l l1" unfolding l1_def by (rule adv_advance)
  show ?thesis
  proof (cases "byteIs l1 0 (CHR ''.'') \<and> byteIs l1 1 (CHR ''.'')")
    case True
    then have "scanNumber l = sliceItem l1 token_INT (start l1) (pos l1)"
      using False by (auto simp: scanNumber_def l1_def)
    then show ?thesis using adv_good [OF a1, of token_INT] assms by simp
  next
    case nr: False
    obtain t2 l2 where d: "scanDecimalPart token_INT l1 = Some (t2, l2)" and a2: "adv l1 l2"
      using scanDecimalPart_adv by blast
    obtain t3 l3 where e: "scanExponent t2 l2 = Some (t3, l3)" and a3: "adv l2 l3"
      using scanExponent_adv by blast
    have "scanNumber l = sliceItem l3 t3 (start l3) (pos l3)"
      using False nr d e by (auto simp: scanNumber_def l1_def)
    moreover have "adv l l3" using a1 a2 a3 by (blast intro: adv_trans)
    ultimately show ?thesis using adv_good [of l l3 t3] assms by simp
  qed
qed

lemma scanString_good: "start l \<le> pos l \<Longrightarrow> pos l < length (input l) \<Longrightarrow> good l (scanString q l)"
  unfolding scanString_def
  using scanStringLoop_outcome [of "bump 1 l" q "[]"] by (auto dest!: outcome_good simp: bump_def)

lemma scanQuotedIdentifier_good:
  "start l \<le> pos l \<Longrightarrow> pos l < length (input l) \<Longrightarrow> good l (scanQuotedIdentifier l)"
  unfolding scanQuotedIdentifier_def
  using scanQuotedLoop_outcome [of "bump 1 l" "[]"] by (auto dest!: outcome_good simp: bump_def)

lemma closedOutcome_good: "closedOutcome c l r \<Longrightarrow> good l r"
  by (auto simp: closedOutcome_def good_def)

lemma scanBacktickIdentifier_good:
  "start l \<le> pos l \<Longrightarrow> pos l < length (input l) \<Longrightarrow> good l (scanBacktickIdentifier l)"
  unfolding scanBacktickIdentifier_def
  using scanClosedLoop_outcome [of "bump 1 l" "CHR 0x60"] by (auto dest!: closedOutcome_good simp: bump_def)

lemma scanBracketIdentifier_good:
  "start l \<le> pos l \<Longrightarrow> pos l < length (input l) \<Longrightarrow> good l (scanBracketIdentifier l)"
  unfolding scanBracketIdentifier_def
  using scanClosedLoop_outcome [of "bump 1 l" "CHR '']''"] by (auto dest!: closedOutcome_good simp: bump_def)

lemma scanBracketOrLBracket_good:
  "start l \<le> pos l \<Longrightarrow> pos l < length (input l) \<Longrightarrow> good l (scanBracketOrLBracket l)"
  using scanBracketIdentifier_good [of l]
  by (simp add: scanBracketOrLBracket_def) (simp add: lexdefs)

lemma scanLineComment_good:
  "start l \<le> pos l \<Longrightarrow> pos l < length (input l) \<Longrightarrow> good l (scanLineComment l)"
  by (simp add: scanLineComment_def lexdefs)

lemma scanMinus_good: "start l \<le> pos l \<Longrightarrow> pos l < length (input l) \<Longrightarrow> good l (scanMinus l)"
  using scanLineComment_good [of "bump 1 l"]
  by (simp add: scanMinus_def Let_def) (simp add: lexdefs)

lemma scanBlockComment_good:
  "start l \<le> pos l \<Longrightarrow> pos l < length (input l) \<Longrightarrow> good l (scanBlockComment l)"
  unfolding scanBlockComment_def
  using scanBlockLoop_outcome [of "bump 1 l"] by (auto dest!: outcome_good simp: bump_def)

lemma scanSlash_good: "start l \<le> pos l \<Longrightarrow> pos l < length (input l) \<Longrightarrow> good l (scanSlash l)"
  using scanBlockComment_good [of "bump 1 l"]
  by (simp add: scanSlash_def Let_def) (simp add: lexdefs)

lemma scanLessThan_good: "good l (scanLessThan l)"
  by (simp add: scanLessThan_def lexdefs)

lemma scanGreaterThan_good: "good l (scanGreaterThan l)"
  by (simp add: scanGreaterThan_def lexdefs)

lemma scanBang_good: "good l (scanBang l)"
  by (simp add: scanBang_def lexdefs)

lemma scanPipe_good: "good l (scanPipe l)"
  by (simp add: scanPipe_def lexdefs)

lemma scanQuestion_good: "good l (scanQuestion l)"
  by (simp add: scanQuestion_def lexdefs)

lemma scanColon_good: "start l \<le> pos l \<Longrightarrow> pos l < length (input l) \<Longrightarrow> good l (scanColon l)"
  by (simp add: scanColon_def lexdefs)

lemma scanAt_good: "start l \<le> pos l \<Longrightarrow> pos l < length (input l) \<Longrightarrow> good l (scanAt l)"
  by (simp add: scanAt_def lexdefs)

lemma scanHashComment_good:
  "start l \<le> pos l \<Longrightarrow> pos l \<le> length (input l) \<Longrightarrow> good l (scanHashComment l)"
  by (simp add: scanHashComment_def lexdefs)

lemma good_base:
  "good l' r \<Longrightarrow> input l' = input l \<Longrightarrow> item l' = item l \<Longrightarrow> peeked l' = peeked l \<Longrightarrow> good l r"
  by (simp add: good_def)

lemma good_Some_iff [simp]:
  "good l (Some (it, l')) \<longleftrightarrow> input l' = input l \<and> item l' = item l \<and> peeked l' = peeked l"
  by (auto simp: good_def)

lemma scanDollarQuoted_good:
  assumes "start l \<le> pos l" "pos l \<le> length (input l)"
  shows "good l (scanDollarQuotedStringContent tag l)"
  unfolding scanDollarQuotedStringContent_def using assms by (intro scanDollarLoop_good) simp_all

lemma scanDollar_good:
  assumes "start l \<le> pos l" "pos l < length (input l)"
  shows "good l (scanDollar l)"
proof -
  let ?l1 = "l\<lparr>pos := Suc (pos l)\<rparr>"
  have a1: "adv l ?l1" using assms by (simp add: adv_def)
  consider (digits) "byteHas ?l1 0 isDigit"
    | (dollar) "\<not> byteHas ?l1 0 isDigit" "Suc (pos l) < length (input l)"
        "input l ! Suc (pos l) = CHR ''$''"
    | (tag) "\<not> byteHas ?l1 0 isDigit" "Suc (pos l) < length (input l)"
        "input l ! Suc (pos l) \<noteq> CHR ''$''" "isIdentStart (input l ! Suc (pos l))"
    | (other) "\<not> byteHas ?l1 0 isDigit" "Suc (pos l) < length (input l)"
        "input l ! Suc (pos l) \<noteq> CHR ''$''" "\<not> isIdentStart (input l ! Suc (pos l))"
    | (eof) "\<not> byteHas ?l1 0 isDigit" "\<not> Suc (pos l) < length (input l)"
    by blast
  then show ?thesis
  proof cases
    case digits
    let ?l2 = "?l1\<lparr>pos := advPos isDigit ?l1\<rparr>"
    have "scanDollar l = sliceItem ?l2 token_PARAM (start ?l2) (pos ?l2)"
      using digits by (simp add: scanDollar_def Let_def bump_def)
    moreover have "adv l ?l2" using a1 adv_advance [of ?l1 isDigit] by (rule adv_trans)
    ultimately show ?thesis using adv_good [of l ?l2 token_PARAM] assms by simp
  next
    case dollar
    let ?l2 = "l\<lparr>pos := Suc (Suc (pos l))\<rparr>"
    from dollar have "scanDollar l = scanDollarQuotedStringContent [] ?l2"
      by (simp add: scanDollar_def Let_def bump_def)
    moreover have "good ?l2 (scanDollarQuotedStringContent [] ?l2)"
      using dollar assms by (intro scanDollarQuoted_good) simp_all
    ultimately show ?thesis by simp
  next
    case tag
    let ?l2 = "?l1\<lparr>pos := advPos isTagChar ?l1\<rparr>"
    have a2: "adv l ?l2" using a1 adv_advance [of ?l1 isTagChar] by (rule adv_trans)
    show ?thesis
    proof (cases "byteIs ?l2 0 (CHR ''$'')")
      case True
      let ?tag = "take (pos ?l2 - Suc (pos l)) (drop (Suc (pos l)) (input l))"
      let ?l3 = "?l2\<lparr>pos := Suc (pos ?l2)\<rparr>"
      have sl: "slice (input l) (Suc (pos l)) (advPos isTagChar ?l1) = Some ?tag"
        using a2 assms by (simp add: slice_def adv_def)
      have "scanDollar l = scanDollarQuotedStringContent ?tag ?l3"
        using tag True sl by (simp add: scanDollar_def Let_def bump_def)
      moreover have "good ?l3 (scanDollarQuotedStringContent ?tag ?l3)"
        using True a2 assms by (intro scanDollarQuoted_good) (simp_all add: adv_def byteIs_def)
      ultimately show ?thesis by simp
    next
      case False
      then have "scanDollar l = (let l' = ?l2\<lparr>pos := start ?l2 + 1\<rparr> in
          Some (makeItem l' token_ILLEGAL ''$'', l'))"
        using tag by (simp add: scanDollar_def Let_def bump_def)
      then show ?thesis by (simp add: Let_def)
    qed
  next
    case other
    then have "scanDollar l = Some (makeItem ?l1 token_ILLEGAL ''$'', ?l1)"
      by (simp add: scanDollar_def Let_def bump_def)
    then show ?thesis by simp
  next
    case eof
    then have "scanDollar l = Some (makeItem ?l1 token_ILLEGAL ''$'', ?l1)"
      by (simp add: scanDollar_def Let_def bump_def)
    then show ?thesis by simp
  qed
qed

lemma identTail_good:
  assumes "adv l l1"  "start l \<le> pos l" "pos l \<le> length (input l)"
  shows "good l (do { l \<leftarrow> advanceWhile P l1; sliceItem l typ (start l) (pos l) })"
proof -
  have "adv l (l1\<lparr>pos := advPos P l1\<rparr>)" using assms(1) adv_advance [of l1 P] by (rule adv_trans)
  from adv_good [OF this, of "typ"] assms show ?thesis by simp
qed

lemma scanHashComment_good':
  assumes "adv l l1"  "start l \<le> pos l" "pos l \<le> length (input l)"
  shows "good l (scanHashComment l1)"
  unfolding scanHashComment_def using assms by (rule identTail_good)

lemma scanHash_good:
  assumes "start l \<le> pos l" "pos l < length (input l)"
  shows "good l (scanHash l)"
proof -
  let ?l1 = "l\<lparr>pos := Suc (pos l)\<rparr>"
  have a1: "adv l ?l1" using assms by (simp add: adv_def)
  have le: "start l \<le> pos l" "pos l \<le> length (input l)" using assms by simp_all
  show ?thesis
  proof (cases "Suc (pos l) < length (input l)")
    case False
    then have "scanHash l = scanHashComment ?l1"
      by (simp add: scanHash_def Let_def bump_def)
    then show ?thesis using scanHashComment_good' [OF a1 le] by simp
  next
    case True
    let ?ch = "input l ! Suc (pos l)"
    consider (gt) "?ch = CHR ''>''" | (hh) "?ch \<noteq> CHR ''>''" "?ch = CHR ''#''"
      | (idn) "?ch \<noteq> CHR ''>''" "?ch \<noteq> CHR ''#''" "isIdentStart ?ch"
      | (oth) "?ch \<noteq> CHR ''>''" "?ch \<noteq> CHR ''#''" "\<not> isIdentStart ?ch"
      by blast
    then show ?thesis
    proof cases
      case gt
      then show ?thesis using True
        by (simp add: scanHash_def Let_def bump_def)
    next
      case hh
      let ?l2 = "l\<lparr>pos := Suc (Suc (pos l))\<rparr>"
      have a2: "adv l ?l2" using True by (simp add: adv_def)
      show ?thesis
      proof (cases "byteHas ?l2 0 isIdentStart")
        case t: True
        then have "scanHash l = do { l \<leftarrow> advanceWhile isIdentChar ?l2;
                                   sliceItem l token_IDENT (start l) (pos l) }"
          using hh True by (simp add: scanHash_def Let_def bump_def)
        then show ?thesis using identTail_good [OF a2 le] by simp
      next
        case f: False
        then have "scanHash l = scanHashComment (?l2\<lparr>pos := pos ?l2 - 2\<rparr>)"
          using hh True by (simp add: scanHash_def Let_def bump_def)
        moreover have "adv l (?l2\<lparr>pos := pos ?l2 - 2\<rparr>)"
          using assms by (simp add: adv_def)
        ultimately show ?thesis using scanHashComment_good' [OF _ le] by simp
      qed
    next
      case idn
      then have "scanHash l = do { l \<leftarrow> advanceWhile isIdentChar ?l1;
                                 sliceItem l token_IDENT (start l) (pos l) }"
        using True by (simp add: scanHash_def Let_def bump_def)
      then show ?thesis using identTail_good [OF a1 le] by simp
    next
      case oth
      then have "scanHash l = scanHashComment ?l1"
        using True by (simp add: scanHash_def Let_def bump_def)
      then show ?thesis using scanHashComment_good' [OF a1 le] by simp
    qed
  qed
qed

lemma skipWhitespace_total:
  "\<exists>l'. skipWhitespace l = Some l' \<and> input l' = input l \<and> item l' = item l \<and>
        peeked l' = peeked l \<and> pos l \<le> pos l' \<and>
        (pos l \<le> length (input l) \<longrightarrow> pos l' \<le> length (input l))"
proof (induction l rule: skipWhitespace.induct)
  case (1 l)
  show ?case
  proof (cases "pos l < length (input l)")
    case False
    then have "skipWhitespace l = Some l" by (subst skipWhitespace.simps) simp
    then show ?thesis by simp
  next
    case True
    let ?ch = "input l ! pos l"
    have at: "byte_at (input l) (pos l) = Some ?ch" using True by simp
    consider (ws) "?ch = CHR '' '' \<or> ?ch = CHR 0x09 \<or> ?ch = CHR 0x0D"
      | (nl) "\<not> (?ch = CHR '' '' \<or> ?ch = CHR 0x09 \<or> ?ch = CHR 0x0D)" "?ch = CHR 0x0A"
      | (oth) "\<not> (?ch = CHR '' '' \<or> ?ch = CHR 0x09 \<or> ?ch = CHR 0x0D)" "?ch \<noteq> CHR 0x0A"
      by blast
    then show ?thesis
    proof cases
      case ws
      then have eq: "skipWhitespace l = skipWhitespace (bump 1 l)"
        using True by (subst skipWhitespace.simps) auto
      from "1.IH"(1)[OF True at ws] show ?thesis unfolding eq using True
        by (auto simp: bump_def)
    next
      case nl
      let ?l = "(bump 1 l)\<lparr>line := line l + 1, linePos := pos l + 1\<rparr>"
      from nl have eq: "skipWhitespace l = skipWhitespace ?l"
        using True by (subst skipWhitespace.simps) auto
      from "1.IH"(2)[OF True at nl] show ?thesis unfolding eq using True
        by (auto simp: bump_def)
    next
      case oth
      then have "skipWhitespace l = Some l" using True by (subst skipWhitespace.simps) auto
      then show ?thesis by simp
    qed
  qed
qed

lemma scanToken_good:
  "start l = pos l \<Longrightarrow> pos l < length (input l) \<Longrightarrow> good l (scanToken ch l)"
  by (simp add: scanToken_def single_def bump_def scanBracketOrLBracket_good scanAt_good
      scanNumber_good scanMinus_good scanSlash_good scanString_good scanQuotedIdentifier_good
      scanBacktickIdentifier_good scanLessThan_good scanGreaterThan_good scanBang_good
      scanPipe_good scanQuestion_good scanDollar_good scanColon_good scanHash_good
      scanIdentifier_good)

lemma scan_good: "good l (scan l)"
proof -
  obtain l' where sw: "skipWhitespace l = Some l'" and
    fr: "input l' = input l" "item l' = item l" "peeked l' = peeked l"
    using skipWhitespace_total [of l] by blast
  let ?l1 = "l'\<lparr>start := pos l'\<rparr>"
  show ?thesis
  proof (cases "pos l' < length (input l')")
    case False
    then show ?thesis using sw fr by (simp add: scan_def Let_def)
  next
    case True
    then have "good ?l1 (scanToken (input l' ! pos l') ?l1)"
      by (intro scanToken_good) simp_all
    then have "good l (scanToken (input l' ! pos l') ?l1)"
      using fr by (simp add: good_def)
    then show ?thesis using sw True by (simp add: scan_def Let_def)
  qed
qed

lemma scan_total: "\<exists>it l'. scan l = Some (it, l') \<and> peeked l' = peeked l \<and> item l' = item l"
  using scan_good [of l] by (auto simp: good_def)

declare advanceWhile_eq [simp del] advPos_ge [simp del] advPos_le [simp del]
  advPos_le_input [simp del] advPos_ge_Suc [simp del] good_Some_iff [simp del]
  good_pos_update [simp del] good_bump [simp del] good_newline [simp del]
  outcome_newline [simp del] closedOutcome_newline [simp del] byte_at_Some [simp del]


text \<open>Unfolding the lexer on a concrete input.\<close>

lemmas lexer_eval = Next_def Peek_def New_def scan_def scanToken_def single_def makeItem_def
  bump_def newline_def byteIs_def byteHas_def byte_at_def slice_def sliceItem_def zeroItem_def
  skipWhitespace.simps advanceWhile.simps scanStringLoop.simps scanQuotedLoop.simps
  scanClosedLoop.simps scanBlockLoop.simps scanDollarLoop.simps
  scanIdentifier_def scanNumber_def scanHex_def scanDecimalPart_def scanExponent_def
  scanString_def scanQuotedIdentifier_def scanBacktickIdentifier_def scanBracketIdentifier_def
  scanBracketOrLBracket_def scanLineComment_def scanMinus_def scanBlockComment_def scanSlash_def
  scanLessThan_def scanGreaterThan_def scanBang_def scanPipe_def scanQuestion_def
  scanDollarQuotedStringContent_def scanDollar_def scanColon_def scanHashComment_def scanHash_def
  scanAt_def isDigit_def isIdentStart_def isIdentChar_def isTagChar_def isHexDigit_def unescape_def
  Let_def


subsection \<open>Lookahead\<close>

text \<open>
  Claim C10. In every lexer state \<^verbatim>\<open>Peek\<close> returns a token, the token is the one the next
  \<^verbatim>\<open>Next\<close> returns, and \<^verbatim>\<open>Next\<close> after \<^verbatim>\<open>Peek\<close> gives the same token and leaves the same
  lexer state as \<^verbatim>\<open>Next\<close> without it, so the tokens delivered afterwards are the same;
  a second \<^verbatim>\<open>Peek\<close> changes nothing.
\<close>

theorem peek_then_next:
  "\<exists>it l1. Peek l = Some (it, l1) \<and> Next l1 = Next l \<and> map_option fst (Next l) = Some it \<and>
            Peek l1 = Some (it, l1)"
proof (cases "peeked l")
  case True
  then show ?thesis by (simp add: Peek_def Next_def)
next
  case False
  obtain it l' where sc: "scan l = Some (it, l')" and pk: "peeked l' = peeked l"
    using scan_total [of l] by blast
  have "l'\<lparr>item := it, peeked := False\<rparr> = l'\<lparr>item := it\<rparr>"
    using pk False by (cases l') simp
  then show ?thesis using sc False by (simp add: Peek_def Next_def)
qed


subsection \<open>Totality and unterminated constructs\<close>

lemma skipWhitespace_at:
  "pos l < length (input l) \<Longrightarrow> input l ! pos l \<noteq> CHR '' '' \<Longrightarrow> input l ! pos l \<noteq> CHR 0x09 \<Longrightarrow>
   input l ! pos l \<noteq> CHR 0x0D \<Longrightarrow> input l ! pos l \<noteq> CHR 0x0A \<Longrightarrow> skipWhitespace l = Some l"
  by (subst skipWhitespace.simps) (simp add: byte_at_def)

lemma scan_at:
  "pos l < length (input l) \<Longrightarrow> input l ! pos l \<noteq> CHR '' '' \<Longrightarrow> input l ! pos l \<noteq> CHR 0x09 \<Longrightarrow>
   input l ! pos l \<noteq> CHR 0x0D \<Longrightarrow> input l ! pos l \<noteq> CHR 0x0A \<Longrightarrow>
   scan l = scanToken (input l ! pos l) (l\<lparr>start := pos l\<rparr>)"
  by (simp add: scan_def skipWhitespace_at Let_def byte_at_def)

lemma Next_scan:
  "\<not> peeked l \<Longrightarrow> scan l = Some (it, l') \<Longrightarrow> Next l = Some (it, l'\<lparr>item := it\<rparr>)"
  by (simp add: Next_def)






lemma openString_pair: "openString q (q # q # zs) = openString q zs"
  by simp


lemma openString_escape: "x \<noteq> q \<Longrightarrow> x = CHR 0x5C \<Longrightarrow> openString q (x # y # zs) = openString q zs"
  by simp



lemma openComment_close: "\<not> openComment (CHR ''*'' # CHR ''/'' # zs)"
  by simp











subsection \<open>Bracket identifiers\<close>

lemma bracket_ident_at:
  assumes "pos l + 1 < length (input l)" "input l ! pos l = CHR ''[''"
    "isIdentStart (input l ! (pos l + 1)) \<or> input l ! (pos l + 1) = CHR ''#'' \<or>
     input l ! (pos l + 1) = CHR ''@''"
  shows "closedOutcome (CHR '']'') (l\<lparr>start := pos l, pos := pos l + 1\<rparr>) (scan l)"
proof -
  let ?l1 = "l\<lparr>start := pos l\<rparr>"
  have "scan l = scanToken (CHR ''['') ?l1" using assms by (simp add: scan_at)
  also have "\<dots> = scanClosedLoop (CHR '']'') (bump 1 ?l1)"
    using assms by (simp add: scanToken_def scanBracketOrLBracket_def scanBracketIdentifier_def Let_def)
  finally have "scan l = scanClosedLoop (CHR '']'') (bump 1 ?l1)" .
  moreover have "closedOutcome (CHR '']'') (bump 1 ?l1) (scanClosedLoop (CHR '']'') (bump 1 ?l1))"
    using assms by (intro scanClosedLoop_outcome) (simp_all add: bump_def)
  ultimately show ?thesis by (simp add: bump_def)
qed

lemma lbracket_at:
  assumes "pos l < length (input l)" "input l ! pos l = CHR ''[''"
    "\<not> (pos l + 1 < length (input l) \<and>
        (isIdentStart (input l ! (pos l + 1)) \<or> input l ! (pos l + 1) = CHR ''#'' \<or>
         input l ! (pos l + 1) = CHR ''@''))"
  shows "scan l = Some (makeItem (l\<lparr>start := pos l\<rparr>) token_LBRACKET ''['',
                        l\<lparr>start := pos l, pos := pos l + 1\<rparr>)"
proof -
  let ?l1 = "l\<lparr>start := pos l\<rparr>"
  have "scan l = scanToken (CHR ''['') ?l1" using assms by (simp add: scan_at)
  also have "\<dots> = Some (makeItem (bump 1 ?l1) token_LBRACKET ''['', bump 1 ?l1)"
    using assms(3) by (auto simp: scanToken_def scanBracketOrLBracket_def Let_def)
  finally show ?thesis by (simp add: bump_def makeItem_def)
qed

text \<open>
  Claim C6 as stated fails: \<^verbatim>\<open>[\<close> followed by the letter \<^verbatim>\<open>a\<close> and the end of the input is
  scanned as a bracket identifier, but the token is \<^verbatim>\<open>ILLEGAL\<close> with the text \<^verbatim>\<open>[a\<close>, not
  \<^verbatim>\<open>IDENT\<close>.
\<close>

theorem bracket_unterminated:
  "isIdentStart (CHR ''a'') \<and>
   map_option fst (Next (New ''[a'')) =
     Some \<lparr>Type = token_ILLEGAL, Value = ''[a'', Pos = \<lparr>Offset = 0, Line = 1, Column = 1\<rparr>\<rparr>"
  by (simp add: lexer_eval)

text \<open>
  Claim C6, amended. At a \<^verbatim>\<open>[\<close>: when the next byte is an ASCII letter, an underscore,
  \<^verbatim>\<open>#\<close> or \<^verbatim>\<open>@\<close>, the lexer scans a bracket identifier. If a \<^verbatim>\<open>]\<close> that is not one of a
  pair \<^verbatim>\<open>]]\<close> closes it, the token is \<^verbatim>\<open>IDENT\<close> and its text is the bytes between the
  brackets as they stand in the input (a pair \<^verbatim>\<open>]]\<close> stays a pair); otherwise the token is
  \<^verbatim>\<open>ILLEGAL\<close> with the text from the \<^verbatim>\<open>[\<close> to the end of the input. In every other case
  (also at the end of the input) the token is \<^verbatim>\<open>LBRACKET\<close> with the text \<^verbatim>\<open>[\<close>, one byte
  long.
\<close>

theorem bracket_disambiguation:
  "\<not> peeked l \<and> pos l < length (input l) \<and> input l ! pos l = CHR ''['' \<longrightarrow>
   (if pos l + 1 < length (input l) \<and>
       (isIdentStart (input l ! (pos l + 1)) \<or> input l ! (pos l + 1) = CHR ''#'' \<or>
        input l ! (pos l + 1) = CHR ''@'')
    then \<exists>it l'. Next l = Some (it, l') \<and>
           (Type it = token_IDENT \<and> pos l + 1 < pos l' \<and> pos l' \<le> length (input l) \<and>
              input l ! (pos l' - 1) = CHR '']'' \<and>
              (pos l' < length (input l) \<longrightarrow> input l ! pos l' \<noteq> CHR '']'') \<and>
              Value it = take (pos l' - pos l - 2) (drop (pos l + 1) (input l)) \<and>
              escapedBody (CHR '']'') (Value it) \<or>
            Type it = token_ILLEGAL \<and> Value it = drop (pos l) (input l) \<and>
              pos l' = length (input l) \<and> escapedBody (CHR '']'') (drop (pos l + 1) (input l)))
    else \<exists>l'. Next l =
           Some (\<lparr>Type = token_LBRACKET, Value = ''['',
                  Pos = \<lparr>Offset = pos l, Line = line l,
                         Column = int (pos l) - int (linePos l) + 1\<rparr>\<rparr>, l') \<and>
           pos l' = pos l + 1)"
proof (intro impI, elim conjE)
  assume np: "\<not> peeked l" and p: "pos l < length (input l)" and b: "input l ! pos l = CHR ''[''"
  show "if pos l + 1 < length (input l) \<and>
       (isIdentStart (input l ! (pos l + 1)) \<or> input l ! (pos l + 1) = CHR ''#'' \<or>
        input l ! (pos l + 1) = CHR ''@'')
    then \<exists>it l'. Next l = Some (it, l') \<and>
           (Type it = token_IDENT \<and> pos l + 1 < pos l' \<and> pos l' \<le> length (input l) \<and>
              input l ! (pos l' - 1) = CHR '']'' \<and>
              (pos l' < length (input l) \<longrightarrow> input l ! pos l' \<noteq> CHR '']'') \<and>
              Value it = take (pos l' - pos l - 2) (drop (pos l + 1) (input l)) \<and>
              escapedBody (CHR '']'') (Value it) \<or>
            Type it = token_ILLEGAL \<and> Value it = drop (pos l) (input l) \<and>
              pos l' = length (input l) \<and> escapedBody (CHR '']'') (drop (pos l + 1) (input l)))
    else \<exists>l'. Next l =
           Some (\<lparr>Type = token_LBRACKET, Value = ''['',
                  Pos = \<lparr>Offset = pos l, Line = line l,
                         Column = int (pos l) - int (linePos l) + 1\<rparr>\<rparr>, l') \<and>
           pos l' = pos l + 1"
  proof (cases "pos l + 1 < length (input l) \<and>
       (isIdentStart (input l ! (pos l + 1)) \<or> input l ! (pos l + 1) = CHR ''#'' \<or>
        input l ! (pos l + 1) = CHR ''@'')")
    case True
    then have "closedOutcome (CHR '']'') (l\<lparr>start := pos l, pos := pos l + 1\<rparr>) (scan l)"
      using b by (intro bracket_ident_at) simp_all
    then obtain it l' where sc: "scan l = Some (it, l')" and
      alt: "Type it = token_IDENT \<and> pos l + 1 < pos l' \<and> pos l' \<le> length (input l) \<and>
              input l ! (pos l' - 1) = CHR '']'' \<and>
              (pos l' < length (input l) \<longrightarrow> input l ! pos l' \<noteq> CHR '']'') \<and>
              escapedBody (CHR '']'') (take (pos l' - 1 - (pos l + 1)) (drop (pos l + 1) (input l))) \<and>
              Value it = take (pos l' - 1 - (pos l + 1)) (drop (pos l + 1) (input l)) \<or>
            Type it = token_ILLEGAL \<and> Value it = drop (pos l) (input l) \<and>
              pos l' = length (input l) \<and> escapedBody (CHR '']'') (drop (pos l + 1) (input l))"
      by (auto simp: closedOutcome_def)
    have "pos l' - 1 - (pos l + 1) = pos l' - pos l - 2" by simp
    with alt have "Type it = token_IDENT \<and> pos l + 1 < pos l' \<and> pos l' \<le> length (input l) \<and>
              input l ! (pos l' - 1) = CHR '']'' \<and>
              (pos l' < length (input l) \<longrightarrow> input l ! pos l' \<noteq> CHR '']'') \<and>
              Value it = take (pos l' - pos l - 2) (drop (pos l + 1) (input l)) \<and>
              escapedBody (CHR '']'') (Value it) \<or>
            Type it = token_ILLEGAL \<and> Value it = drop (pos l) (input l) \<and>
              pos l' = length (input l) \<and> escapedBody (CHR '']'') (drop (pos l + 1) (input l))"
      by auto
    then show ?thesis using True Next_scan [OF np sc] by auto
  next
    case False
    from lbracket_at [OF p b False] np False show ?thesis
      by (simp add: Next_def makeItem_def)
  qed
qed


theorem bracket_disambiguation_witness:
  "(\<not> peeked (New ''[a]'') \<and> pos (New ''[a]'') < length (input (New ''[a]'')) \<and> input (New ''[a]'') ! pos (New ''[a]'') = CHR ''['') \<and>
   (pos (New ''[a]'') + 1 < length (input (New ''[a]'')) \<and> (isIdentStart (input (New ''[a]'') ! (pos (New ''[a]'') + 1)) \<or> input (New ''[a]'') ! (pos (New ''[a]'') + 1) = CHR ''#'' \<or> input (New ''[a]'') ! (pos (New ''[a]'') + 1) = CHR ''@'')) \<and>
   (\<exists>it l'. Next (New ''[a]'') = Some (it, l') \<and>
           (Type it = token_IDENT \<and> pos (New ''[a]'') + 1 < pos l' \<and> pos l' \<le> length (input (New ''[a]'')) \<and>
              input (New ''[a]'') ! (pos l' - 1) = CHR '']'' \<and>
              (pos l' < length (input (New ''[a]'')) \<longrightarrow> input (New ''[a]'') ! pos l' \<noteq> CHR '']'') \<and>
              Value it = take (pos l' - pos (New ''[a]'') - 2) (drop (pos (New ''[a]'') + 1) (input (New ''[a]''))) \<and>
              escapedBody (CHR '']'') (Value it) \<or>
            Type it = token_ILLEGAL \<and> Value it = drop (pos (New ''[a]'')) (input (New ''[a]'')) \<and>
              pos l' = length (input (New ''[a]'')) \<and> escapedBody (CHR '']'') (drop (pos (New ''[a]'') + 1) (input (New ''[a]''))))) \<and>
   (\<not> peeked (New ''[ a'') \<and> pos (New ''[ a'') < length (input (New ''[ a'')) \<and> input (New ''[ a'') ! pos (New ''[ a'') = CHR ''['') \<and>
   \<not> (pos (New ''[ a'') + 1 < length (input (New ''[ a'')) \<and> (isIdentStart (input (New ''[ a'') ! (pos (New ''[ a'') + 1)) \<or> input (New ''[ a'') ! (pos (New ''[ a'') + 1) = CHR ''#'' \<or> input (New ''[ a'') ! (pos (New ''[ a'') + 1) = CHR ''@'')) \<and>
   (\<exists>l'. Next (New ''[ a'') =
           Some (\<lparr>Type = token_LBRACKET, Value = ''['',
                  Pos = \<lparr>Offset = pos (New ''[ a''), Line = line (New ''[ a''),
                         Column = int (pos (New ''[ a'')) - int (linePos (New ''[ a'')) + 1\<rparr>\<rparr>, l') \<and>
           pos l' = pos (New ''[ a'') + 1)"
proof -
  have h1: "\<not> peeked (New ''[a]'') \<and> pos (New ''[a]'') < length (input (New ''[a]'')) \<and> input (New ''[a]'') ! pos (New ''[a]'') = CHR ''[''" by (simp add: New_def)
  have c1: "pos (New ''[a]'') + 1 < length (input (New ''[a]'')) \<and> (isIdentStart (input (New ''[a]'') ! (pos (New ''[a]'') + 1)) \<or> input (New ''[a]'') ! (pos (New ''[a]'') + 1) = CHR ''#'' \<or> input (New ''[a]'') ! (pos (New ''[a]'') + 1) = CHR ''@'')" by (simp add: New_def isIdentStart_def)
  have h2: "\<not> peeked (New ''[ a'') \<and> pos (New ''[ a'') < length (input (New ''[ a'')) \<and> input (New ''[ a'') ! pos (New ''[ a'') = CHR ''[''" by (simp add: New_def)
  have c2: "\<not> (pos (New ''[ a'') + 1 < length (input (New ''[ a'')) \<and> (isIdentStart (input (New ''[ a'') ! (pos (New ''[ a'') + 1)) \<or> input (New ''[ a'') ! (pos (New ''[ a'') + 1) = CHR ''#'' \<or> input (New ''[ a'') ! (pos (New ''[ a'') + 1) = CHR ''@''))" by (simp add: New_def isIdentStart_def)
  note t1 = bracket_disambiguation [of "New ''[a]''", rule_format, OF h1, unfolded if_P [OF c1]]
  note t2 = bracket_disambiguation [of "New ''[ a''", rule_format, OF h2, unfolded if_not_P [OF c2]]
  show ?thesis
    by (intro conjI h1 c1 t1 h2 c2 t2)
qed


section \<open>Properties of the parser\<close>

subsection \<open>Running the parser on an input\<close>

text \<open>
  A loop or a call with a numeral for fuel unfolds once; the congruence rules make the
  simplifier run a sequence of steps from its first step on, and a loop from its state on.
\<close>

lemma loop_numeral:
  "loop (numeral k) body s =
     (case body s of None \<Rightarrow> None | Some (Leave r) \<Rightarrow> Some r
      | Some (Continue s') \<Rightarrow> loop (pred_numeral k) body s')"
  by (simp add: numeral_eq_Suc)

lemma run_numeral:
  "run (numeral k) c p = step \<lparr>fuel = pred_numeral k, rec = run (pred_numeral k)\<rparr> c p"
  by (simp add: numeral_eq_Suc)

lemma bind_weak_cong: "m = m' \<Longrightarrow> Option.bind m f = Option.bind m' f"
  by simp

lemma loop_weak_cong: "n = n' \<Longrightarrow> s = s' \<Longrightarrow> loop n body s = loop n' body s'"
  by simp

lemmas core_eval = loop_numeral run_numeral envOf_def NewParser_def advance_def curIs_def
  curIsIdent_def curIdentValue_def peek_def peekIs_def errorf_def expect_def skipComments_def
  advanceIf_def

lemma fuel_3: "3 \<le> n \<Longrightarrow> \<exists>m. n = Suc (Suc (Suc m))"
  by (metis add_2_eq_Suc' le_Suc_ex numeral_3_eq_3 add_Suc_right add_Suc)

lemmas parser_eval = precedence_def isBinaryOp_def parseExpr_def parseLiteral_def parseParam_def
  parseExprList_def parseOrderBy_def parseFrameBound_def parseWindowFrame_def
  parseWindowSpec_def parseFuncCall_def parseIdentifierOrFunc_def parseParenOrSubquery_def
  parseNotExpr_def parseUnaryMinus_def parseUnaryBitnot_def parseExistsExpr_def
  parseCaseExpr_def emptyDataType_def parseDataType_def parseCastExpr_def
  parsePostgresCast_def parseIntervalExpr_def parseExtractExpr_def parseTrimExpr_def
  parseSubstringExpr_def parsePositionExpr_def parseArrayExpr_def parseSubscript_def
  parseIsExpr_def parseInExpr_def parseBetweenExpr_def parseLikeExpr_def parseSimilarExpr_def
  parseCollateExpr_def node_def pointer_def parsePrimaryExpr_def special_def typed_def
  exprLoop_def parseExprPrec_def isClauseKeyword_def parseSelectExpr_def parseSelectExprs_def
  nameList_def parseSelectInto_def parseColumnNameList_def parseTableName_def
  parseValuesClause_def parseIndexHint_def parseTablePrimary_def checkJoinKeyword_def
  consumeJoinKeywords_def parseTableExpr_def parseLimit_def parseLockClause_def
  parseWindowDefs_def isSetOpToken_def parseSetOp_def isSelectHint_def parseSelect_def
  parseUpdateExprs_def parseOnConflict_def parseValuesList_def insertSetLoop_def
  parseInsertSource_def parseInsert_def parseCTE_def parseWithClause_def parseWith_def
  parseParenthesizedStatement_def parseStatement_def step_def callStatement_def callSelect_def
  callWith_def callTableExpr_def callExprPrec_def Parse_def ParseAll_def ParseSQL_def
  ParseAllSQL_def exprOf_def stmtOfSelect_def stmtOfInsert_def IsKeyword_def ToUpper_def
  isASCII_def upperByte_def hasPrefix_def char_of_def bit_Suc_0_iff

subsection \<open>Running the formatter on a tree\<close>

lemma Format_numeral: "Format (numeral k) nd f = formatNode (Format (pred_numeral k)) nd f"
  by (simp add: numeral_eq_Suc)

lemmas format_eval = Format_numeral String_def formatNode_def formatStatement_def formatSetOp_def
  formatInsert_def formatUpdateExprs_def colName_def formatSelect_def formatWith_def
  formatWithClause_def formatSelectExpr_def formatTableExpr_def formatExpr_def
  formatJoinExpr_def formatAlias_def formatValuesStmt_def formatRows_def formatArrayExpr_def
  formatSubstringExpr_def formatTrimExpr_def formatExtractExpr_def formatIntervalExpr_def
  formatExistsExpr_def formatSubquery_def formatIsExpr_def formatLikeExpr_def
  formatBetweenExpr_def formatInExpr_def formatNot_def formatParam_def formatLiteral_def
  formatStringLiteral_def replaceByte_def formatParts_def formatCastExpr_def formatCaseExpr_def
  formatFuncExpr_def formatWindowSpec_def formatWindowFrame_def formatFrameBound_def
  formatOrderByItem_def formatUnaryExpr_def formatBinaryExpr_def formatDataType_def
  tokenToString_def itoa_def digits.simps identWriter_def formatList_def writeKeyword_def
  writeStr_def writeIdent_def writeFuncName_def needsQuoting_def needsQuotingNonKeyword_def
  doubleQuotes_def NewFormatter_def DefaultOptions_def ToUpper_def ToLower_def isASCII_def
  upperByte_def lowerByte_def IsKeywordIdent_def char_of_def bit_Suc_0_iff

lemma fuel_12:
  "12 \<le> n \<Longrightarrow>
   \<exists>m. n = Suc (Suc (Suc (Suc (Suc (Suc (Suc (Suc (Suc (Suc (Suc (Suc m)))))))))))"
proof -
  assume "12 \<le> n"
  then obtain m where "n = 12 + m" using le_Suc_ex by blast
  then have "n = Suc (Suc (Suc (Suc (Suc (Suc (Suc (Suc (Suc (Suc (Suc (Suc m)))))))))))"
    by simp
  then show ?thesis by blast
qed

subsection \<open>Words of the inputs\<close>

text \<open>The kinds that \<^verbatim>\<open>LookupIdent\<close> gives the words of the inputs below.\<close>

lemma kw_insert: "LookupIdent ''insert'' = token_INSERT"
proof -
  have "map_of keywordsMap ''insert'' = Some token_INSERT"
    by (simp only: kw_eval cong: if_weak_cong)
  then show ?thesis
    by (simp add: LookupIdent_def lookupKeyword_def isLowercase_def lowerByte_def char_of_def
        bit_Suc_0_iff)
qed

lemma kw_into: "LookupIdent ''into'' = token_INTO"
proof -
  have "map_of keywordsMap ''into'' = Some token_INTO"
    by (simp only: kw_eval cong: if_weak_cong)
  then show ?thesis
    by (simp add: LookupIdent_def lookupKeyword_def isLowercase_def lowerByte_def char_of_def
        bit_Suc_0_iff)
qed

lemma kw_t: "LookupIdent ''t'' = token_IDENT"
proof -
  have "map_of keywordsMap ''t'' = None"
    by (simp only: kw_eval cong: if_weak_cong)
  then show ?thesis
    by (simp add: LookupIdent_def lookupKeyword_def isLowercase_def lowerByte_def char_of_def
        bit_Suc_0_iff)
qed

lemma kw_values: "LookupIdent ''values'' = token_VALUES"
proof -
  have "map_of keywordsMap ''values'' = Some token_VALUES"
    by (simp only: kw_eval cong: if_weak_cong)
  then show ?thesis
    by (simp add: LookupIdent_def lookupKeyword_def isLowercase_def lowerByte_def char_of_def
        bit_Suc_0_iff)
qed

lemma kw_default: "LookupIdent ''default'' = token_DEFAULT"
proof -
  have "map_of keywordsMap ''default'' = Some token_DEFAULT"
    by (simp only: kw_eval cong: if_weak_cong)
  then show ?thesis
    by (simp add: LookupIdent_def lookupKeyword_def isLowercase_def lowerByte_def char_of_def
        bit_Suc_0_iff)
qed

lemma kw_union: "LookupIdent ''union'' = token_UNION"
proof -
  have "map_of keywordsMap ''union'' = Some token_UNION"
    by (simp only: kw_eval cong: if_weak_cong)
  then show ?thesis
    by (simp add: LookupIdent_def lookupKeyword_def isLowercase_def lowerByte_def char_of_def
        bit_Suc_0_iff)
qed

lemma kw_a: "LookupIdent ''a'' = token_IDENT"
proof -
  have "map_of keywordsMap ''a'' = None"
    by (simp only: kw_eval cong: if_weak_cong)
  then show ?thesis
    by (simp add: LookupIdent_def lookupKeyword_def isLowercase_def lowerByte_def char_of_def
        bit_Suc_0_iff)
qed






lemma kw_row_number: "LookupIdent ''row_number'' = token_IDENT"
proof -
  have "map_of keywordsMap ''row_number'' = None"
    by (simp only: kw_eval cong: if_weak_cong)
  then show ?thesis
    by (simp add: LookupIdent_def lookupKeyword_def isLowercase_def lowerByte_def char_of_def
        bit_Suc_0_iff)
qed

lemma kw_over: "LookupIdent ''over'' = token_OVER"
proof -
  have "map_of keywordsMap ''over'' = Some token_OVER"
    by (simp only: kw_eval cong: if_weak_cong)
  then show ?thesis
    by (simp add: LookupIdent_def lookupKeyword_def isLowercase_def lowerByte_def char_of_def
        bit_Suc_0_iff)
qed

lemma kw_partition: "LookupIdent ''partition'' = token_PARTITION"
proof -
  have "map_of keywordsMap ''partition'' = Some token_PARTITION"
    by (simp only: kw_eval cong: if_weak_cong)
  then show ?thesis
    by (simp add: LookupIdent_def lookupKeyword_def isLowercase_def lowerByte_def char_of_def
        bit_Suc_0_iff)
qed

lemma kw_by: "LookupIdent ''by'' = token_BY"
proof -
  have "map_of keywordsMap ''by'' = Some token_BY"
    by (simp only: kw_eval cong: if_weak_cong)
  then show ?thesis
    by (simp add: LookupIdent_def lookupKeyword_def isLowercase_def lowerByte_def char_of_def
        bit_Suc_0_iff)
qed

lemma kw_order: "LookupIdent ''order'' = token_ORDER"
proof -
  have "map_of keywordsMap ''order'' = Some token_ORDER"
    by (simp only: kw_eval cong: if_weak_cong)
  then show ?thesis
    by (simp add: LookupIdent_def lookupKeyword_def isLowercase_def lowerByte_def char_of_def
        bit_Suc_0_iff)
qed

lemma kw_b: "LookupIdent ''b'' = token_IDENT"
proof -
  have "map_of keywordsMap ''b'' = None"
    by (simp only: kw_eval cong: if_weak_cong)
  then show ?thesis
    by (simp add: LookupIdent_def lookupKeyword_def isLowercase_def lowerByte_def char_of_def
        bit_Suc_0_iff)
qed

lemma kw_from: "LookupIdent ''from'' = token_FROM"
proof -
  have "map_of keywordsMap ''from'' = Some token_FROM"
    by (simp only: kw_eval cong: if_weak_cong)
  then show ?thesis
    by (simp add: LookupIdent_def lookupKeyword_def isLowercase_def lowerByte_def char_of_def
        bit_Suc_0_iff)
qed

lemma kw_collate: "LookupIdent ''collate'' = token_COLLATE"
proof -
  have "map_of keywordsMap ''collate'' = Some token_COLLATE"
    by (simp only: kw_eval cong: if_weak_cong)
  then show ?thesis
    by (simp add: LookupIdent_def lookupKeyword_def isLowercase_def lowerByte_def char_of_def
        bit_Suc_0_iff)
qed

lemma kw_c: "LookupIdent ''c'' = token_IDENT"
proof -
  have "map_of keywordsMap ''c'' = None"
    by (simp only: kw_eval cong: if_weak_cong)
  then show ?thesis
    by (simp add: LookupIdent_def lookupKeyword_def isLowercase_def lowerByte_def char_of_def
        bit_Suc_0_iff)
qed

lemma kw_upper_select: "LookupIdent ''SELECT'' = token_SELECT"
proof -
  have "map_of keywordsMap ''select'' = Some token_SELECT"
    by (simp only: kw_eval cong: if_weak_cong)
  then show ?thesis
    by (simp add: LookupIdent_def lookupKeyword_def isLowercase_def lowerByte_def char_of_def
        bit_Suc_0_iff)
qed

lemma kw_upper_collate: "LookupIdent ''COLLATE'' = token_COLLATE"
proof -
  have "map_of keywordsMap ''collate'' = Some token_COLLATE"
    by (simp only: kw_eval cong: if_weak_cong)
  then show ?thesis
    by (simp add: LookupIdent_def lookupKeyword_def isLowercase_def lowerByte_def char_of_def
        bit_Suc_0_iff)
qed


subsection \<open>Semicolons only\<close>

text \<open>
  On \<^verbatim>\<open>;;;\<close> the first semicolon is not the start of a statement: \<^verbatim>\<open>parseStatement\<close> records
  an error at it and skips it, and \<^verbatim>\<open>ParseAll\<close> returns that error with its list. The claim
  that there is no error fails.
\<close>

theorem parse_all_semicolons_error: "ParseAllSQL 3 '';;;'' \<noteq> Some ([], None)"
  by (simp add: ParseAllSQL_def ParseAll_def parseStatement_def core_eval lexer_eval
      cong: bind_weak_cong loop_weak_cong)

text \<open>
  Claim C4, amended. For the input \<^verbatim>\<open>;;;\<close>, \<^verbatim>\<open>ParseAll\<close> returns the empty statement list
  together with the error \<^verbatim>\<open>unexpected token ; at start of statement\<close> at line 1, column 1,
  with any fuel of at least 3.
\<close>

theorem parse_all_semicolons:
  "3 \<le> n \<Longrightarrow>
   ParseAllSQL n '';;;'' =
     Some ([], Some \<lparr>ErrPos = \<lparr>Offset = 0, Line = 1, Column = 1\<rparr>,
                     Message = (''unexpected token %v at start of statement'',
                                [token_SEMICOLON])\<rparr>)"
proof -
  assume "3 \<le> n"
  then obtain m where n: "n = Suc (Suc (Suc m))" using fuel_3 by blast
  show ?thesis unfolding n
    by (simp add: ParseAllSQL_def ParseAll_def parseStatement_def core_eval lexer_eval
        cong: bind_weak_cong loop_weak_cong)
qed

theorem parse_all_semicolons_witness:
  "ParseAllSQL 5 '';;;'' =
     Some ([], Some \<lparr>ErrPos = \<lparr>Offset = 0, Line = 1, Column = 1\<rparr>,
                     Message = (''unexpected token %v at start of statement'',
                                [token_SEMICOLON])\<rparr>)"
  using parse_all_semicolons [of 5] by simp

subsection \<open>The source of an \<^verbatim>\<open>INSERT\<close>\<close>

lemma loop_leave:
  "loop n body s = Some r \<Longrightarrow> (\<And>s r. body s = Some (Leave r) \<Longrightarrow> Q r) \<Longrightarrow> Q r"
proof (induction n arbitrary: s)
  case 0
  then show ?case by simp
next
  case (Suc n)
  show ?case
  proof (cases "body s")
    case None
    with Suc.prems(1) show ?thesis by simp
  next
    case (Some f)
    show ?thesis
    proof (cases f)
      case (Continue s')
      with Some Suc.prems(1) have "loop n body s' = Some r" by simp
      then show ?thesis using Suc.prems(2) by (rule Suc.IH)
    next
      case (Leave r')
      with Some Suc.prems(1) have "r' = r" by simp
      with Some Leave Suc.prems(2) show ?thesis by blast
    qed
  qed
qed

lemma insertSetLoop_leave:
  "insertSetLoop env s = Some (Leave (Some (c, rows, sel), p')) \<Longrightarrow> sel = None"
  by (auto simp: insertSetLoop_def Let_def
      split: if_splits prod.splits option.splits Option.bind_splits)

lemma insertSet_forms:
  assumes "loop n (insertSetLoop env) s = Some (Some (c, rows, sel), p')"
  shows "sel = None"
proof -
  have "case fst (Some (c, rows, sel), p') of None \<Rightarrow> True | Some (c, rows, sel) \<Rightarrow> sel = None"
    using assms
  proof (rule loop_leave)
    fix s r
    assume "insertSetLoop env s = Some (Leave r)"
    then show "case fst r of None \<Rightarrow> True | Some (c, rows, sel) \<Rightarrow> sel = None"
      using insertSetLoop_leave [of env s] by (cases r) (auto split: option.splits)
  qed
  then show ?thesis by simp
qed

lemma parseInsertSource_forms:
  assumes "parseInsertSource env cols p = Some (Some (c, rows, sel), p')"
  shows "rows = [] \<or> sel = None"
  using assms insertSet_forms
  by (auto simp: parseInsertSource_def Let_def
      split: if_splits prod.splits option.splits Option.bind_splits bool.splits)

lemma parseInsert_forms:
  assumes "parseInsert env p = Some (Some stmt, p')"
  shows "Values stmt = [] \<or> Select stmt = None"
  using assms
  by (auto simp: parseInsert_def Let_def
      split: if_splits prod.splits option.splits Option.bind_splits
      dest: parseInsertSource_forms)

lemma setInsWith_forms:
  "Values (setInsWith w s) = Values s \<and> Select (setInsWith w s) = Select s"
  by (cases s) simp

lemma parseWith_forms:
  assumes "parseWith env p = Some (Some (InsertS stmt), p')"
  shows "Values stmt = [] \<or> Select stmt = None"
  using assms
  by (auto simp: parseWith_def stmtOfSelect_def stmtOfInsert_def setInsWith_forms
      split: if_splits prod.splits option.splits Option.bind_splits
      dest: parseInsert_forms)

lemma asSelectStmt_insert: "asSelectStmt (Some (InsertS s)) = (None, False)"
  by simp

lemma parseParenthesizedStatement_forms:
  assumes "parseParenthesizedStatement env p = Some (Some (InsertS stmt), p')"
    and "\<And>p s p'. callStatement env p = Some (Some (InsertS s), p') \<Longrightarrow>
           Values s = [] \<or> Select s = None"
  shows "Values stmt = [] \<or> Select stmt = None"
  using assms
  by (auto simp: parseParenthesizedStatement_def stmtOfSelect_def
      split: if_splits prod.splits option.splits Option.bind_splits bool.splits)

lemma parseStatement_forms:
  assumes "parseStatement env p = Some (Some (InsertS stmt), p')"
    and "\<And>p s p'. callStatement env p = Some (Some (InsertS s), p') \<Longrightarrow>
           Values s = [] \<or> Select s = None"
  shows "Values stmt = [] \<or> Select stmt = None"
proof -
  let ?t = "Type (cur p)"
  consider (sel) "?t = token_SELECT"
    | (ins) "?t \<noteq> token_SELECT" "?t = token_INSERT \<or> ?t = token_REPLACE"
    | (wth) "?t \<noteq> token_SELECT" "\<not> (?t = token_INSERT \<or> ?t = token_REPLACE)" "?t = token_WITH"
    | (par) "?t \<noteq> token_SELECT" "\<not> (?t = token_INSERT \<or> ?t = token_REPLACE)" "?t \<noteq> token_WITH"
        "?t = token_LPAREN"
    | (oth) "?t \<noteq> token_SELECT" "\<not> (?t = token_INSERT \<or> ?t = token_REPLACE)" "?t \<noteq> token_WITH"
        "?t \<noteq> token_LPAREN"
    by blast
  then show ?thesis
  proof cases
    case sel
    with assms(1) show ?thesis
      by (auto simp: parseStatement_def Let_def stmtOfSelect_def split: option.splits Option.bind_splits)
  next
    case ins
    with assms(1) have "parseInsert env p = Some (Some stmt, p')"
      by (auto simp: parseStatement_def Let_def stmtOfInsert_def split: option.splits Option.bind_splits)
    then show ?thesis by (rule parseInsert_forms)
  next
    case wth
    with assms(1) have "parseWith env p = Some (Some (InsertS stmt), p')"
      by (simp add: parseStatement_def Let_def split: if_splits)
    then show ?thesis by (rule parseWith_forms)
  next
    case par
    with assms(1) have "parseParenthesizedStatement env p = Some (Some (InsertS stmt), p')"
      by (simp add: parseStatement_def Let_def split: if_splits)
    then show ?thesis using assms(2) by (rule parseParenthesizedStatement_forms)
  next
    case oth
    with assms(1) show ?thesis
      by (auto simp: parseStatement_def Let_def split: if_splits Option.bind_splits)
  qed
qed

lemma run_forms:
  "run n CStatement p = Some (RStatement (Some (InsertS stmt)), p') \<Longrightarrow>
   Values stmt = [] \<or> Select stmt = None"
proof (induction n arbitrary: p stmt p')
  case 0
  then show ?case by simp
next
  case (Suc n)
  let ?env = "\<lparr>fuel = n, rec = run n\<rparr>"
  from Suc.prems have "parseStatement ?env p = Some (Some (InsertS stmt), p')"
    by (auto simp: step_def split: Option.bind_splits)
  then show ?case
  proof (rule parseStatement_forms)
    fix q s q'
    assume "callStatement ?env q = Some (Some (InsertS s), q')"
    then have "run n CStatement q = Some (RStatement (Some (InsertS s)), q')"
      by (auto simp: callStatement_def split: option.splits res.splits prod.splits)
    then show "Values s = [] \<or> Select s = None" by (rule Suc.IH)
  qed
qed

lemma Parse_forms:
  assumes "Parse n p = Some (Some (InsertS stmt), err)"
  shows "Values stmt = [] \<or> Select stmt = None"
proof -
  from assms obtain q q' where "parseStatement (envOf n) q = Some (Some (InsertS stmt), q')"
    by (auto simp: Parse_def split: if_splits Option.bind_splits)
  then show ?thesis
  proof (rule parseStatement_forms)
    fix q s q'
    assume "callStatement (envOf n) q = Some (Some (InsertS s), q')"
    then have "run n CStatement q = Some (RStatement (Some (InsertS s)), q')"
      by (auto simp: callStatement_def envOf_def split: option.splits res.splits prod.splits)
    then show "Values s = [] \<or> Select s = None" by (rule run_forms)
  qed
qed

text \<open>
  An \<^verbatim>\<open>INSERT\<close> without a source clause parses without error, and its statement has
  neither \<^verbatim>\<open>Values\<close> nor \<^verbatim>\<open>Select\<close>: the claim that one of the source forms is always set
  fails.
\<close>

theorem insert_without_source:
  "ParseSQL 20 ''insert into t'' =
     Some (Some (InsertS (InsertStmt None False False (Some [''t'']) [] [] None [] None [])), None)"
  by (simp add: parser_eval core_eval lexer_eval kw_insert kw_into kw_t
      cong: bind_weak_cong loop_weak_cong)

text \<open>
  Claim C3, amended. An \<^verbatim>\<open>InsertStmt\<close> never has both \<^verbatim>\<open>Values\<close> and \<^verbatim>\<open>Select\<close> set: this
  holds of every statement that \<^verbatim>\<open>parseInsert\<close> returns, whatever the functions it calls
  return, and of every \<^verbatim>\<open>INSERT\<close> statement that \<^verbatim>\<open>Parse\<close> returns. There is no default-values
  flag: \<^verbatim>\<open>DEFAULT VALUES\<close> gives a \<^verbatim>\<open>Values\<close> list of one empty row. The parser never
  builds a \<^verbatim>\<open>Values\<close> slice that is empty and not \<^verbatim>\<open>nil\<close>, so the empty list stands for
  \<^verbatim>\<open>nil\<close>.
\<close>

theorem insert_source_forms:
  "(parseInsert env p = Some (Some stmt, p') \<longrightarrow> Values stmt = [] \<or> Select stmt = None) \<and>
   (ParseSQL n sql = Some (Some (InsertS stmt), err) \<longrightarrow> Values stmt = [] \<or> Select stmt = None) \<and>
   ParseSQL 20 ''insert into t default values'' =
     Some (Some (InsertS (InsertStmt None False False (Some [''t'']) [] [[]] None [] None [])),
           None)"
proof (intro conjI impI)
  assume "parseInsert env p = Some (Some stmt, p')"
  then show "Values stmt = [] \<or> Select stmt = None" by (rule parseInsert_forms)
next
  assume "ParseSQL n sql = Some (Some (InsertS stmt), err)"
  then obtain q where "Parse n q = Some (Some (InsertS stmt), err)"
    by (auto simp: ParseSQL_def split: Option.bind_splits)
  then show "Values stmt = [] \<or> Select stmt = None" by (rule Parse_forms)
next
  show "ParseSQL 20 ''insert into t default values'' =
     Some (Some (InsertS (InsertStmt None False False (Some [''t'']) [] [[]] None [] None [])),
           None)"
    by (simp add: parser_eval core_eval lexer_eval kw_insert kw_into kw_t kw_default kw_values
        cong: bind_weak_cong loop_weak_cong)
qed

theorem insert_source_forms_witness:
  "ParseSQL 20 ''insert into t values (1)'' =
     Some (Some (InsertS (InsertStmt None False False (Some [''t'']) []
                   [[Literal LiteralInt ''1'']] None [] None [])), None) \<and>
   (Values (InsertStmt None False False (Some [''t'']) [] [[Literal LiteralInt ''1'']] None []
       None []) = [] \<or>
    Select (InsertStmt None False False (Some [''t'']) [] [[Literal LiteralInt ''1'']] None []
       None [] :: (expr, selectStmt, statement) insertStmt) = None) \<and>
   (\<exists>p p'. NewParser ''insert into t select 1'' = Some p \<and>
      parseInsert (envOf 20) p =
        Some (Some (InsertStmt None False False (Some [''t'']) [] []
          (Some (SelectStmt None False [AliasedExpr (Some (Literal LiteralInt ''1'')) []]
                   None None [] None [] None [] None [])) [] None []), p') \<and>
      (Values (InsertStmt None False False (Some [''t'']) [] []
          (Some (SelectStmt None False [AliasedExpr (Some (Literal LiteralInt ''1'')) []]
                   None None [] None [] None [] None [])) [] None []
         :: (expr, selectStmt, statement) insertStmt) = [] \<or>
       Select (InsertStmt None False False (Some [''t'']) [] []
          (Some (SelectStmt None False [AliasedExpr (Some (Literal LiteralInt ''1'')) []]
                   None None [] None [] None [] None [])) [] None []
         :: (expr, selectStmt, statement) insertStmt) = None))"
proof -
  have e: "ParseSQL 20 ''insert into t values (1)'' =
     Some (Some (InsertS (InsertStmt None False False (Some [''t'']) []
                   [[Literal LiteralInt ''1'']] None [] None [])), None)"
    by (simp add: parser_eval core_eval lexer_eval kw_insert kw_into kw_t kw_values
        cong: bind_weak_cong loop_weak_cong)
  have "\<exists>p p'. NewParser ''insert into t select 1'' = Some p \<and>
      parseInsert (envOf 20) p =
        Some (Some (InsertStmt None False False (Some [''t'']) [] []
          (Some (SelectStmt None False [AliasedExpr (Some (Literal LiteralInt ''1'')) []]
                   None None [] None [] None [] None [])) [] None []), p')"
    by (simp add: parser_eval core_eval lexer_eval kw_select kw_insert kw_into kw_t
        cong: bind_weak_cong loop_weak_cong)
  then obtain p p' where
    n: "NewParser ''insert into t select 1'' = Some p" and
    s: "parseInsert (envOf 20) p =
        Some (Some (InsertStmt None False False (Some [''t'']) [] []
          (Some (SelectStmt None False [AliasedExpr (Some (Literal LiteralInt ''1'')) []]
                   None None [] None [] None [] None [])) [] None []), p')"
    by blast
  from insert_source_forms [THEN conjunct1, rule_format, OF s]
  have "Values (InsertStmt None False False (Some [''t'']) [] []
          (Some (SelectStmt None False [AliasedExpr (Some (Literal LiteralInt ''1'')) []]
                   None None [] None [] None [] None [])) [] None []
         :: (expr, selectStmt, statement) insertStmt) = [] \<or>
       Select (InsertStmt None False False (Some [''t'']) [] []
          (Some (SelectStmt None False [AliasedExpr (Some (Literal LiteralInt ''1'')) []]
                   None None [] None [] None [] None [])) [] None []
         :: (expr, selectStmt, statement) insertStmt) = None" .
  with n s have "\<exists>p p'. NewParser ''insert into t select 1'' = Some p \<and>
      parseInsert (envOf 20) p =
        Some (Some (InsertStmt None False False (Some [''t'']) [] []
          (Some (SelectStmt None False [AliasedExpr (Some (Literal LiteralInt ''1'')) []]
                   None None [] None [] None [] None [])) [] None []), p') \<and>
      (Values (InsertStmt None False False (Some [''t'']) [] []
          (Some (SelectStmt None False [AliasedExpr (Some (Literal LiteralInt ''1'')) []]
                   None None [] None [] None [] None [])) [] None []
         :: (expr, selectStmt, statement) insertStmt) = [] \<or>
       Select (InsertStmt None False False (Some [''t'']) [] []
          (Some (SelectStmt None False [AliasedExpr (Some (Literal LiteralInt ''1'')) []]
                   None None [] None [] None [] None [])) [] None []
         :: (expr, selectStmt, statement) insertStmt) = None)"
    by blast
  then show ?thesis
    using insert_source_forms [THEN conjunct2, THEN conjunct1, rule_format, OF e] e by simp
qed

subsection \<open>Set operations\<close>

lemma parseSetOp_left:
  assumes "parseSetOp env left p = Some (r, p')"
  shows "r = left"
proof -
  have "fst (r, p') = left"
    using assms unfolding parseSetOp_def
    by (rule loop_leave) (auto simp: Let_def split: if_splits prod.splits Option.bind_splits)
  then show ?thesis by simp
qed

lemma isSetOp_stmtOfSelect: "\<not> isSetOp (stmtOfSelect s)"
  by (cases s) (simp_all add: stmtOfSelect_def)

lemma isSetOp_stmtOfInsert: "\<not> isSetOp (stmtOfInsert s)"
  by (cases s) (simp_all add: stmtOfInsert_def)

lemma parseWith_noSetOp:
  assumes "parseWith env p = Some (Some st, p')"
  shows "\<not> isSetOp st"
  using assms
  by (auto simp: parseWith_def isSetOp_stmtOfSelect isSetOp_stmtOfInsert
      split: if_splits prod.splits Option.bind_splits)

lemma parseParenthesizedStatement_noSetOp:
  assumes "parseParenthesizedStatement env p = Some (Some st, p')"
    and "\<And>p s p'. callStatement env p = Some (Some s, p') \<Longrightarrow> \<not> isSetOp s"
  shows "\<not> isSetOp st"
  using assms
  by (auto simp: parseParenthesizedStatement_def isSetOp_stmtOfSelect
      split: if_splits prod.splits option.splits Option.bind_splits bool.splits)

lemma parseStatement_noSetOp:
  assumes "parseStatement env p = Some (Some st, p')"
    and "\<And>p s p'. callStatement env p = Some (Some s, p') \<Longrightarrow> \<not> isSetOp s"
  shows "\<not> isSetOp st"
proof -
  let ?t = "Type (cur p)"
  consider (sel) "?t = token_SELECT"
    | (ins) "?t \<noteq> token_SELECT" "?t = token_INSERT \<or> ?t = token_REPLACE"
    | (wth) "?t \<noteq> token_SELECT" "\<not> (?t = token_INSERT \<or> ?t = token_REPLACE)" "?t = token_WITH"
    | (par) "?t \<noteq> token_SELECT" "\<not> (?t = token_INSERT \<or> ?t = token_REPLACE)" "?t \<noteq> token_WITH"
        "?t = token_LPAREN"
    | (oth) "?t \<noteq> token_SELECT" "\<not> (?t = token_INSERT \<or> ?t = token_REPLACE)" "?t \<noteq> token_WITH"
        "?t \<noteq> token_LPAREN"
    by blast
  then show ?thesis
  proof cases
    case sel
    with assms(1) show ?thesis
      by (auto simp: parseStatement_def Let_def isSetOp_stmtOfSelect split: Option.bind_splits)
  next
    case ins
    with assms(1) show ?thesis
      by (auto simp: parseStatement_def Let_def isSetOp_stmtOfInsert split: Option.bind_splits)
  next
    case wth
    with assms(1) have "parseWith env p = Some (Some st, p')"
      by (simp add: parseStatement_def Let_def split: if_splits)
    then show ?thesis by (rule parseWith_noSetOp)
  next
    case par
    with assms(1) have "parseParenthesizedStatement env p = Some (Some st, p')"
      by (simp add: parseStatement_def Let_def split: if_splits)
    then show ?thesis using assms(2) by (rule parseParenthesizedStatement_noSetOp)
  next
    case oth
    with assms(1) show ?thesis
      by (auto simp: parseStatement_def Let_def split: if_splits Option.bind_splits)
  qed
qed

lemma run_noSetOp:
  "run n CStatement p = Some (RStatement (Some st), p') \<Longrightarrow> \<not> isSetOp st"
proof (induction n arbitrary: p st p')
  case 0
  then show ?case by simp
next
  case (Suc n)
  let ?env = "\<lparr>fuel = n, rec = run n\<rparr>"
  from Suc.prems have "parseStatement ?env p = Some (Some st, p')"
    by (auto simp: step_def split: Option.bind_splits)
  then show ?case
  proof (rule parseStatement_noSetOp)
    fix q s q'
    assume "callStatement ?env q = Some (Some s, q')"
    then have "run n CStatement q = Some (RStatement (Some s), q')"
      by (auto simp: callStatement_def split: option.splits res.splits prod.splits)
    then show "\<not> isSetOp s" by (rule Suc.IH)
  qed
qed

lemma Parse_noSetOp:
  assumes "Parse n p = Some (Some st, err)"
  shows "\<not> isSetOp st"
proof -
  from assms obtain q q' where "parseStatement (envOf n) q = Some (Some st, q')"
    by (auto simp: Parse_def split: if_splits Option.bind_splits)
  then show ?thesis
  proof (rule parseStatement_noSetOp)
    fix q s q'
    assume "callStatement (envOf n) q = Some (Some s, q')"
    then have "run n CStatement q = Some (RStatement (Some s), q')"
      by (auto simp: callStatement_def envOf_def split: option.splits res.splits prod.splits)
    then show "\<not> isSetOp s" by (rule run_noSetOp)
  qed
qed

text \<open>
  Claim C1 fails on the code. \<^verbatim>\<open>parseSetOp\<close> parses the operands on the right of \<^verbatim>\<open>UNION\<close>,
  \<^verbatim>\<open>INTERSECT\<close> and \<^verbatim>\<open>EXCEPT\<close> and returns its left operand as it got it; no statement that
  \<^verbatim>\<open>Parse\<close> returns is a \<^verbatim>\<open>SetOp\<close>. For \<^verbatim>\<open>select 1 union select 2 union select 3\<close> the result
  is the statement \<^verbatim>\<open>select 1\<close>, without error.
\<close>

theorem set_operations_dropped:
  "(parseSetOp env left p = Some (r, p') \<longrightarrow> r = left) \<and>
   (ParseSQL n sql = Some (Some st, err) \<longrightarrow> \<not> isSetOp st) \<and>
   ParseSQL 20 ''select 1 union select 2 union select 3'' =
     Some (Some (SelectS (SelectStmt None False [AliasedExpr (Some (Literal LiteralInt ''1'')) []]
                   None None [] None [] None [] None [])), None)"
proof (intro conjI impI)
  assume "parseSetOp env left p = Some (r, p')"
  then show "r = left" by (rule parseSetOp_left)
next
  assume "ParseSQL n sql = Some (Some st, err)"
  then obtain q where "Parse n q = Some (Some st, err)"
    by (auto simp: ParseSQL_def split: Option.bind_splits)
  then show "\<not> isSetOp st" by (rule Parse_noSetOp)
next
  show "ParseSQL 20 ''select 1 union select 2 union select 3'' =
     Some (Some (SelectS (SelectStmt None False [AliasedExpr (Some (Literal LiteralInt ''1'')) []]
                   None None [] None [] None [] None [])), None)"
    by (simp add: parser_eval core_eval lexer_eval kw_select kw_union
        cong: bind_weak_cong loop_weak_cong)
qed

theorem set_operations_dropped_witness:
  "ParseSQL 20 ''select 1 union select 2'' =
     Some (Some (SelectS (SelectStmt None False [AliasedExpr (Some (Literal LiteralInt ''1'')) []]
                   None None [] None [] None [] None [])), None) \<and>
   \<not> isSetOp (SelectS (SelectStmt None False [AliasedExpr (Some (Literal LiteralInt ''1'')) []]
                   None None [] None [] None [] None [])) \<and>
   (\<exists>p p'. NewParser ''union select 2'' = Some p \<and>
      parseSetOp (envOf 20)
        (Some (SelectStmt None False [AliasedExpr (Some (Literal LiteralInt ''1'')) []]
                 None None [] None [] None [] None [])) p =
      Some (Some (SelectStmt None False [AliasedExpr (Some (Literal LiteralInt ''1'')) []]
                    None None [] None [] None [] None []), p'))"
proof -
  have e: "ParseSQL 20 ''select 1 union select 2'' =
     Some (Some (SelectS (SelectStmt None False [AliasedExpr (Some (Literal LiteralInt ''1'')) []]
                   None None [] None [] None [] None [])), None)"
    by (simp add: parser_eval core_eval lexer_eval kw_select kw_union
        cong: bind_weak_cong loop_weak_cong)
  have "\<exists>p p' r. NewParser ''union select 2'' = Some p \<and>
      parseSetOp (envOf 20)
        (Some (SelectStmt None False [AliasedExpr (Some (Literal LiteralInt ''1'')) []]
                 None None [] None [] None [] None [])) p = Some (r, p')"
    by (simp add: parser_eval core_eval lexer_eval kw_select kw_union
        cong: bind_weak_cong loop_weak_cong)
  then obtain p p' r where
    n: "NewParser ''union select 2'' = Some p" and
    s: "parseSetOp (envOf 20)
        (Some (SelectStmt None False [AliasedExpr (Some (Literal LiteralInt ''1'')) []]
                 None None [] None [] None [] None [])) p = Some (r, p')"
    by blast
  from s have "r = Some (SelectStmt None False [AliasedExpr (Some (Literal LiteralInt ''1'')) []]
                 None None [] None [] None [] None [])"
    using set_operations_dropped [THEN conjunct1, rule_format] by blast
  with n s have "\<exists>p p'. NewParser ''union select 2'' = Some p \<and>
      parseSetOp (envOf 20)
        (Some (SelectStmt None False [AliasedExpr (Some (Literal LiteralInt ''1'')) []]
                 None None [] None [] None [] None [])) p =
      Some (Some (SelectStmt None False [AliasedExpr (Some (Literal LiteralInt ''1'')) []]
                    None None [] None [] None [] None []), p')"
    by blast
  then show ?thesis
    using set_operations_dropped [THEN conjunct2, THEN conjunct1, rule_format, OF e] e by simp
qed

subsection \<open>The bounds of \<^verbatim>\<open>BETWEEN\<close>\<close>













































subsection \<open>A window function, parsed and formatted\<close>

text \<open>
  \<^verbatim>\<open>parseFuncCall\<close> stores the name of a function in upper case, and \<^verbatim>\<open>writeFuncName\<close> writes
  the stored name: the output has \<^verbatim>\<open>ROW_NUMBER\<close>, not the \<^verbatim>\<open>row_number\<close> of the input.
\<close>

theorem window_function_case:
  "ParseSQL 20 ''select row_number() over (partition by a order by b) from t'' =
     Some (Some (SelectS (SelectStmt None False
       [AliasedExpr (Some (FuncExpr ''ROW_NUMBER'' False [] None
          (Some (WindowSpec [] [ColName [''a'']] [OrderByExpr (Some (ColName [''b''])) False None]
             None)))) []]
       (Some (TableName [''t''])) None [] None [] None [] None [])), None) \<and>
   String 20 (Some (SelectS (SelectStmt None False
       [AliasedExpr (Some (FuncExpr ''ROW_NUMBER'' False [] None
          (Some (WindowSpec [] [ColName [''a'']] [OrderByExpr (Some (ColName [''b''])) False None]
             None)))) []]
       (Some (TableName [''t''])) None [] None [] None [] None []))) \<noteq>
     Some ''SELECT row_number() OVER (PARTITION BY a ORDER BY b) FROM t''"
  by (intro conjI)
     (simp_all add: parser_eval core_eval lexer_eval format_eval kw_select kw_row_number kw_over
        kw_partition kw_by kw_a kw_order kw_b kw_from kw_t
        cong: bind_weak_cong loop_weak_cong)

text \<open>
  Claim C5, amended. Parsing \<^verbatim>\<open>select row_number() over (partition by a order by b) from t\<close>
  gives, without error, a statement that \<^verbatim>\<open>String\<close> formats to
  \<^verbatim>\<open>SELECT ROW_NUMBER() OVER (PARTITION BY a ORDER BY b) FROM t\<close>, with any fuel of at least
  12: the function name is in upper case, the keywords are in upper case and the identifiers
  are as in the input.
\<close>

theorem window_function_output:
  assumes "12 \<le> n"
  shows "ParseSQL n ''select row_number() over (partition by a order by b) from t'' =
     Some (Some (SelectS (SelectStmt None False
       [AliasedExpr (Some (FuncExpr ''ROW_NUMBER'' False [] None
          (Some (WindowSpec [] [ColName [''a'']] [OrderByExpr (Some (ColName [''b''])) False None]
             None)))) []]
       (Some (TableName [''t''])) None [] None [] None [] None [])), None) \<and>
   String n (Some (SelectS (SelectStmt None False
       [AliasedExpr (Some (FuncExpr ''ROW_NUMBER'' False [] None
          (Some (WindowSpec [] [ColName [''a'']] [OrderByExpr (Some (ColName [''b''])) False None]
             None)))) []]
       (Some (TableName [''t''])) None [] None [] None [] None []))) =
     Some ''SELECT ROW_NUMBER() OVER (PARTITION BY a ORDER BY b) FROM t''"
proof -
  from assms obtain m where
    n: "n = Suc (Suc (Suc (Suc (Suc (Suc (Suc (Suc (Suc (Suc (Suc (Suc m)))))))))))"
    using fuel_12 by blast
  show ?thesis unfolding n
    by (intro conjI)
       (simp_all add: parser_eval core_eval lexer_eval format_eval kw_select kw_row_number kw_over
          kw_partition kw_by kw_a kw_order kw_b kw_from kw_t
          cong: bind_weak_cong loop_weak_cong)
qed

theorem window_function_output_witness:
  "ParseSQL 20 ''select row_number() over (partition by a order by b) from t'' =
     Some (Some (SelectS (SelectStmt None False
       [AliasedExpr (Some (FuncExpr ''ROW_NUMBER'' False [] None
          (Some (WindowSpec [] [ColName [''a'']] [OrderByExpr (Some (ColName [''b''])) False None]
             None)))) []]
       (Some (TableName [''t''])) None [] None [] None [] None [])), None) \<and>
   String 20 (Some (SelectS (SelectStmt None False
       [AliasedExpr (Some (FuncExpr ''ROW_NUMBER'' False [] None
          (Some (WindowSpec [] [ColName [''a'']] [OrderByExpr (Some (ColName [''b''])) False None]
             None)))) []]
       (Some (TableName [''t''])) None [] None [] None [] None []))) =
     Some ''SELECT ROW_NUMBER() OVER (PARTITION BY a ORDER BY b) FROM t''"
  using window_function_output [of 20] by simp

subsection \<open>Round trip\<close>

text \<open>
  Claim C2 fails on the code. \<^verbatim>\<open>Format\<close> writes the collation of a \<^verbatim>\<open>CollateExpr\<close> as it is
  stored, without the quoting of \<^verbatim>\<open>writeIdent\<close>. The input \<^verbatim>\<open>select a collate "b c"\<close> parses
  without error and formats to \<^verbatim>\<open>SELECT a COLLATE b c\<close>; this text parses without error too,
  to a column with the collation \<^verbatim>\<open>b\<close> and the alias \<^verbatim>\<open>c\<close>, and formats to
  \<^verbatim>\<open>SELECT a COLLATE b AS c\<close>, with any fuel of at least 12.
\<close>

theorem round_trip_collate:
  assumes "12 \<le> n"
  shows "ParseSQL n ([CHR ''s'', CHR ''e'', CHR ''l'', CHR ''e'', CHR ''c'', CHR ''t'', CHR '' '',
            CHR ''a'', CHR '' '', CHR ''c'', CHR ''o'', CHR ''l'', CHR ''l'', CHR ''a'', CHR ''t'',
            CHR ''e'', CHR '' '', CHR 0x22, CHR ''b'', CHR '' '', CHR ''c'', CHR 0x22]) =
     Some (Some (SelectS (SelectStmt None False
       [AliasedExpr (Some (CollateExpr (Some (ColName [''a''])) ''b c'')) []]
       None None [] None [] None [] None [])), None) \<and>
   String n (Some (SelectS (SelectStmt None False
       [AliasedExpr (Some (CollateExpr (Some (ColName [''a''])) ''b c'')) []]
       None None [] None [] None [] None []))) = Some ''SELECT a COLLATE b c'' \<and>
   ParseSQL n ''SELECT a COLLATE b c'' =
     Some (Some (SelectS (SelectStmt None False
       [AliasedExpr (Some (CollateExpr (Some (ColName [''a''])) ''b'')) ''c'']
       None None [] None [] None [] None [])), None) \<and>
   String n (Some (SelectS (SelectStmt None False
       [AliasedExpr (Some (CollateExpr (Some (ColName [''a''])) ''b'')) ''c'']
       None None [] None [] None [] None []))) = Some ''SELECT a COLLATE b AS c'' \<and>
   ''SELECT a COLLATE b c'' \<noteq> ''SELECT a COLLATE b AS c''"
proof -
  from assms obtain m where
    n: "n = Suc (Suc (Suc (Suc (Suc (Suc (Suc (Suc (Suc (Suc (Suc (Suc m)))))))))))"
    using fuel_12 by blast
  show ?thesis unfolding n
    by (intro conjI)
       (simp_all add: parser_eval core_eval lexer_eval format_eval kw_select kw_collate kw_a kw_b
          kw_c kw_upper_select kw_upper_collate
          cong: bind_weak_cong loop_weak_cong)
qed

theorem round_trip_collate_witness:
  "ParseSQL 20 ([CHR ''s'', CHR ''e'', CHR ''l'', CHR ''e'', CHR ''c'', CHR ''t'', CHR '' '',
            CHR ''a'', CHR '' '', CHR ''c'', CHR ''o'', CHR ''l'', CHR ''l'', CHR ''a'', CHR ''t'',
            CHR ''e'', CHR '' '', CHR 0x22, CHR ''b'', CHR '' '', CHR ''c'', CHR 0x22]) =
     Some (Some (SelectS (SelectStmt None False
       [AliasedExpr (Some (CollateExpr (Some (ColName [''a''])) ''b c'')) []]
       None None [] None [] None [] None [])), None) \<and>
   String 20 (Some (SelectS (SelectStmt None False
       [AliasedExpr (Some (CollateExpr (Some (ColName [''a''])) ''b c'')) []]
       None None [] None [] None [] None []))) = Some ''SELECT a COLLATE b c'' \<and>
   ParseSQL 20 ''SELECT a COLLATE b c'' =
     Some (Some (SelectS (SelectStmt None False
       [AliasedExpr (Some (CollateExpr (Some (ColName [''a''])) ''b'')) ''c'']
       None None [] None [] None [] None [])), None) \<and>
   String 20 (Some (SelectS (SelectStmt None False
       [AliasedExpr (Some (CollateExpr (Some (ColName [''a''])) ''b'')) ''c'']
       None None [] None [] None [] None []))) = Some ''SELECT a COLLATE b AS c''"
  using round_trip_collate [of 20] by simp

end
